theory Spec2Isabelle
  imports Main
begin

section \<open>Errors of the object store and of the reconcilers\<close>

text \<open>
  The reason of a Kubernetes API status error (\<open>metav1.StatusReason\<close>); only the reasons
  the controllers distinguish are listed, every other one is \<open>StatusReasonUnknown\<close>.
  A version conflict of an optimistic-concurrency write is \<open>StatusReasonConflict\<close> (409);
  \<open>StatusReasonInvalid\<close> is 422 Unprocessable Entity.
\<close>

datatype status_reason =
    StatusReasonUnknown
  | StatusReasonNotFound
  | StatusReasonInvalid
  | StatusReasonConflict
  | StatusReasonForbidden

datatype simple_error = StatusError status_reason | Plain string

text \<open>
  What an external call returns as a Go \<open>error\<close>: one error, or the aggregate the patch
  helper builds from the errors of its partial patches. The Go \<open>nil\<close> is \<open>None\<close> of
  \<open>api_error option\<close>.
\<close>

datatype api_error = Single simple_error | Aggregate "simple_error list"

text \<open>An error of the AWS SDK (\<open>awserr.Error\<close>), by its code.\<close>

datatype aws_error = AwsError string

definition ErrCodeNoSuchEntityException :: string where
  "ErrCodeNoSuchEntityException = ''NoSuchEntity''"

text \<open>
  What a reconciler returns: the external error as it came, a message built with
  \<open>fmt.Errorf\<close>, or one of them wrapped by \<open>microerror.Mask\<close> or \<open>errors.WithStack\<close>.
\<close>

datatype error = Raw api_error | Aws aws_error | Errorf string | Mask error | WithStack error

fun IsInvalid :: "simple_error \<Rightarrow> bool" where
  "IsInvalid (StatusError r) = (r = StatusReasonInvalid)"
| "IsInvalid (Plain m) = False"

fun IsNotFound :: "api_error \<Rightarrow> bool" where
  "IsNotFound (Single (StatusError r)) = (r = StatusReasonNotFound)"
| "IsNotFound e = False"

definition NewAggregate :: "simple_error list \<Rightarrow> api_error option" where
  "NewAggregate errs = (if errs = [] then None else Some (Aggregate errs))"

text \<open>
  \<open>errutils.FilterOut(err, fn)\<close>: \<open>nil\<close> stays \<open>nil\<close>; of an aggregate the members matching
  \<open>fn\<close> are dropped and an empty rest is \<open>nil\<close>; any other error is dropped when it matches.
\<close>

fun FilterOut :: "api_error option \<Rightarrow> (simple_error \<Rightarrow> bool) \<Rightarrow> api_error option" where
  "FilterOut None fn = None"
| "FilterOut (Some (Aggregate errs)) fn = NewAggregate (filter (\<lambda>e. \<not> fn e) errs)"
| "FilterOut (Some (Single e)) fn = (if fn e then None else Some (Single e))"

text \<open>\<open>client.IgnoreNotFound\<close>.\<close>

definition IgnoreNotFound :: "api_error \<Rightarrow> api_error option" where
  "IgnoreNotFound err = (if IsNotFound err then None else Some err)"

section \<open>Objects, finalizers and the calls a reconcile makes\<close>

text \<open>
  The role-type constants of package \<open>iam\<close> are not part of the sources at hand; they are
  parameters of every function that uses them.
\<close>

record iam_consts =
  ControlPlaneRole :: string
  BastionRole :: string
  IRSARole :: string

definition FinalizerName :: "string \<Rightarrow> string" where
  "FinalizerName roleName = ''capa-iam-controller.finalizers.giantswarm.io/'' @ roleName"

type_synonym obj_key = "string \<times> string \<times> string"

record k8s_object =
  objKind :: string
  objNamespace :: string
  objName :: string
  objLabels :: "(string \<times> string) list"
  objDeleting :: bool
  objFinalizers :: "string list"

definition objKey :: "k8s_object \<Rightarrow> obj_key" where
  "objKey ob = (objKind ob, objNamespace ob, objName ob)"

definition ContainsFinalizer :: "k8s_object \<Rightarrow> string \<Rightarrow> bool" where
  "ContainsFinalizer ob f = (f \<in> set (objFinalizers ob))"

definition RemoveFinalizer :: "k8s_object \<Rightarrow> string \<Rightarrow> k8s_object" where
  "RemoveFinalizer ob f = ob\<lparr>objFinalizers := filter (\<lambda>x. x \<noteq> f) (objFinalizers ob)\<rparr>"

definition AddFinalizer :: "k8s_object \<Rightarrow> string \<Rightarrow> k8s_object" where
  "AddFinalizer ob f =
     (if f \<in> set (objFinalizers ob) then ob
      else ob\<lparr>objFinalizers := objFinalizers ob @ [f]\<rparr>)"

text \<open>
  The object store as one reconcile sees it. Each field is the answer of one external
  call: the patch helper's constructor, its \<open>Patch\<close>, and the \<open>Get\<close> that re-reads an
  object, each for an object key and the number of the attempt that makes the call. Other
  controllers write to the same store, so a re-read may return any finalizer list.
\<close>

record client_env =
  newHelper :: "obj_key \<Rightarrow> nat \<Rightarrow> api_error option"
  patch :: "obj_key \<Rightarrow> nat \<Rightarrow> api_error option"
  refetch :: "obj_key \<Rightarrow> nat \<Rightarrow> api_error + string list"

text \<open>The external calls of a reconcile, in the order they are made.\<close>

datatype event =
    EvNewHelper obj_key
  | EvPatch obj_key "string list" "api_error option"
  | EvGet obj_key
  | EvList string
  | EvIsRoleUsedElsewhere string
  | EvDeleteRole
  | EvDeleteRolesForIRSA
  | EvReconcileRole
  | EvReconcileRolesForIRSA string string string
  | EvOther string
  | EvAWS string

fun is_patch :: "event \<Rightarrow> bool" where
  "is_patch (EvPatch key fs r) = True"
| "is_patch ev = False"

fun is_get :: "event \<Rightarrow> bool" where
  "is_get (EvGet key) = True"
| "is_get ev = False"

definition patch_attempts :: "event list \<Rightarrow> nat" where
  "patch_attempts tr = length (filter is_patch tr)"

definition refetches :: "event list \<Rightarrow> nat" where
  "refetches tr = length (filter is_get tr)"

section \<open>The finalizer coordinator: \<open>removeFinalizer\<close>\<close>

definition maxPatchRetries :: nat where
  "maxPatchRetries = 5"

text \<open>
  The body of \<open>for i := 1; i <= maxPatchRetries; i++\<close> at counter \<open>i\<close>, followed by the
  rest of the loop. \<open>continue\<close> and the end of the body both go on with \<open>i + 1\<close>: a patch
  that succeeded does not leave the loop. The result is the returned error, the object as
  the caller's pointer holds it afterwards, and the external calls made.
\<close>

function removeFinalizer_loop ::
  "iam_consts \<Rightarrow> client_env \<Rightarrow> nat \<Rightarrow> k8s_object \<Rightarrow> error option \<times> k8s_object \<times> event list"
where
  "removeFinalizer_loop k c i object =
     (if i \<le> maxPatchRetries then
        (case newHelper c (objKey object) i of
           Some err \<Rightarrow> (Some (WithStack (Raw err)), object, [EvNewHelper (objKey object)])
         | None \<Rightarrow>
            (if FilterOut (patch c (objKey object) i) (\<lambda>e. \<not> IsInvalid e) \<noteq> None
                \<and> i < maxPatchRetries then
               (case refetch c (objKey object) i of
                  Inl e \<Rightarrow>
                    (Some (Mask (Raw e)),
                     RemoveFinalizer object (FinalizerName (ControlPlaneRole k)),
                     [EvNewHelper (objKey object),
                      EvPatch (objKey object)
                        (objFinalizers (RemoveFinalizer object (FinalizerName (ControlPlaneRole k))))
                        (patch c (objKey object) i),
                      EvGet (objKey object)])
                | Inr fs \<Rightarrow>
                    (case removeFinalizer_loop k c (i + 1) (object\<lparr>objFinalizers := fs\<rparr>) of
                       (r, ob, tr) \<Rightarrow>
                         (r, ob,
                          [EvNewHelper (objKey object),
                           EvPatch (objKey object)
                             (objFinalizers (RemoveFinalizer object (FinalizerName (ControlPlaneRole k))))
                             (patch c (objKey object) i),
                           EvGet (objKey object)] @ tr)))
             else
               (case patch c (objKey object) i of
                  Some e \<Rightarrow>
                    (Some (Mask (Raw e)),
                     RemoveFinalizer object (FinalizerName (ControlPlaneRole k)),
                     [EvNewHelper (objKey object),
                      EvPatch (objKey object)
                        (objFinalizers (RemoveFinalizer object (FinalizerName (ControlPlaneRole k))))
                        (patch c (objKey object) i)])
                | None \<Rightarrow>
                    (case removeFinalizer_loop k c (i + 1)
                            (RemoveFinalizer object (FinalizerName (ControlPlaneRole k))) of
                       (r, ob, tr) \<Rightarrow>
                         (r, ob,
                          [EvNewHelper (objKey object),
                           EvPatch (objKey object)
                             (objFinalizers (RemoveFinalizer object (FinalizerName (ControlPlaneRole k))))
                             None] @ tr)))))
      else (None, object, []))"
  by pat_completeness auto
termination
  by (relation "measure (\<lambda>(k, c, i, object). maxPatchRetries + 1 - i)") auto

declare removeFinalizer_loop.simps [simp del]

definition removeFinalizer ::
  "iam_consts \<Rightarrow> client_env \<Rightarrow> k8s_object \<Rightarrow> error option \<times> k8s_object \<times> event list"
where
  "removeFinalizer k c object =
     (if \<not> ContainsFinalizer object (FinalizerName (ControlPlaneRole k)) then (None, object, [])
      else removeFinalizer_loop k c 1 object)"

definition retryable :: "api_error option \<Rightarrow> bool" where
  "retryable err = (FilterOut err (\<lambda>e. \<not> IsInvalid e) \<noteq> None)"

definition res_error :: "'e \<times> 'o \<times> 't \<Rightarrow> 'e" where
  "res_error r = fst r"

definition res_trace :: "'e \<times> 'o \<times> 't \<Rightarrow> 't" where
  "res_trace r = snd (snd r)"

section \<open>Package \<open>key\<close>\<close>

definition ClusterNameLabel :: string where
  "ClusterNameLabel = ''cluster.x-k8s.io/cluster-name''"

definition GetClusterIDFromLabels :: "k8s_object \<Rightarrow> string" where
  "GetClusterIDFromLabels t = (case map_of (objLabels t) ClusterNameLabel of None \<Rightarrow> [] | Some v \<Rightarrow> v)"

record AWSCluster =
  clMeta :: k8s_object
  clRegion :: string
  clIdentityRefName :: string
  clAdditionalTags :: "(string \<times> string) list"

text \<open>
  \<open>ctrlClient.List\<close> with \<open>client.MatchingLabels\<close>: the call fails, or it yields the
  objects of the store that carry every label of the selector, in the store's order.
\<close>

definition MatchingLabels :: "(string \<times> string) list \<Rightarrow> k8s_object \<Rightarrow> bool" where
  "MatchingLabels sel ob = list_all (\<lambda>(l, v). map_of (objLabels ob) l = Some v) sel"

definition List_AWSCluster ::
  "api_error + AWSCluster list \<Rightarrow> (string \<times> string) list \<Rightarrow> api_error + AWSCluster list"
where
  "List_AWSCluster store sel =
     (case store of
        Inl err \<Rightarrow> Inl err
      | Inr items \<Rightarrow> Inr (filter (\<lambda>c. MatchingLabels sel (clMeta c)) items))"

fun digit :: "nat \<Rightarrow> char" where
  "digit n = (''0123456789'' ! (n mod 10))"

fun show_nat :: "nat \<Rightarrow> string" where
  "show_nat n = (if n < 10 then [digit n] else show_nat (n div 10) @ [digit n])"

declare show_nat.simps [simp del]

text \<open>
  \<open>GetAWSClusterByName\<close>; the first argument is what the store holds (or the error the
  \<open>List\<close> call fails with).
\<close>

definition GetAWSClusterByName :: "api_error + AWSCluster list \<Rightarrow> string \<Rightarrow> error + AWSCluster" where
  "GetAWSClusterByName store clusterName =
     (case List_AWSCluster store [(ClusterNameLabel, clusterName)] of
        Inl err \<Rightarrow> Inl (Raw err)
      | Inr items \<Rightarrow>
          if length items \<noteq> 1
          then Inl (Errorf (''expected 1 AWSCluster but found '' @ show_nat (length items)))
          else Inr (items ! 0))"

section \<open>\<open>AWSMachineTemplateReconciler\<close>\<close>

record AWSMachineTemplate =
  mtMeta :: k8s_object
  mtIAMInstanceProfile :: string

record ctrl_result =
  Requeue :: bool
  RequeueAfter :: nat

definition Result_empty :: ctrl_result where
  "Result_empty = \<lparr>Requeue = False, RequeueAfter = 0\<rparr>"

text \<open>\<open>time.Minute\<close>, in nanoseconds as \<open>time.Duration\<close> counts.\<close>

definition Minute :: nat where
  "Minute = 60 * 1000000000"

text \<open>
  What one run of the reconciler meets outside of its own code: the object store and the
  answers of the calls into package \<open>iam\<close> and of the helpers \<open>isRoleUsedElsewhere\<close>,
  \<open>key.GetAWSClusterRoleIdentity\<close>, \<open>key.GetAWSAccountID\<close>, \<open>key.GetBaseDomain\<close>,
  \<open>key.IRSADomain\<close> and \<open>key.GetAdditionalIrsaDomain\<close>, none of which is among the sources
  at hand.
\<close>

record reconciler_env =
  envClient :: client_env
  envAWSClusters :: "api_error + AWSCluster list"
  envGetObject :: "obj_key \<Rightarrow> api_error + k8s_object"
  envIsRoleUsedElsewhere :: "string \<Rightarrow> error + bool"
  envDeleteRole :: "error option"
  envDeleteRolesForIRSA :: "error option"
  envReconcileRole :: "error option"
  envReconcileRolesForIRSA :: "string \<Rightarrow> string \<Rightarrow> string \<Rightarrow> error option"
  envGetAWSClusterRoleIdentity :: "string \<Rightarrow> error + string"
  envGetAWSAccountID :: "string \<Rightarrow> error + string"
  envGetBaseDomain :: "string \<Rightarrow> string \<Rightarrow> error + string"
  envIRSADomain :: "string \<Rightarrow> string \<Rightarrow> string \<Rightarrow> string \<Rightarrow> string"
  envGetAdditionalIrsaDomain :: "AWSMachineTemplate \<Rightarrow> string"

text \<open>
  The block \<open>if !roleUsed { ... }\<close> of \<open>reconcileDelete\<close>: the error it returns with, if any,
  and the calls it makes.
\<close>

definition reconcileDelete_roles ::
  "iam_consts \<Rightarrow> bool \<Rightarrow> reconciler_env \<Rightarrow> bool \<Rightarrow> string \<Rightarrow> error option \<times> event list"
where
  "reconcileDelete_roles k enableRoute53Role env roleUsed role =
     (if \<not> roleUsed then
        (case envDeleteRole env of
           Some err \<Rightarrow> (Some err, [EvDeleteRole])
         | None \<Rightarrow>
             if role = ControlPlaneRole k then
               if enableRoute53Role then
                 (case envDeleteRolesForIRSA env of
                    Some err \<Rightarrow> (Some err, [EvDeleteRole, EvDeleteRolesForIRSA])
                  | None \<Rightarrow> (None, [EvDeleteRole, EvDeleteRolesForIRSA]))
               else (None, [EvDeleteRole])
             else (None, [EvDeleteRole]))
      else (None, []))"

definition configMapKey :: "string \<Rightarrow> string \<Rightarrow> obj_key" where
  "configMapKey namespace clusterName = (''ConfigMap'', namespace, clusterName @ ''-'' @ ''cluster-values'')"

definition reconcileDelete ::
  "iam_consts \<Rightarrow> bool \<Rightarrow> reconciler_env \<Rightarrow> AWSMachineTemplate \<Rightarrow> string \<Rightarrow> string \<Rightarrow> string
     \<Rightarrow> ctrl_result \<times> error option \<times> event list"
where
  "reconcileDelete k enableRoute53Role env awsMachineTemplate clusterName namespace role =
     (case envIsRoleUsedElsewhere env (mtIAMInstanceProfile awsMachineTemplate) of
        Inl err \<Rightarrow>
          (Result_empty, Some err, [EvIsRoleUsedElsewhere (mtIAMInstanceProfile awsMachineTemplate)])
      | Inr roleUsed \<Rightarrow>
         (case reconcileDelete_roles k enableRoute53Role env roleUsed role of
            (Some err, tr1) \<Rightarrow>
              (Result_empty, Some err,
               EvIsRoleUsedElsewhere (mtIAMInstanceProfile awsMachineTemplate) # tr1)
          | (None, tr1) \<Rightarrow>
             (case GetAWSClusterByName (envAWSClusters env) clusterName of
                Inl err \<Rightarrow>
                  (Result_empty, Some err,
                   EvIsRoleUsedElsewhere (mtIAMInstanceProfile awsMachineTemplate) # tr1
                     @ [EvList clusterName])
              | Inr awsCluster \<Rightarrow>
                 (case removeFinalizer k (envClient env) (clMeta awsCluster) of
                    (Some err, ob2, tr2) \<Rightarrow>
                      (Result_empty, Some err,
                       EvIsRoleUsedElsewhere (mtIAMInstanceProfile awsMachineTemplate) # tr1
                         @ [EvList clusterName] @ tr2)
                  | (None, ob2, tr2) \<Rightarrow>
                     (case removeFinalizer k (envClient env) (mtMeta awsMachineTemplate) of
                        (Some err, ob3, tr3) \<Rightarrow>
                          (Result_empty, Some err,
                           EvIsRoleUsedElsewhere (mtIAMInstanceProfile awsMachineTemplate) # tr1
                             @ [EvList clusterName] @ tr2 @ tr3)
                      | (None, ob3, tr3) \<Rightarrow>
                         (case envGetObject env (configMapKey namespace clusterName) of
                            Inl err \<Rightarrow>
                              (Result_empty,
                               map_option (\<lambda>e. WithStack (Raw e)) (IgnoreNotFound err),
                               EvIsRoleUsedElsewhere (mtIAMInstanceProfile awsMachineTemplate) # tr1
                                 @ [EvList clusterName] @ tr2 @ tr3
                                 @ [EvGet (configMapKey namespace clusterName)])
                          | Inr cm \<Rightarrow>
                             (case removeFinalizer k (envClient env) cm of
                                (Some err, ob4, tr4) \<Rightarrow>
                                  (Result_empty, Some err,
                                   EvIsRoleUsedElsewhere (mtIAMInstanceProfile awsMachineTemplate) # tr1
                                     @ [EvList clusterName] @ tr2 @ tr3
                                     @ [EvGet (configMapKey namespace clusterName)] @ tr4)
                              | (None, ob4, tr4) \<Rightarrow>
                                  (Result_empty, None,
                                   EvIsRoleUsedElsewhere (mtIAMInstanceProfile awsMachineTemplate) # tr1
                                     @ [EvList clusterName] @ tr2 @ tr3
                                     @ [EvGet (configMapKey namespace clusterName)] @ tr4))))))))"

text \<open>
  \<open>reconcileNormal\<close>. The finalizer is added with one patch, without the retry loop; the
  attempt number of that patch is 0.
\<close>

definition reconcileNormal_irsa ::
  "reconciler_env \<Rightarrow> AWSMachineTemplate \<Rightarrow> AWSCluster \<Rightarrow> string \<Rightarrow> string
     \<Rightarrow> ctrl_result \<times> error option \<times> event list"
where
  "reconcileNormal_irsa env awsMachineTemplate awsCluster clusterName namespace =
     (case envGetAWSClusterRoleIdentity env (clIdentityRefName awsCluster) of
        Inl err \<Rightarrow> (Result_empty, Some (WithStack err), [EvOther ''GetAWSClusterRoleIdentity''])
      | Inr awsClusterRoleIdentity \<Rightarrow>
         (case envGetAWSAccountID env awsClusterRoleIdentity of
            Inl err \<Rightarrow> (Result_empty, Some (WithStack err), [EvOther ''GetAWSClusterRoleIdentity''])
          | Inr accountID \<Rightarrow>
             (case envGetBaseDomain env clusterName namespace of
                Inl err \<Rightarrow>
                  (Result_empty, Some (WithStack err),
                   [EvOther ''GetAWSClusterRoleIdentity'', EvOther ''GetBaseDomain''])
              | Inr baseDomain \<Rightarrow>
                 (case envReconcileRolesForIRSA env accountID
                         (envIRSADomain env baseDomain (clRegion awsCluster) accountID clusterName)
                         (envGetAdditionalIrsaDomain env awsMachineTemplate) of
                    Some err \<Rightarrow>
                      (Result_empty, Some (WithStack err),
                       [EvOther ''GetAWSClusterRoleIdentity'', EvOther ''GetBaseDomain'',
                        EvReconcileRolesForIRSA accountID
                          (envIRSADomain env baseDomain (clRegion awsCluster) accountID clusterName)
                          (envGetAdditionalIrsaDomain env awsMachineTemplate)])
                  | None \<Rightarrow>
                      (Result_empty, None,
                       [EvOther ''GetAWSClusterRoleIdentity'', EvOther ''GetBaseDomain'',
                        EvReconcileRolesForIRSA accountID
                          (envIRSADomain env baseDomain (clRegion awsCluster) accountID clusterName)
                          (envGetAdditionalIrsaDomain env awsMachineTemplate)])))))"

definition reconcileNormal_addFinalizer ::
  "iam_consts \<Rightarrow> client_env \<Rightarrow> k8s_object \<Rightarrow> string \<Rightarrow> error option \<times> k8s_object \<times> event list"
where
  "reconcileNormal_addFinalizer k c object f =
     (if \<not> ContainsFinalizer object f then
        (case newHelper c (objKey object) 0 of
           Some err \<Rightarrow> (Some (Raw err), object, [EvNewHelper (objKey object)])
         | None \<Rightarrow>
            (case patch c (objKey object) 0 of
               Some err \<Rightarrow>
                 (Some (Raw err), AddFinalizer object f,
                  [EvNewHelper (objKey object),
                   EvPatch (objKey object) (objFinalizers (AddFinalizer object f)) (Some err)])
             | None \<Rightarrow>
                 (None, AddFinalizer object f,
                  [EvNewHelper (objKey object),
                   EvPatch (objKey object) (objFinalizers (AddFinalizer object f)) None])))
      else (None, object, []))"

definition reconcileNormal ::
  "iam_consts \<Rightarrow> bool \<Rightarrow> reconciler_env \<Rightarrow> AWSMachineTemplate \<Rightarrow> string \<Rightarrow> string \<Rightarrow> string
     \<Rightarrow> ctrl_result \<times> error option \<times> event list"
where
  "reconcileNormal k enableRoute53Role env awsMachineTemplate clusterName namespace role =
     (case reconcileNormal_addFinalizer k (envClient env) (mtMeta awsMachineTemplate)
             (FinalizerName (ControlPlaneRole k)) of
        (Some err, ob1, tr1) \<Rightarrow> (Result_empty, Some (WithStack err), tr1)
      | (None, ob1, tr1) \<Rightarrow>
         (case GetAWSClusterByName (envAWSClusters env) clusterName of
            Inl err \<Rightarrow> (Result_empty, Some (WithStack err), tr1 @ [EvList clusterName])
          | Inr awsCluster \<Rightarrow>
             (case envReconcileRole env of
                Some err \<Rightarrow> (Result_empty, Some err, tr1 @ [EvList clusterName, EvReconcileRole])
              | None \<Rightarrow>
                  if role = ControlPlaneRole k then
                    if enableRoute53Role then
                      (case reconcileNormal_irsa env (awsMachineTemplate\<lparr>mtMeta := ob1\<rparr>)
                              awsCluster clusterName namespace of
                         (res, err, tr2) \<Rightarrow>
                           (res, err, tr1 @ [EvList clusterName, EvReconcileRole] @ tr2))
                    else (Result_empty, None, tr1 @ [EvList clusterName, EvReconcileRole])
                  else (Result_empty, None, tr1 @ [EvList clusterName, EvReconcileRole]))))"

section \<open>\<open>AWSManagedControlPlaneReconciler\<close>\<close>

record AWSManagedControlPlane =
  mcpMeta :: k8s_object
  mcpRoleName :: "string option"
  mcpIdentityRefName :: string
  mcpRegion :: string

text \<open>
  What one run of \<open>AWSManagedControlPlaneReconciler.Reconcile\<close> meets outside of its own
  code. \<open>key.GetClusterIDFromLabels\<close> is called here in its two-result form and
  \<open>key.HasCapiWatchLabel\<close> is not among the sources at hand, so the answers of both are
  taken from the environment, as are those of the AWS session, of STS and of package \<open>iam\<close>.
\<close>

record mcp_env =
  mcpClient :: client_env
  mcpGet :: "obj_key \<Rightarrow> api_error + AWSManagedControlPlane"
  mcpGetClusterIDFromLabels :: "k8s_object \<Rightarrow> error + string"
  mcpHasCapiWatchLabel :: "(string \<times> string) list \<Rightarrow> bool"
  mcpGetAWSClusterRoleIdentity :: "string \<Rightarrow> error + string"
  mcpGetAWSClientSession :: "string \<Rightarrow> string \<Rightarrow> error option"
  mcpGetCallerIdentity :: "error option"
  mcpIamNew :: "error option"
  mcpDeleteRolesForIRSA :: "error option"
  mcpGetAWSAccountID :: "string \<Rightarrow> error + string"
  mcpGetIRSAOpenIDURlForEKS :: "string \<Rightarrow> error + string"
  mcpGetRoleARN :: "string \<Rightarrow> error + string"
  mcpReconcileRolesForIRSA :: "string \<Rightarrow> string \<Rightarrow> error option"

definition Result_requeue :: ctrl_result where
  "Result_requeue = \<lparr>Requeue = True, RequeueAfter = 0\<rparr>"

text \<open>The branch \<open>eksCluster.DeletionTimestamp != nil\<close>, up to the final \<open>return\<close>.\<close>

definition Reconcile_mcp_delete ::
  "iam_consts \<Rightarrow> mcp_env \<Rightarrow> AWSManagedControlPlane \<Rightarrow> ctrl_result \<times> error option \<times> event list"
where
  "Reconcile_mcp_delete k env eksCluster =
     (case mcpDeleteRolesForIRSA env of
        Some err \<Rightarrow> (Result_empty, Some (Mask err), [EvDeleteRolesForIRSA])
      | None \<Rightarrow>
          if ContainsFinalizer (mcpMeta eksCluster) (FinalizerName (IRSARole k)) then
            (case newHelper (mcpClient env) (objKey (mcpMeta eksCluster)) 0 of
               Some err \<Rightarrow>
                 (Result_empty, Some (Mask (Raw err)),
                  [EvDeleteRolesForIRSA, EvNewHelper (objKey (mcpMeta eksCluster))])
             | None \<Rightarrow>
                (case patch (mcpClient env) (objKey (mcpMeta eksCluster)) 0 of
                   Some err \<Rightarrow>
                     (Result_empty, Some (Mask (Raw err)),
                      [EvDeleteRolesForIRSA, EvNewHelper (objKey (mcpMeta eksCluster)),
                       EvPatch (objKey (mcpMeta eksCluster))
                         (objFinalizers (RemoveFinalizer (mcpMeta eksCluster) (FinalizerName (IRSARole k))))
                         (Some err)])
                 | None \<Rightarrow>
                     (Result_requeue, None,
                      [EvDeleteRolesForIRSA, EvNewHelper (objKey (mcpMeta eksCluster)),
                       EvPatch (objKey (mcpMeta eksCluster))
                         (objFinalizers (RemoveFinalizer (mcpMeta eksCluster) (FinalizerName (IRSARole k))))
                         None])))
          else (Result_requeue, None, [EvDeleteRolesForIRSA]))"

text \<open>The \<open>else\<close> branch, up to the final \<open>return\<close>.\<close>

definition Reconcile_mcp_normal ::
  "iam_consts \<Rightarrow> mcp_env \<Rightarrow> AWSManagedControlPlane \<Rightarrow> string \<Rightarrow> string
     \<Rightarrow> ctrl_result \<times> error option \<times> event list"
where
  "Reconcile_mcp_normal k env eksCluster awsClusterRoleIdentity roleName =
     (case reconcileNormal_addFinalizer k (mcpClient env) (mcpMeta eksCluster)
             (FinalizerName (IRSARole k)) of
        (Some err, ob1, tr1) \<Rightarrow> (Result_empty, Some (Mask err), tr1)
      | (None, ob1, tr1) \<Rightarrow>
         (case mcpGetAWSAccountID env awsClusterRoleIdentity of
            Inl err \<Rightarrow> (Result_empty, Some (Mask err), tr1)
          | Inr accountID \<Rightarrow>
             (case mcpGetIRSAOpenIDURlForEKS env (objName (mcpMeta eksCluster)) of
                Inl err \<Rightarrow> (Result_empty, Some (Mask err), tr1 @ [EvAWS ''GetIRSAOpenIDURlForEKS''])
              | Inr eksOpenIdDomain \<Rightarrow>
                 (case mcpGetRoleARN env roleName of
                    Inl err \<Rightarrow>
                      (Result_empty, Some (Mask err),
                       tr1 @ [EvAWS ''GetIRSAOpenIDURlForEKS'', EvAWS ''GetRoleARN''])
                  | Inr eksRoleARN \<Rightarrow>
                     (case mcpReconcileRolesForIRSA env accountID eksOpenIdDomain of
                        Some err \<Rightarrow>
                          (Result_empty, Some (Mask err),
                           tr1 @ [EvAWS ''GetIRSAOpenIDURlForEKS'', EvAWS ''GetRoleARN'',
                                  EvReconcileRolesForIRSA accountID eksOpenIdDomain []])
                      | None \<Rightarrow>
                          (Result_requeue, None,
                           tr1 @ [EvAWS ''GetIRSAOpenIDURlForEKS'', EvAWS ''GetRoleARN'',
                                  EvReconcileRolesForIRSA accountID eksOpenIdDomain []]))))))"

text \<open>From the session to the IAM service: the block between the role-name check and the branch.\<close>

definition Reconcile_mcp_service ::
  "iam_consts \<Rightarrow> mcp_env \<Rightarrow> AWSManagedControlPlane \<Rightarrow> string
     \<Rightarrow> ctrl_result \<times> error option \<times> event list"
where
  "Reconcile_mcp_service k env eksCluster roleName =
     (case mcpGetAWSClusterRoleIdentity env (mcpIdentityRefName eksCluster) of
        Inl err \<Rightarrow> (Result_empty, Some (Mask err), [EvOther ''GetAWSClusterRoleIdentity''])
      | Inr awsClusterRoleIdentity \<Rightarrow>
         (case mcpGetAWSClientSession env awsClusterRoleIdentity (mcpRegion eksCluster) of
            Some err \<Rightarrow>
              (Result_empty, Some (Mask err),
               [EvOther ''GetAWSClusterRoleIdentity'', EvAWS ''GetAWSClientSession''])
          | None \<Rightarrow>
             (case mcpGetCallerIdentity env of
                Some err \<Rightarrow>
                  (Result_empty, Some (Mask err),
                   [EvOther ''GetAWSClusterRoleIdentity'', EvAWS ''GetAWSClientSession'',
                    EvAWS ''GetCallerIdentity''])
              | None \<Rightarrow>
                 (case mcpIamNew env of
                    Some err \<Rightarrow>
                      (Result_empty, Some (Mask err),
                       [EvOther ''GetAWSClusterRoleIdentity'', EvAWS ''GetAWSClientSession'',
                        EvAWS ''GetCallerIdentity''])
                  | None \<Rightarrow>
                     (case (if objDeleting (mcpMeta eksCluster)
                            then Reconcile_mcp_delete k env eksCluster
                            else Reconcile_mcp_normal k env eksCluster awsClusterRoleIdentity roleName) of
                        (res, err, tr) \<Rightarrow>
                          (res, err,
                           [EvOther ''GetAWSClusterRoleIdentity'', EvAWS ''GetAWSClientSession'',
                            EvAWS ''GetCallerIdentity''] @ tr))))))"

definition Reconcile_mcp ::
  "iam_consts \<Rightarrow> mcp_env \<Rightarrow> obj_key \<Rightarrow> ctrl_result \<times> error option \<times> event list"
where
  "Reconcile_mcp k env req =
     (case mcpGet env req of
        Inl err \<Rightarrow>
          if IsNotFound err then (Result_empty, None, [EvGet req])
          else (Result_empty, Some (Mask (Raw err)), [EvGet req])
      | Inr eksCluster \<Rightarrow>
         (case mcpGetClusterIDFromLabels env (mcpMeta eksCluster) of
            Inl err \<Rightarrow> (Result_empty, Some (Mask err), [EvGet req])
          | Inr clusterName \<Rightarrow>
              if \<not> mcpHasCapiWatchLabel env (objLabels (mcpMeta eksCluster))
              then (Result_empty, None, [EvGet req])
              else
                (case mcpRoleName eksCluster of
                   None \<Rightarrow> (\<lparr>Requeue = True, RequeueAfter = Minute\<rparr>, None, [EvGet req])
                 | Some roleName \<Rightarrow>
                    (case Reconcile_mcp_service k env eksCluster roleName of
                       (res, err, tr) \<Rightarrow> (res, err, EvGet req # tr)))))"

section \<open>Package \<open>iam\<close>, as the specification describes it\<close>

subsection \<open>Tag policy\<close>

datatype RoleType = RoleTypeControlPlane | RoleTypeBastion | RoleTypeIRSA

record RoleSpec =
  rsRoleName :: string
  rsRoleType :: RoleType
  rsClusterName :: string
  rsRegion :: string
  rsAccountID :: string
  rsCustomTags :: "(string \<times> string) list"

definition ownedTagKey :: string where
  "ownedTagKey = ''capi-iam-controller/owned''"

definition clusterTagKey :: "string \<Rightarrow> string" where
  "clusterTagKey clusterName = ''sigs.k8s.io/cluster-api-provider-aws/cluster/'' @ clusterName"

text \<open>
  Modelled from the spec: the Tag Policy of package \<open>iam\<close> (section 4.2), whose code is not
  among the sources at hand. The tag set is the ownership marker, the cluster-ownership
  marker keyed by the cluster name, and the caller's custom tags, where the reserved keys
  win on conflict. Keys and values of the two markers are those the reconciler test
  expects on every created resource (\<open>expectedIAMTags\<close>).
\<close>

definition tagPolicy :: "RoleSpec \<Rightarrow> (string \<times> string) list" where
  "tagPolicy spec =
     [(ownedTagKey, []), (clusterTagKey (rsClusterName spec), ''owned'')]
     @ filter (\<lambda>(key, v). key \<noteq> ownedTagKey \<and> key \<noteq> clusterTagKey (rsClusterName spec))
         (rsCustomTags spec)"

definition expectedIAMTags :: "(string \<times> string) list" where
  "expectedIAMTags =
     [(''capi-iam-controller/owned'', []),
      (''sigs.k8s.io/cluster-api-provider-aws/cluster/test-cluster'', ''owned'')]"

subsection \<open>Deleting a role\<close>

text \<open>The answers of the IAM API to the calls of a role's teardown.\<close>

record iam_delete_env =
  iamListRolePolicies :: "string \<Rightarrow> aws_error + string list"
  iamDeleteRolePolicy :: "string \<Rightarrow> string \<Rightarrow> aws_error option"
  iamRemoveRoleFromInstanceProfile :: "string \<Rightarrow> aws_error option"
  iamDeleteInstanceProfile :: "string \<Rightarrow> aws_error option"
  iamDeleteRole :: "string \<Rightarrow> aws_error option"

datatype iam_call =
    GetRole string
  | CreateRole string string "(string \<times> string) list"
  | CreateInstanceProfile string "(string \<times> string) list"
  | AddRoleToInstanceProfile string string
  | UpdateAssumeRolePolicy string string
  | ListRolePolicies string
  | PutRolePolicy string string string
  | DeleteRolePolicy string string
  | RemoveRoleFromInstanceProfile string string
  | DeleteInstanceProfile string
  | DeleteRoleCall string
  | TagRole string "(string \<times> string) list"

definition IsNotFoundAws :: "aws_error \<Rightarrow> bool" where
  "IsNotFoundAws err = (case err of AwsError code \<Rightarrow> code = ErrCodeNoSuchEntityException)"

text \<open>A teardown step's answer, with "not found" taken as success.\<close>

definition ignoreNotFoundAws :: "aws_error option \<Rightarrow> error option" where
  "ignoreNotFoundAws r =
     (case r of None \<Rightarrow> None | Some err \<Rightarrow> if IsNotFoundAws err then None else Some (Aws err))"

fun deleteInlinePolicies ::
  "iam_delete_env \<Rightarrow> string \<Rightarrow> string list \<Rightarrow> error option \<times> iam_call list"
where
  "deleteInlinePolicies env roleName [] = (None, [])"
| "deleteInlinePolicies env roleName (p # ps) =
     (case ignoreNotFoundAws (iamDeleteRolePolicy env roleName p) of
        Some err \<Rightarrow> (Some err, [DeleteRolePolicy roleName p])
      | None \<Rightarrow>
          (case deleteInlinePolicies env roleName ps of
             (r, calls) \<Rightarrow> (r, DeleteRolePolicy roleName p # calls)))"

text \<open>
  Modelled from the spec: \<open>DeleteRole\<close> of package \<open>iam\<close> (section 4.3), whose code is not
  among the sources at hand. It removes the inline policies, detaches and deletes the
  instance profile, and deletes the role; "not found" is success at every step, any other
  remote failure is returned.
\<close>

definition DeleteRole_spec :: "iam_delete_env \<Rightarrow> string \<Rightarrow> error option \<times> iam_call list" where
  "DeleteRole_spec env roleName =
     (case (case iamListRolePolicies env roleName of
              Inl err \<Rightarrow> if IsNotFoundAws err then Inr [] else Inl (Aws err)
            | Inr ps \<Rightarrow> Inr ps) of
        Inl err \<Rightarrow> (Some err, [ListRolePolicies roleName])
      | Inr ps \<Rightarrow>
         (case deleteInlinePolicies env roleName ps of
            (Some err, calls) \<Rightarrow> (Some err, ListRolePolicies roleName # calls)
          | (None, calls) \<Rightarrow>
             (case ignoreNotFoundAws (iamRemoveRoleFromInstanceProfile env roleName) of
                Some err \<Rightarrow>
                  (Some err,
                   ListRolePolicies roleName # calls @ [RemoveRoleFromInstanceProfile roleName roleName])
              | None \<Rightarrow>
                 (case ignoreNotFoundAws (iamDeleteInstanceProfile env roleName) of
                    Some err \<Rightarrow>
                      (Some err,
                       ListRolePolicies roleName # calls
                         @ [RemoveRoleFromInstanceProfile roleName roleName,
                            DeleteInstanceProfile roleName])
                  | None \<Rightarrow>
                      (ignoreNotFoundAws (iamDeleteRole env roleName),
                       ListRolePolicies roleName # calls
                         @ [RemoveRoleFromInstanceProfile roleName roleName,
                            DeleteInstanceProfile roleName, DeleteRoleCall roleName])))))"

text \<open>Every answer of the IAM API to a teardown of the role is success or "not found".\<close>

definition teardown_ok_or_absent :: "iam_delete_env \<Rightarrow> string \<Rightarrow> bool" where
  "teardown_ok_or_absent env roleName =
     ((case iamListRolePolicies env roleName of
         Inl err \<Rightarrow> IsNotFoundAws err
       | Inr ps \<Rightarrow> list_all (\<lambda>p. ignoreNotFoundAws (iamDeleteRolePolicy env roleName p) = None) ps)
      \<and> ignoreNotFoundAws (iamRemoveRoleFromInstanceProfile env roleName) = None
      \<and> ignoreNotFoundAws (iamDeleteInstanceProfile env roleName) = None
      \<and> ignoreNotFoundAws (iamDeleteRole env roleName) = None)"

subsection \<open>Workload-identity roles and the rotation of the issuer domain\<close>

text \<open>
  Of a role the remote IAM state holds the trust policy, as the list of the issuer domains
  it has a trust statement for; a role that does not exist has none.
\<close>

type_synonym trust_policy = "string list"

type_synonym iam_remote = "string \<Rightarrow> trust_policy option"

record IRSABinding =
  bindWorkload :: string
  bindRoleName :: string
  bindPolicyName :: string
  bindPolicyDocument :: string

datatype irsa_step =
  StepGetRole | StepEnsureRole | StepEnsureInlinePolicy | StepConfirm | StepRemoveOld

text \<open>The remote failure, if any, that a step of a binding's reconcile meets.\<close>

type_synonym irsa_faults = "string \<Rightarrow> irsa_step \<Rightarrow> aws_error option"

datatype irsa_event =
    TrustWritten string trust_policy
  | PolicyWritten string string
  | TrustConfirmed string string
  | OldRemoved string string

text \<open>
  A run of the manager: the error it stops with, the remote state it leaves, and each
  step it completed together with the remote state observed right after it.
\<close>

type_synonym irsa_run = "error option \<times> iam_remote \<times> (irsa_event \<times> iam_remote) list"

definition andThen :: "irsa_run \<Rightarrow> (iam_remote \<Rightarrow> irsa_run) \<Rightarrow> irsa_run" where
  "andThen run next =
     (case run of
        (Some err, s, tr) \<Rightarrow> (Some err, s, tr)
      | (None, s, tr) \<Rightarrow> (case next s of (r, s', tr') \<Rightarrow> (r, s', tr @ tr')))"

definition rotation :: "string \<Rightarrow> string \<Rightarrow> bool" where
  "rotation cur old = (old \<noteq> [] \<and> old \<noteq> cur)"

text \<open>
  Modelled from the spec: the trust policy that step 2 of section 4.4 leaves on a
  binding's role. A role that does not exist is created trusting the current issuer.
  Outside of a rotation the trust policy is the desired one, referencing the current
  issuer. During a rotation the statement for the current issuer is added to what is
  there ("trust now includes the new issuer"), so that the old issuer's statement is
  still to be removed afterwards.
\<close>

definition ensuredTrust :: "string \<Rightarrow> string \<Rightarrow> trust_policy option \<Rightarrow> trust_policy" where
  "ensuredTrust cur old observed =
     (case observed of
        None \<Rightarrow> [cur]
      | Some t \<Rightarrow> if rotation cur old then (if cur \<in> set t then t else cur # t) else [cur])"

text \<open>
  Modelled from the spec: \<open>EnsureRole\<close> for a binding's role (sections 4.3 and 4.4, step 2):
  look the role up, and write its trust policy only if it differs from the ensured one.
\<close>

definition irsaEnsureRole :: "irsa_faults \<Rightarrow> string \<Rightarrow> string \<Rightarrow> string \<Rightarrow> iam_remote \<Rightarrow> irsa_run" where
  "irsaEnsureRole f cur old r s =
     (case f r StepGetRole of
        Some err \<Rightarrow> (Some (Aws err), s, [])
      | None \<Rightarrow>
          if s r = Some (ensuredTrust cur old (s r)) then (None, s, [])
          else
            (case f r StepEnsureRole of
               Some err \<Rightarrow> (Some (Aws err), s, [])
             | None \<Rightarrow>
                 (None, s(r \<mapsto> ensuredTrust cur old (s r)),
                  [(TrustWritten r (ensuredTrust cur old (s r)), s(r \<mapsto> ensuredTrust cur old (s r)))])))"

text \<open>Modelled from the spec: \<open>EnsureInlinePolicy\<close>; it leaves the trust policy alone.\<close>

definition irsaEnsureInlinePolicy :: "irsa_faults \<Rightarrow> IRSABinding \<Rightarrow> iam_remote \<Rightarrow> irsa_run" where
  "irsaEnsureInlinePolicy f b s =
     (case f (bindRoleName b) StepEnsureInlinePolicy of
        Some err \<Rightarrow> (Some (Aws err), s, [])
      | None \<Rightarrow> (None, s, [(PolicyWritten (bindRoleName b) (bindPolicyName b), s)]))"

text \<open>
  Modelled from the spec: step 3 of section 4.4 and the rotation scenario of section 8.
  The trust for the current issuer is confirmed by a read; only then is the trust policy
  updated to remove the old issuer's statement.
\<close>

definition irsaRotate :: "irsa_faults \<Rightarrow> string \<Rightarrow> string \<Rightarrow> string \<Rightarrow> iam_remote \<Rightarrow> irsa_run" where
  "irsaRotate f cur old r s =
     (if rotation cur old then
        (case f r StepConfirm of
           Some err \<Rightarrow> (Some (Aws err), s, [])
         | None \<Rightarrow>
            (case s r of
               None \<Rightarrow> (Some (Errorf ''trust for the current issuer not confirmed''), s, [])
             | Some t \<Rightarrow>
                 if cur \<notin> set t
                 then (Some (Errorf ''trust for the current issuer not confirmed''), s, [])
                 else if old \<in> set t then
                   (case f r StepRemoveOld of
                      Some err \<Rightarrow> (Some (Aws err), s, [(TrustConfirmed r cur, s)])
                    | None \<Rightarrow>
                        (None, s(r \<mapsto> filter (\<lambda>d. d \<noteq> old) t),
                         [(TrustConfirmed r cur, s),
                          (OldRemoved r old, s(r \<mapsto> filter (\<lambda>d. d \<noteq> old) t))]))
                 else (None, s, [(TrustConfirmed r cur, s)])))
      else (None, s, []))"

definition reconcileBinding ::
  "irsa_faults \<Rightarrow> string \<Rightarrow> string \<Rightarrow> iam_remote \<Rightarrow> IRSABinding \<Rightarrow> irsa_run"
where
  "reconcileBinding f cur old s b =
     andThen (andThen (irsaEnsureRole f cur old (bindRoleName b) s) (irsaEnsureInlinePolicy f b))
       (irsaRotate f cur old (bindRoleName b))"

fun reconcileBindings ::
  "irsa_faults \<Rightarrow> string \<Rightarrow> string \<Rightarrow> iam_remote \<Rightarrow> IRSABinding list \<Rightarrow> irsa_run"
where
  "reconcileBindings f cur old s [] = (None, s, [])"
| "reconcileBindings f cur old s (b # bs) =
     andThen (reconcileBinding f cur old s b) (\<lambda>s'. reconcileBindings f cur old s' bs)"

text \<open>
  Modelled from the spec: \<open>ReconcileRolesForIRSA\<close> of package \<open>iam\<close> (section 4.4), whose code
  is not among the sources at hand, over the fixed catalog of bindings. With no issuer
  domain it writes nothing and fails.
\<close>

definition ReconcileRolesForIRSA_spec ::
  "irsa_faults \<Rightarrow> IRSABinding list \<Rightarrow> iam_remote \<Rightarrow> string \<Rightarrow> string \<Rightarrow> string \<Rightarrow> irsa_run"
where
  "ReconcileRolesForIRSA_spec f catalog s accountID irsaDomain oldIrsaDomain =
     (if irsaDomain = [] then (Some (Errorf ''issuer domain not determined''), s, [])
      else reconcileBindings f irsaDomain oldIrsaDomain s catalog)"

definition trusts_old_or_new :: "string \<Rightarrow> string \<Rightarrow> iam_remote \<Rightarrow> string \<Rightarrow> bool" where
  "trusts_old_or_new cur old s r =
     (case s r of None \<Rightarrow> True | Some t \<Rightarrow> cur \<in> set t \<or> old \<in> set t)"

text \<open>
  No statement of the old issuer is removed from a role before the trust of that role for
  the current issuer was confirmed; the first argument lists the roles confirmed so far.
\<close>

fun removal_after_confirm :: "string list \<Rightarrow> irsa_event list \<Rightarrow> bool" where
  "removal_after_confirm confirmed [] = True"
| "removal_after_confirm confirmed (TrustConfirmed r d # evs) = removal_after_confirm (r # confirmed) evs"
| "removal_after_confirm confirmed (OldRemoved r d # evs) =
     (r \<in> set confirmed \<and> removal_after_confirm confirmed evs)"
| "removal_after_confirm confirmed (TrustWritten r t # evs) = removal_after_confirm confirmed evs"
| "removal_after_confirm confirmed (PolicyWritten r p # evs) = removal_after_confirm confirmed evs"

section \<open>Package \<open>iam\<close>, as the specification describes it: ensuring a role\<close>

text \<open>The remote role as a reconcile observes it: its ARN, trust policy document and tags.\<close>

record ManagedRole =
  mrARN :: string
  mrTrustPolicy :: string
  mrTags :: "(string \<times> string) list"

definition ErrCodeEntityAlreadyExistsException :: string where
  "ErrCodeEntityAlreadyExistsException = ''EntityAlreadyExists''"

definition IsAlreadyExistsAws :: "aws_error \<Rightarrow> bool" where
  "IsAlreadyExistsAws err = (case err of AwsError code \<Rightarrow> code = ErrCodeEntityAlreadyExistsException)"

text \<open>
  The answers of the IAM API to the calls of ensure-role: the lookup of the role by name,
  its creation (the new ARN), the read that follows a creation that found the role
  existing, the update of the trust policy and the update of the tags.
\<close>

record iam_ensure_env =
  ensGetRole :: "string \<Rightarrow> aws_error + ManagedRole"
  ensCreateRole :: "string \<Rightarrow> aws_error + string"
  ensReadExisting :: "string \<Rightarrow> aws_error + ManagedRole"
  ensUpdateAssumeRolePolicy :: "string \<Rightarrow> aws_error option"
  ensTagRole :: "string \<Rightarrow> aws_error option"

definition trustUpdateCalls :: "RoleSpec \<Rightarrow> string \<Rightarrow> ManagedRole \<Rightarrow> iam_call list" where
  "trustUpdateCalls spec trust role =
     (if mrTrustPolicy role = trust then [] else [UpdateAssumeRolePolicy trust (rsRoleName spec)])"

definition tagUpdateCalls :: "RoleSpec \<Rightarrow> ManagedRole \<Rightarrow> iam_call list" where
  "tagUpdateCalls spec role =
     (if set (mrTags role) = set (tagPolicy spec) then []
      else [TagRole (rsRoleName spec) (tagPolicy spec)])"

text \<open>
  Modelled from the spec: the part of \<open>EnsureRole\<close> (section 4.3) for a role that is present,
  whose code in package \<open>iam\<close> is not among the sources at hand: compare the trust policy
  and the tags with the desired ones and update only the fields that differ. The desired
  trust policy document comes from the policy document builder and is a parameter; the
  desired tags are those of the tag policy.
\<close>

definition ensureRole_converge ::
  "iam_ensure_env \<Rightarrow> RoleSpec \<Rightarrow> string \<Rightarrow> ManagedRole \<Rightarrow> (error + string) \<times> iam_call list"
where
  "ensureRole_converge env spec trust role =
     (case (if mrTrustPolicy role = trust then None
            else ensUpdateAssumeRolePolicy env (rsRoleName spec)) of
        Some err \<Rightarrow> (Inl (Aws err), trustUpdateCalls spec trust role)
      | None \<Rightarrow>
         (case (if set (mrTags role) = set (tagPolicy spec) then None
                else ensTagRole env (rsRoleName spec)) of
            Some err \<Rightarrow> (Inl (Aws err), trustUpdateCalls spec trust role @ tagUpdateCalls spec role)
          | None \<Rightarrow>
              (Inr (mrARN role), trustUpdateCalls spec trust role @ tagUpdateCalls spec role)))"

text \<open>
  Modelled from the spec: \<open>EnsureRole\<close> of package \<open>iam\<close> (section 4.3), whose code is not
  among the sources at hand. The role is looked up by name. If it is absent it is created
  with the trust policy and the tags; a creation that fails with "already exists" goes on
  with a read of the role and the comparison, any other failure is returned. If it is
  present, only the fields that differ are updated. The result is the role's ARN.
\<close>

definition EnsureRole_spec ::
  "iam_ensure_env \<Rightarrow> RoleSpec \<Rightarrow> string \<Rightarrow> (error + string) \<times> iam_call list"
where
  "EnsureRole_spec env spec trust =
     (case ensGetRole env (rsRoleName spec) of
        Inr role \<Rightarrow>
          (case ensureRole_converge env spec trust role of
             (res, calls) \<Rightarrow> (res, GetRole (rsRoleName spec) # calls))
      | Inl err \<Rightarrow>
          if \<not> IsNotFoundAws err then (Inl (Aws err), [GetRole (rsRoleName spec)])
          else
            (case ensCreateRole env (rsRoleName spec) of
               Inr arn \<Rightarrow>
                 (Inr arn,
                  [GetRole (rsRoleName spec), CreateRole trust (rsRoleName spec) (tagPolicy spec)])
             | Inl cerr \<Rightarrow>
                 if \<not> IsAlreadyExistsAws cerr
                 then (Inl (Aws cerr),
                       [GetRole (rsRoleName spec),
                        CreateRole trust (rsRoleName spec) (tagPolicy spec)])
                 else
                   (case ensReadExisting env (rsRoleName spec) of
                      Inl rerr \<Rightarrow>
                        (Inl (Aws rerr),
                         [GetRole (rsRoleName spec),
                          CreateRole trust (rsRoleName spec) (tagPolicy spec),
                          GetRole (rsRoleName spec)])
                    | Inr role \<Rightarrow>
                        (case ensureRole_converge env spec trust role of
                           (res, calls) \<Rightarrow>
                             (res,
                              [GetRole (rsRoleName spec),
                               CreateRole trust (rsRoleName spec) (tagPolicy spec),
                               GetRole (rsRoleName spec)] @ calls)))))"

text \<open>The calls that update a role that exists.\<close>

fun is_update_call :: "iam_call \<Rightarrow> bool" where
  "is_update_call (UpdateAssumeRolePolicy doc name) = True"
| "is_update_call (TagRole name tags) = True"
| "is_update_call c = False"

section \<open>Properties of call sequences\<close>

text \<open>
  Every re-read of the object directly follows a patch that failed with a retryable error;
  the first argument tells whether the call before the sequence was such a patch.
\<close>

fun refetch_only_after_retryable :: "bool \<Rightarrow> event list \<Rightarrow> bool" where
  "refetch_only_after_retryable b [] = True"
| "refetch_only_after_retryable b (EvGet key # evs) = (b \<and> refetch_only_after_retryable False evs)"
| "refetch_only_after_retryable b (EvPatch key fs r # evs) =
     refetch_only_after_retryable (retryable r) evs"
| "refetch_only_after_retryable b (ev # evs) = refetch_only_after_retryable False evs"

section \<open>A cluster to run the reconcilers on\<close>

definition example_consts :: iam_consts where
  "example_consts =
     \<lparr>ControlPlaneRole = ''control-plane'', BastionRole = ''bastion'', IRSARole = ''irsa-role''\<rparr>"

definition example_template_meta :: k8s_object where
  "example_template_meta =
     \<lparr>objKind = ''AWSMachineTemplate'', objNamespace = ''org-acme'',
      objName = ''test-cluster-control-plane'',
      objLabels = [(ClusterNameLabel, ''test-cluster'')], objDeleting = True,
      objFinalizers = [FinalizerName ''control-plane'']\<rparr>"

definition client_ok :: client_env where
  "client_ok =
     \<lparr>newHelper = (\<lambda>key i. None), patch = (\<lambda>key i. None), refetch = (\<lambda>key i. Inr [])\<rparr>"

text \<open>A store where every patch fails with the given error.\<close>

definition client_failing :: "api_error \<Rightarrow> client_env" where
  "client_failing err =
     \<lparr>newHelper = (\<lambda>key i. None), patch = (\<lambda>key i. Some err),
      refetch = (\<lambda>key i. Inr [FinalizerName ''control-plane''])\<rparr>"

definition example_cluster :: AWSCluster where
  "example_cluster =
     \<lparr>clMeta =
        \<lparr>objKind = ''AWSCluster'', objNamespace = ''org-acme'', objName = ''myawsc'',
         objLabels = [(''cluster.x-k8s.io/cluster-name'', ''test-cluster'')], objDeleting = True,
         objFinalizers = [FinalizerName ''control-plane'']\<rparr>,
      clRegion = ''eu-west-1'', clIdentityRefName = ''default'',
      clAdditionalTags = [(''team'', ''phoenix'')]\<rparr>"

text \<open>A second cluster object in the store, of another cluster.\<close>

definition other_cluster :: AWSCluster where
  "other_cluster =
     \<lparr>clMeta =
        \<lparr>objKind = ''AWSCluster'', objNamespace = ''org-acme'', objName = ''otherawsc'',
         objLabels = [(''cluster.x-k8s.io/cluster-name'', ''other-cluster'')], objDeleting = False,
         objFinalizers = []\<rparr>,
      clRegion = ''eu-west-1'', clIdentityRefName = ''default'', clAdditionalTags = []\<rparr>"

text \<open>A role whose custom tags try to take both reserved keys.\<close>

definition example_spec :: RoleSpec where
  "example_spec =
     \<lparr>rsRoleName = ''test-cluster-control-plane'', rsRoleType = RoleTypeControlPlane,
      rsClusterName = ''test-cluster'', rsRegion = ''eu-west-1'', rsAccountID = ''123456789999'',
      rsCustomTags =
        [(''team'', ''phoenix''), (''capi-iam-controller/owned'', ''no''),
         (''sigs.k8s.io/cluster-api-provider-aws/cluster/test-cluster'', ''shared'')]\<rparr>"

section \<open>Reading the outcome of a reconcile\<close>

definition rec_result :: "ctrl_result \<times> error option \<times> event list \<Rightarrow> ctrl_result" where
  "rec_result r = fst r"

definition rec_error :: "ctrl_result \<times> error option \<times> event list \<Rightarrow> error option" where
  "rec_error r = fst (snd r)"

text \<open>A patch that sends the object without the finalizer.\<close>

fun removes_finalizer :: "string \<Rightarrow> event \<Rightarrow> bool" where
  "removes_finalizer f (EvPatch key fs r) = (f \<notin> set fs)"
| "removes_finalizer f ev = False"

text \<open>The calls made before the first patch.\<close>

definition before_first_patch :: "event list \<Rightarrow> event list" where
  "before_first_patch tr = takeWhile (\<lambda>ev. \<not> is_patch ev) tr"

section \<open>A managed control plane to run the reconciler on\<close>

definition example_mcp :: "string option \<Rightarrow> bool \<Rightarrow> AWSManagedControlPlane" where
  "example_mcp roleName deleting =
     \<lparr>mcpMeta =
        \<lparr>objKind = ''AWSManagedControlPlane'', objNamespace = ''org-acme'', objName = ''eks-1'',
         objLabels = [(''cluster.x-k8s.io/cluster-name'', ''eks-1'')], objDeleting = deleting,
         objFinalizers = [FinalizerName ''irsa-role'']\<rparr>,
      mcpRoleName = roleName, mcpIdentityRefName = ''default'', mcpRegion = ''eu-west-1''\<rparr>"

text \<open>
  An environment where every call succeeds, but for the answers given as arguments: the
  object the store holds, the cluster id read from the labels, whether the watch-filter
  label is there, and the answer of \<open>DeleteRolesForIRSA\<close>.
\<close>

definition example_mcp_env ::
  "AWSManagedControlPlane \<Rightarrow> error + string \<Rightarrow> bool \<Rightarrow> error option \<Rightarrow> mcp_env"
where
  "example_mcp_env eksCluster clusterID watched deleteAnswer =
     \<lparr>mcpClient = client_ok,
      mcpGet = (\<lambda>req. Inr eksCluster),
      mcpGetClusterIDFromLabels = (\<lambda>meta. clusterID),
      mcpHasCapiWatchLabel = (\<lambda>labels. watched),
      mcpGetAWSClusterRoleIdentity = (\<lambda>name. Inr ''arn:aws:iam::123456789999:role/capa''),
      mcpGetAWSClientSession = (\<lambda>arn region. None),
      mcpGetCallerIdentity = None,
      mcpIamNew = None,
      mcpDeleteRolesForIRSA = deleteAnswer,
      mcpGetAWSAccountID = (\<lambda>arn. Inr ''123456789999''),
      mcpGetIRSAOpenIDURlForEKS = (\<lambda>name. Inr ''oidc.eks.eu-west-1.amazonaws.com/id/ABC''),
      mcpGetRoleARN = (\<lambda>name. Inr ''arn:aws:iam::123456789999:role/eks-1''),
      mcpReconcileRolesForIRSA = (\<lambda>accountID domain. None)\<rparr>"

definition example_req :: obj_key where
  "example_req = (''AWSManagedControlPlane'', ''org-acme'', ''eks-1'')"

section \<open>A machine template to delete\<close>

definition example_template :: AWSMachineTemplate where
  "example_template =
     \<lparr>mtMeta = example_template_meta, mtIAMInstanceProfile = ''control-plane-test-cluster''\<rparr>"

definition example_configmap :: k8s_object where
  "example_configmap =
     \<lparr>objKind = ''ConfigMap'', objNamespace = ''org-acme'', objName = ''test-cluster-cluster-values'',
      objLabels = [], objDeleting = False, objFinalizers = [FinalizerName ''control-plane'']\<rparr>"

text \<open>
  An environment of the machine-template reconciler, given the answers of the guard, of
  \<open>DeleteRole\<close>, of \<open>DeleteRolesForIRSA\<close>, the object store's patching and what the store
  answers to the \<open>Get\<close> of the cluster-values \<open>ConfigMap\<close>; every other call succeeds.
\<close>

definition example_env ::
  "error + bool \<Rightarrow> error option \<Rightarrow> error option \<Rightarrow> client_env \<Rightarrow> api_error + k8s_object
     \<Rightarrow> reconciler_env"
where
  "example_env guard deleteAnswer irsaAnswer c cm =
     \<lparr>envClient = c,
      envAWSClusters = Inr [other_cluster, example_cluster],
      envGetObject = (\<lambda>key. cm),
      envIsRoleUsedElsewhere = (\<lambda>roleName. guard),
      envDeleteRole = deleteAnswer,
      envDeleteRolesForIRSA = irsaAnswer,
      envReconcileRole = None,
      envReconcileRolesForIRSA = (\<lambda>accountID domain oldDomain. None),
      envGetAWSClusterRoleIdentity = (\<lambda>name. Inr ''arn:aws:iam::123456789999:role/capa''),
      envGetAWSAccountID = (\<lambda>arn. Inr ''123456789999''),
      envGetBaseDomain = (\<lambda>clusterName namespace. Inr ''example.com''),
      envIRSADomain =
        (\<lambda>baseDomain region accountID clusterName. ''irsa.'' @ clusterName @ ''.'' @ baseDomain),
      envGetAdditionalIrsaDomain = (\<lambda>t. [])\<rparr>"

text \<open>
  A teardown that was interrupted before: one inline policy is still listed, but it, the
  instance profile and the role itself are already gone.
\<close>

definition example_iam_resumed :: iam_delete_env where
  "example_iam_resumed =
     \<lparr>iamListRolePolicies = (\<lambda>roleName. Inr [''control-plane-test-cluster-policy'']),
      iamDeleteRolePolicy = (\<lambda>roleName p. Some (AwsError ''NoSuchEntity'')),
      iamRemoveRoleFromInstanceProfile = (\<lambda>roleName. Some (AwsError ''NoSuchEntity'')),
      iamDeleteInstanceProfile = (\<lambda>roleName. Some (AwsError ''NoSuchEntity'')),
      iamDeleteRole = (\<lambda>roleName. Some (AwsError ''NoSuchEntity''))\<rparr>"

section \<open>What a run of the workload-identity manager keeps\<close>

definition run_error :: "irsa_run \<Rightarrow> error option" where
  "run_error run = fst run"

definition run_final :: "irsa_run \<Rightarrow> iam_remote" where
  "run_final run = fst (snd run)"

definition run_steps :: "irsa_run \<Rightarrow> (irsa_event \<times> iam_remote) list" where
  "run_steps run = snd (snd run)"

text \<open>
  In every remote state observed during the run, and in the state the run leaves, the
  role, if it exists, trusts the current or the old issuer.
\<close>

definition run_keeps_trust :: "string \<Rightarrow> string \<Rightarrow> string \<Rightarrow> irsa_run \<Rightarrow> bool" where
  "run_keeps_trust cur old r run =
     (trusts_old_or_new cur old (run_final run) r
      \<and> list_all (\<lambda>(ev, s). trusts_old_or_new cur old s r) (run_steps run))"

text \<open>Right after the removal of the old issuer from a role, the role trusts the current one.\<close>

fun removal_leaves_current :: "string \<Rightarrow> irsa_event \<times> iam_remote \<Rightarrow> bool" where
  "removal_leaves_current cur (OldRemoved r d, s) =
     (case s r of None \<Rightarrow> False | Some t \<Rightarrow> cur \<in> set t \<and> d \<notin> set t)"
| "removal_leaves_current cur (ev, s) = True"

text \<open>No removal before the confirmation, and the current issuer trusted right after each removal.\<close>

definition steps_ordered :: "string \<Rightarrow> irsa_run \<Rightarrow> bool" where
  "steps_ordered cur run =
     ((\<forall>C. removal_after_confirm C (map fst (run_steps run)))
      \<and> list_all (removal_leaves_current cur) (run_steps run))"

text \<open>The catalog of the two workload identities the reconciler test knows.\<close>

definition example_catalog :: "IRSABinding list" where
  "example_catalog =
     [\<lparr>bindWorkload = ''external-dns'', bindRoleName = ''test-cluster-Route53Manager-Role'',
       bindPolicyName = ''control-plane-test-cluster-policy'', bindPolicyDocument = ''{}''\<rparr>,
      \<lparr>bindWorkload = ''cert-manager'', bindRoleName = ''test-cluster-CertManager-Role'',
       bindPolicyName = ''control-plane-test-cluster-policy'', bindPolicyDocument = ''{}''\<rparr>]"

text \<open>Both roles exist and trust the old issuer only.\<close>

definition example_remote :: iam_remote where
  "example_remote =
     [''test-cluster-Route53Manager-Role'' \<mapsto> [''old.example.com''],
      ''test-cluster-CertManager-Role'' \<mapsto> [''old.example.com'']]"

definition no_faults :: irsa_faults where
  "no_faults = (\<lambda>r step. None)"

text \<open>
  The role of the example as the remote holds it, with a given trust policy document and
  given tags, and an IAM API that answers the lookup with it.
\<close>

definition example_role :: "string \<Rightarrow> (string \<times> string) list \<Rightarrow> ManagedRole" where
  "example_role trust tags =
     \<lparr>mrARN = ''arn:aws:iam::123456789999:role/test-cluster-control-plane'',
      mrTrustPolicy = trust, mrTags = tags\<rparr>"

definition example_ensure_env :: "aws_error + ManagedRole \<Rightarrow> ManagedRole \<Rightarrow> iam_ensure_env" where
  "example_ensure_env lookup role =
     \<lparr>ensGetRole = (\<lambda>name. lookup),
      ensCreateRole = (\<lambda>name. Inl (AwsError ''EntityAlreadyExists'')),
      ensReadExisting = (\<lambda>name. Inr role),
      ensUpdateAssumeRolePolicy = (\<lambda>name. None),
      ensTagRole = (\<lambda>name. None)\<rparr>"

section \<open>The finalizer coordinator: properties\<close>

lemma objKey_upd [simp]: "objKey (ob\<lparr>objFinalizers := fs\<rparr>) = objKey ob"
  by (simp add: objKey_def)

lemma objKey_RemoveFinalizer [simp]: "objKey (RemoveFinalizer ob f) = objKey ob"
  by (simp add: RemoveFinalizer_def)

lemma loop_patch_bound:
  "patch_attempts (res_trace (removeFinalizer_loop k c i ob)) \<le> maxPatchRetries + 1 - i"
proof (induction k c i ob rule: removeFinalizer_loop.induct)
  case (1 k c i object)
  show ?case
    apply (subst removeFinalizer_loop.simps)
    using 1
    apply (auto simp: res_trace_def patch_attempts_def split: option.splits sum.splits prod.splits)
    done
qed

lemma retryable_Some: "retryable err \<Longrightarrow> \<exists>e. err = Some e"
  by (cases err) (auto simp: retryable_def)

lemma loop_retry_step:
  assumes "newHelper c (objKey ob) i = None" "retryable (patch c (objKey ob) i)"
    "i < maxPatchRetries" "refetch c (objKey ob) i = Inr fs"
  shows "removeFinalizer_loop k c i ob =
     (case removeFinalizer_loop k c (i + 1) (ob\<lparr>objFinalizers := fs\<rparr>) of
        (r, ob', tr) \<Rightarrow>
          (r, ob',
           [EvNewHelper (objKey ob),
            EvPatch (objKey ob) (objFinalizers (RemoveFinalizer ob (FinalizerName (ControlPlaneRole k))))
              (patch c (objKey ob) i),
            EvGet (objKey ob)] @ tr))"
  apply (subst removeFinalizer_loop.simps)
  using assms by (simp add: retryable_def)

lemma loop_return_step:
  assumes "newHelper c (objKey ob) i = None" "patch c (objKey ob) i = Some e"
    "\<not> retryable (Some e) \<or> i = maxPatchRetries" "i \<le> maxPatchRetries"
  shows "removeFinalizer_loop k c i ob =
     (Some (Mask (Raw e)), RemoveFinalizer ob (FinalizerName (ControlPlaneRole k)),
      [EvNewHelper (objKey ob),
       EvPatch (objKey ob) (objFinalizers (RemoveFinalizer ob (FinalizerName (ControlPlaneRole k))))
         (Some e)])"
  apply (subst removeFinalizer_loop.simps)
  using assms by (auto simp: retryable_def)

lemma loop_all_retryable:
  assumes nh: "\<And>j. newHelper c K j = None"
      and pt: "\<And>j. retryable (patch c K j)"
      and rf: "\<And>j. \<exists>fs. refetch c K j = Inr fs"
  shows "objKey ob = K \<Longrightarrow> i \<le> maxPatchRetries \<Longrightarrow> n = maxPatchRetries - i \<Longrightarrow>
     patch_attempts (res_trace (removeFinalizer_loop k c i ob)) = maxPatchRetries + 1 - i
   \<and> refetches (res_trace (removeFinalizer_loop k c i ob)) = maxPatchRetries - i
   \<and> res_error (removeFinalizer_loop k c i ob) = map_option (\<lambda>e. Mask (Raw e)) (patch c K maxPatchRetries)"
proof (induction n arbitrary: i ob)
  case 0
  then have i: "i = maxPatchRetries" by simp
  obtain e where e: "patch c K maxPatchRetries = Some e" using retryable_Some[OF pt] by blast
  have "removeFinalizer_loop k c maxPatchRetries ob =
     (Some (Mask (Raw e)), RemoveFinalizer ob (FinalizerName (ControlPlaneRole k)),
      [EvNewHelper (objKey ob),
       EvPatch (objKey ob) (objFinalizers (RemoveFinalizer ob (FinalizerName (ControlPlaneRole k)))) (Some e)])"
    using 0 nh e by (intro loop_return_step) auto
  then show ?case
    unfolding i using e
    by (simp add: res_trace_def res_error_def patch_attempts_def refetches_def)
next
  case (Suc n)
  then have lt: "i < maxPatchRetries" by simp
  obtain fs where fs: "refetch c K i = Inr fs" using rf by blast
  let ?ob = "ob\<lparr>objFinalizers := fs\<rparr>"
  have IH: "patch_attempts (res_trace (removeFinalizer_loop k c (i+1) ?ob)) = maxPatchRetries + 1 - (i+1)
   \<and> refetches (res_trace (removeFinalizer_loop k c (i+1) ?ob)) = maxPatchRetries - (i+1)
   \<and> res_error (removeFinalizer_loop k c (i+1) ?ob) = map_option (\<lambda>e. Mask (Raw e)) (patch c K maxPatchRetries)"
    using Suc by (intro Suc.IH) auto
  have unf: "removeFinalizer_loop k c i ob =
     (case removeFinalizer_loop k c (i + 1) ?ob of
        (r, ob', tr) \<Rightarrow> (r, ob', [EvNewHelper (objKey ob), EvPatch (objKey ob) (objFinalizers (RemoveFinalizer ob (FinalizerName (ControlPlaneRole k)))) (patch c (objKey ob) i), EvGet (objKey ob)] @ tr))"
    using Suc.prems lt nh fs pt by (intro loop_retry_step) auto
  show ?case
    unfolding unf using IH lt
    by (auto simp: res_trace_def res_error_def patch_attempts_def refetches_def split: prod.splits)
qed

lemma loop_refetch_only:
  "refetch_only_after_retryable b (res_trace (removeFinalizer_loop k c i ob))"
proof (induction k c i ob arbitrary: b rule: removeFinalizer_loop.induct)
  case (1 k c i object)
  show ?case
  proof (cases "i \<le> maxPatchRetries")
    case False
    then show ?thesis
      by (subst removeFinalizer_loop.simps) (simp add: res_trace_def)
  next
    case le: True
    show ?thesis
    proof (cases "newHelper c (objKey object) i")
      case (Some err)
      then show ?thesis using le
        by (subst removeFinalizer_loop.simps) (simp add: res_trace_def)
    next
      case nh: None
      show ?thesis
      proof (cases "retryable (patch c (objKey object) i) \<and> i < maxPatchRetries")
        case True
        show ?thesis
        proof (cases "refetch c (objKey object) i")
          case (Inl e)
          then show ?thesis using le nh True
            by (subst removeFinalizer_loop.simps) (simp add: res_trace_def retryable_def)
        next
          case (Inr fs)
          have "refetch_only_after_retryable False
                  (res_trace (removeFinalizer_loop k c (i + 1) (object\<lparr>objFinalizers := fs\<rparr>)))"
            using 1(1)[OF le nh _ Inr] True by (simp add: retryable_def)
          then show ?thesis using le nh True Inr
            by (subst removeFinalizer_loop.simps)
               (auto simp: res_trace_def retryable_def split: prod.splits)
        qed
      next
        case False
        show ?thesis
        proof (cases "patch c (objKey object) i")
          case (Some e)
          then show ?thesis using le nh False
            by (subst removeFinalizer_loop.simps) (auto simp: res_trace_def retryable_def)
        next
          case None
          have "refetch_only_after_retryable (retryable None)
                  (res_trace (removeFinalizer_loop k c (i + 1)
                     (RemoveFinalizer object (FinalizerName (ControlPlaneRole k)))))"
            using 1(2)[OF le nh _ None] False by (simp add: retryable_def)
          then show ?thesis using le nh False None
            by (subst removeFinalizer_loop.simps)
               (auto simp: res_trace_def retryable_def split: prod.splits)
        qed
      qed
    qed
  qed
qed

text \<open>
  C4. \<open>removeFinalizer\<close> never makes more than \<open>maxPatchRetries\<close> = 5 patch attempts, whatever
  the object store answers. If the object carries the finalizer, the patch helper can be
  built, every patch fails with a retryable error and every re-read succeeds, then it
  makes exactly 5 patch attempts with 4 re-reads between them and returns the error of
  the fifth attempt.
\<close>

theorem removeFinalizer_retry_ceiling:
  "maxPatchRetries = 5
   \<and> patch_attempts (res_trace (removeFinalizer k c ob)) \<le> maxPatchRetries
   \<and> (ContainsFinalizer ob (FinalizerName (ControlPlaneRole k))
        \<and> (\<forall>i. newHelper c (objKey ob) i = None)
        \<and> (\<forall>i. retryable (patch c (objKey ob) i))
        \<and> (\<forall>i. \<exists>fs. refetch c (objKey ob) i = Inr fs)
      \<longrightarrow> patch_attempts (res_trace (removeFinalizer k c ob)) = maxPatchRetries
          \<and> refetches (res_trace (removeFinalizer k c ob)) = maxPatchRetries - 1
          \<and> (\<exists>e. patch c (objKey ob) maxPatchRetries = Some e
                \<and> res_error (removeFinalizer k c ob) = Some (Mask (Raw e))))"
proof (intro conjI impI)
  show "maxPatchRetries = 5" by (simp add: maxPatchRetries_def)
next
  show "patch_attempts (res_trace (removeFinalizer k c ob)) \<le> maxPatchRetries"
    using loop_patch_bound[of k c 1 ob]
    by (simp add: removeFinalizer_def res_trace_def patch_attempts_def)
next
  assume h: "ContainsFinalizer ob (FinalizerName (ControlPlaneRole k))
        \<and> (\<forall>i. newHelper c (objKey ob) i = None)
        \<and> (\<forall>i. retryable (patch c (objKey ob) i))
        \<and> (\<forall>i. \<exists>fs. refetch c (objKey ob) i = Inr fs)"
  then have eq: "removeFinalizer k c ob = removeFinalizer_loop k c 1 ob"
    by (simp add: removeFinalizer_def)
  have L: "patch_attempts (res_trace (removeFinalizer_loop k c 1 ob)) = maxPatchRetries + 1 - 1
   \<and> refetches (res_trace (removeFinalizer_loop k c 1 ob)) = maxPatchRetries - 1
   \<and> res_error (removeFinalizer_loop k c 1 ob)
       = map_option (\<lambda>e. Mask (Raw e)) (patch c (objKey ob) maxPatchRetries)"
    using h by (intro loop_all_retryable[where K = "objKey ob"]) (auto simp: maxPatchRetries_def)
  obtain e where e: "patch c (objKey ob) maxPatchRetries = Some e"
    using h retryable_Some by blast
  show "patch_attempts (res_trace (removeFinalizer k c ob)) = maxPatchRetries" using L eq by simp
  show "refetches (res_trace (removeFinalizer k c ob)) = maxPatchRetries - 1" using L eq by simp
  show "\<exists>e. patch c (objKey ob) maxPatchRetries = Some e
                \<and> res_error (removeFinalizer k c ob) = Some (Mask (Raw e))"
    using L eq e by simp
qed

theorem removeFinalizer_retry_ceiling_witness:
  "ContainsFinalizer example_template_meta (FinalizerName (ControlPlaneRole example_consts))
   \<and> (\<forall>i. newHelper (client_failing (Single (StatusError StatusReasonInvalid)))
              (objKey example_template_meta) i = None)
   \<and> (\<forall>i. retryable (patch (client_failing (Single (StatusError StatusReasonInvalid)))
              (objKey example_template_meta) i))
   \<and> (\<forall>i. \<exists>fs. refetch (client_failing (Single (StatusError StatusReasonInvalid)))
              (objKey example_template_meta) i = Inr fs)
   \<and> patch_attempts (res_trace (removeFinalizer example_consts
        (client_failing (Single (StatusError StatusReasonInvalid))) example_template_meta)) = 5
   \<and> refetches (res_trace (removeFinalizer example_consts
        (client_failing (Single (StatusError StatusReasonInvalid))) example_template_meta)) = 4
   \<and> res_error (removeFinalizer example_consts
        (client_failing (Single (StatusError StatusReasonInvalid))) example_template_meta)
       = Some (Mask (Raw (Single (StatusError StatusReasonInvalid))))"
proof -
  let ?c = "client_failing (Single (StatusError StatusReasonInvalid))"
  have hyp: "ContainsFinalizer example_template_meta (FinalizerName (ControlPlaneRole example_consts))
   \<and> (\<forall>i. newHelper ?c (objKey example_template_meta) i = None)
   \<and> (\<forall>i. retryable (patch ?c (objKey example_template_meta) i))
   \<and> (\<forall>i. \<exists>fs. refetch ?c (objKey example_template_meta) i = Inr fs)"
    by (simp add: ContainsFinalizer_def example_template_meta_def example_consts_def
        client_failing_def retryable_def FinalizerName_def)
  have "patch_attempts (res_trace (removeFinalizer example_consts ?c example_template_meta)) = maxPatchRetries
          \<and> refetches (res_trace (removeFinalizer example_consts ?c example_template_meta)) = maxPatchRetries - 1
          \<and> (\<exists>e. patch ?c (objKey example_template_meta) maxPatchRetries = Some e
                \<and> res_error (removeFinalizer example_consts ?c example_template_meta) = Some (Mask (Raw e)))"
    using removeFinalizer_retry_ceiling [of example_consts ?c example_template_meta] hyp by blast
  then show ?thesis using hyp by (auto simp: maxPatchRetries_def client_failing_def)
qed

lemma retryable_Single: "retryable (Some (Single e)) = IsInvalid e"
  by (simp add: retryable_def)

lemma retryable_Aggregate: "retryable (Some (Aggregate errs)) = (\<exists>e \<in> set errs. IsInvalid e)"
  by (auto simp: retryable_def NewAggregate_def filter_empty_conv)

text \<open>
  C5, as amended. The re-read-and-retry path is taken only after a patch that failed with
  an error that is, or as an aggregate contains, an Invalid (422) status error, and only
  on attempts below the ceiling; a version conflict (409) is not such an error. A patch
  failure without an Invalid member, and any patch failure on the last attempt, is
  returned on the attempt where it occurs, wrapped by \<open>microerror.Mask\<close>.
\<close>

theorem removeFinalizer_retries_invalid_only:
  "refetch_only_after_retryable False (res_trace (removeFinalizer k c ob))
   \<and> retryable (Some (Single (StatusError r))) = (r = StatusReasonInvalid)
   \<and> retryable (Some (Aggregate errs)) = (\<exists>e \<in> set errs. IsInvalid e)
   \<and> (newHelper c (objKey ob) i = None \<and> i \<le> maxPatchRetries \<longrightarrow>
        (\<forall>fs. retryable (patch c (objKey ob) i) \<and> i < maxPatchRetries
               \<and> refetch c (objKey ob) i = Inr fs \<longrightarrow>
             removeFinalizer_loop k c i ob =
               (case removeFinalizer_loop k c (i + 1) (ob\<lparr>objFinalizers := fs\<rparr>) of
                  (res, ob', tr) \<Rightarrow>
                    (res, ob',
                     [EvNewHelper (objKey ob),
                      EvPatch (objKey ob)
                        (objFinalizers (RemoveFinalizer ob (FinalizerName (ControlPlaneRole k))))
                        (patch c (objKey ob) i),
                      EvGet (objKey ob)] @ tr)))
        \<and> (\<forall>e. patch c (objKey ob) i = Some e
                 \<and> (\<not> retryable (Some e) \<or> i = maxPatchRetries) \<longrightarrow>
             removeFinalizer_loop k c i ob =
               (Some (Mask (Raw e)), RemoveFinalizer ob (FinalizerName (ControlPlaneRole k)),
                [EvNewHelper (objKey ob),
                 EvPatch (objKey ob)
                   (objFinalizers (RemoveFinalizer ob (FinalizerName (ControlPlaneRole k))))
                   (Some e)])))"
proof (intro conjI impI allI)
  show "refetch_only_after_retryable False (res_trace (removeFinalizer k c ob))"
    using loop_refetch_only[of False k c 1 ob]
    by (simp add: removeFinalizer_def res_trace_def)
next
  show "retryable (Some (Single (StatusError r))) = (r = StatusReasonInvalid)"
    by (simp add: retryable_Single)
next
  show "retryable (Some (Aggregate errs)) = (\<exists>e \<in> set errs. IsInvalid e)"
    by (rule retryable_Aggregate)
next
  fix fs
  assume "newHelper c (objKey ob) i = None \<and> i \<le> maxPatchRetries"
    and "retryable (patch c (objKey ob) i) \<and> i < maxPatchRetries \<and> refetch c (objKey ob) i = Inr fs"
  then show "removeFinalizer_loop k c i ob =
               (case removeFinalizer_loop k c (i + 1) (ob\<lparr>objFinalizers := fs\<rparr>) of
                  (res, ob', tr) \<Rightarrow>
                    (res, ob',
                     [EvNewHelper (objKey ob),
                      EvPatch (objKey ob)
                        (objFinalizers (RemoveFinalizer ob (FinalizerName (ControlPlaneRole k))))
                        (patch c (objKey ob) i),
                      EvGet (objKey ob)] @ tr))"
    by (intro loop_retry_step) auto
next
  fix e
  assume "newHelper c (objKey ob) i = None \<and> i \<le> maxPatchRetries"
    and "patch c (objKey ob) i = Some e \<and> (\<not> retryable (Some e) \<or> i = maxPatchRetries)"
  then show "removeFinalizer_loop k c i ob =
               (Some (Mask (Raw e)), RemoveFinalizer ob (FinalizerName (ControlPlaneRole k)),
                [EvNewHelper (objKey ob),
                 EvPatch (objKey ob)
                   (objFinalizers (RemoveFinalizer ob (FinalizerName (ControlPlaneRole k))))
                   (Some e)])"
    by (intro loop_return_step) auto
qed

theorem removeFinalizer_retries_invalid_only_witness:
  "newHelper (client_failing (Single (StatusError StatusReasonConflict)))
       (objKey example_template_meta) 1 = None
   \<and> 1 \<le> maxPatchRetries
   \<and> patch (client_failing (Single (StatusError StatusReasonConflict)))
       (objKey example_template_meta) 1 = Some (Single (StatusError StatusReasonConflict))
   \<and> \<not> retryable (Some (Single (StatusError StatusReasonConflict)))
   \<and> removeFinalizer_loop example_consts
        (client_failing (Single (StatusError StatusReasonConflict))) 1 example_template_meta
      = (Some (Mask (Raw (Single (StatusError StatusReasonConflict)))),
         RemoveFinalizer example_template_meta (FinalizerName ''control-plane''),
         [EvNewHelper (objKey example_template_meta),
          EvPatch (objKey example_template_meta) []
            (Some (Single (StatusError StatusReasonConflict)))])
   \<and> retryable (patch (client_failing (Single (StatusError StatusReasonInvalid)))
       (objKey example_template_meta) 1)
   \<and> 1 < maxPatchRetries
   \<and> refetch (client_failing (Single (StatusError StatusReasonInvalid)))
       (objKey example_template_meta) 1 = Inr [FinalizerName ''control-plane'']
   \<and> removeFinalizer_loop example_consts
        (client_failing (Single (StatusError StatusReasonInvalid))) 1 example_template_meta
      = (case removeFinalizer_loop example_consts
                (client_failing (Single (StatusError StatusReasonInvalid))) 2
                (example_template_meta\<lparr>objFinalizers := [FinalizerName ''control-plane'']\<rparr>) of
           (res, ob', tr) \<Rightarrow>
             (res, ob',
              [EvNewHelper (objKey example_template_meta),
               EvPatch (objKey example_template_meta) []
                 (Some (Single (StatusError StatusReasonInvalid))),
               EvGet (objKey example_template_meta)] @ tr))"
proof -
  let ?cc = "client_failing (Single (StatusError StatusReasonConflict))"
  let ?ci = "client_failing (Single (StatusError StatusReasonInvalid))"
  have fin: "objFinalizers (RemoveFinalizer example_template_meta
               (FinalizerName (ControlPlaneRole example_consts))) = []"
    and rf: "RemoveFinalizer example_template_meta (FinalizerName (ControlPlaneRole example_consts))
             = RemoveFinalizer example_template_meta (FinalizerName ''control-plane'')"
    by (simp_all add: RemoveFinalizer_def example_template_meta_def example_consts_def)
  have fin': "objFinalizers (RemoveFinalizer example_template_meta
               (FinalizerName ''control-plane'')) = []"
    by (simp add: RemoveFinalizer_def example_template_meta_def)
  have h1: "newHelper ?cc (objKey example_template_meta) 1 = None \<and> 1 \<le> maxPatchRetries"
    and h2: "patch ?cc (objKey example_template_meta) 1 = Some (Single (StatusError StatusReasonConflict))
             \<and> (\<not> retryable (Some (Single (StatusError StatusReasonConflict))) \<or> 1 = maxPatchRetries)"
    and h3: "newHelper ?ci (objKey example_template_meta) 1 = None \<and> 1 \<le> maxPatchRetries"
    and h4: "retryable (patch ?ci (objKey example_template_meta) 1) \<and> 1 < maxPatchRetries
             \<and> refetch ?ci (objKey example_template_meta) 1 = Inr [FinalizerName ''control-plane'']"
    by (simp_all add: client_failing_def maxPatchRetries_def retryable_def)
  note A = removeFinalizer_retries_invalid_only
             [of example_consts ?cc example_template_meta _ _ 1]
  note B = removeFinalizer_retries_invalid_only
             [of example_consts ?ci example_template_meta _ _ 1]
  have a: "removeFinalizer_loop example_consts ?cc 1 example_template_meta
      = (Some (Mask (Raw (Single (StatusError StatusReasonConflict)))),
         RemoveFinalizer example_template_meta (FinalizerName (ControlPlaneRole example_consts)),
         [EvNewHelper (objKey example_template_meta),
          EvPatch (objKey example_template_meta)
            (objFinalizers (RemoveFinalizer example_template_meta
               (FinalizerName (ControlPlaneRole example_consts))))
            (Some (Single (StatusError StatusReasonConflict)))])"
    using A h1 h2 by blast
  have b: "removeFinalizer_loop example_consts ?ci 1 example_template_meta
      = (case removeFinalizer_loop example_consts ?ci (1 + 1)
                (example_template_meta\<lparr>objFinalizers := [FinalizerName ''control-plane'']\<rparr>) of
           (res, ob', tr) \<Rightarrow>
             (res, ob',
              [EvNewHelper (objKey example_template_meta),
               EvPatch (objKey example_template_meta)
                 (objFinalizers (RemoveFinalizer example_template_meta
                    (FinalizerName (ControlPlaneRole example_consts))))
                 (patch ?ci (objKey example_template_meta) 1),
               EvGet (objKey example_template_meta)] @ tr))"
    using B h3 h4 by blast
  have p: "patch ?ci (objKey example_template_meta) 1 = Some (Single (StatusError StatusReasonInvalid))"
    by (simp add: client_failing_def)
  show ?thesis
    using h1 h2 h3 h4 a b unfolding fin rf p
    by (simp add: maxPatchRetries_def retryable_def fin' numeral_2_eq_2)
qed

text \<open>
  C5 as stated fails: a version conflict on the first patch is returned at once, after
  one attempt and without a re-read, while an Invalid failure, which is a failure class
  other than a version conflict, is retried up to the ceiling.
\<close>

theorem removeFinalizer_conflict_not_retried:
  "res_error (removeFinalizer example_consts
       (client_failing (Single (StatusError StatusReasonConflict))) example_template_meta)
     = Some (Mask (Raw (Single (StatusError StatusReasonConflict))))
   \<and> patch_attempts (res_trace (removeFinalizer example_consts
       (client_failing (Single (StatusError StatusReasonConflict))) example_template_meta)) = 1
   \<and> refetches (res_trace (removeFinalizer example_consts
       (client_failing (Single (StatusError StatusReasonConflict))) example_template_meta)) = 0
   \<and> patch_attempts (res_trace (removeFinalizer example_consts
       (client_failing (Single (StatusError StatusReasonInvalid))) example_template_meta)) = 5
   \<and> refetches (res_trace (removeFinalizer example_consts
       (client_failing (Single (StatusError StatusReasonInvalid))) example_template_meta)) = 4"
  by (simp add: removeFinalizer_def removeFinalizer_loop.simps example_consts_def
      example_template_meta_def client_failing_def ContainsFinalizer_def FinalizerName_def
      RemoveFinalizer_def objKey_def maxPatchRetries_def NewAggregate_def res_error_def
      res_trace_def patch_attempts_def refetches_def)

section \<open>Cluster lookup, tags and ensuring a role\<close>

lemma List_AWSCluster_labelled:
  "List_AWSCluster store [(l, v)] = Inr items \<Longrightarrow> c \<in> set items \<Longrightarrow>
   map_of (objLabels (clMeta c)) l = Some v"
  by (auto simp: List_AWSCluster_def MatchingLabels_def split: sum.splits)

lemma length_Suc0_nth: "length xs = Suc 0 \<Longrightarrow> [xs ! 0] = xs"
  by (cases xs) auto

lemma GetAWSClusterByName_Inr_iff:
  "GetAWSClusterByName store clusterName = Inr c
     \<longleftrightarrow> List_AWSCluster store [(ClusterNameLabel, clusterName)] = Inr [c]"
  by (auto simp: GetAWSClusterByName_def length_Suc0_nth split: sum.splits if_splits)

text \<open>
  C10. \<open>GetAWSClusterByName\<close> returns a cluster exactly when the list call succeeds and the
  label selector for the cluster name matches exactly one object, and then it returns that
  object, which carries the cluster-name label. When the list call fails its error is
  returned; when the selector matches \<open>n \<noteq> 1\<close> objects the error is
  "expected 1 AWSCluster but found n". In both cases no cluster is returned.
\<close>

theorem GetAWSClusterByName_exactly_one:
  "(GetAWSClusterByName store clusterName = Inr c
      \<longleftrightarrow> List_AWSCluster store [(ClusterNameLabel, clusterName)] = Inr [c])
   \<and> (GetAWSClusterByName store clusterName = Inr c
      \<longrightarrow> map_of (objLabels (clMeta c)) ClusterNameLabel = Some clusterName)
   \<and> (List_AWSCluster store [(ClusterNameLabel, clusterName)] = Inr items \<and> length items \<noteq> 1
      \<longrightarrow> GetAWSClusterByName store clusterName
            = Inl (Errorf (''expected 1 AWSCluster but found '' @ show_nat (length items))))
   \<and> (List_AWSCluster store [(ClusterNameLabel, clusterName)] = Inl err
      \<longrightarrow> GetAWSClusterByName store clusterName = Inl (Raw err))"
proof (intro conjI impI)
  show "GetAWSClusterByName store clusterName = Inr c
      \<longleftrightarrow> List_AWSCluster store [(ClusterNameLabel, clusterName)] = Inr [c]"
    by (rule GetAWSClusterByName_Inr_iff)
next
  assume "GetAWSClusterByName store clusterName = Inr c"
  then have "List_AWSCluster store [(ClusterNameLabel, clusterName)] = Inr [c]"
    by (simp add: GetAWSClusterByName_Inr_iff)
  then show "map_of (objLabels (clMeta c)) ClusterNameLabel = Some clusterName"
    using List_AWSCluster_labelled by fastforce
next
  assume "List_AWSCluster store [(ClusterNameLabel, clusterName)] = Inr items \<and> length items \<noteq> 1"
  then show "GetAWSClusterByName store clusterName
            = Inl (Errorf (''expected 1 AWSCluster but found '' @ show_nat (length items)))"
    by (simp add: GetAWSClusterByName_def)
next
  assume "List_AWSCluster store [(ClusterNameLabel, clusterName)] = Inl err"
  then show "GetAWSClusterByName store clusterName = Inl (Raw err)"
    by (simp add: GetAWSClusterByName_def)
qed

theorem GetAWSClusterByName_exactly_one_witness:
  "GetAWSClusterByName (Inr [other_cluster, example_cluster]) ''test-cluster'' = Inr example_cluster
   \<and> map_of (objLabels (clMeta example_cluster)) ClusterNameLabel = Some ''test-cluster''
   \<and> List_AWSCluster (Inr [example_cluster, other_cluster, example_cluster])
        [(ClusterNameLabel, ''test-cluster'')] = Inr [example_cluster, example_cluster]
   \<and> GetAWSClusterByName (Inr [example_cluster, other_cluster, example_cluster]) ''test-cluster''
        = Inl (Errorf ''expected 1 AWSCluster but found 2'')
   \<and> List_AWSCluster (Inr [other_cluster]) [(ClusterNameLabel, ''test-cluster'')] = Inr []
   \<and> GetAWSClusterByName (Inr [other_cluster]) ''test-cluster''
        = Inl (Errorf ''expected 1 AWSCluster but found 0'')
   \<and> GetAWSClusterByName (Inl (Single (StatusError StatusReasonForbidden))) ''test-cluster''
        = Inl (Raw (Single (StatusError StatusReasonForbidden)))"
proof -
  have l1: "List_AWSCluster (Inr [other_cluster, example_cluster])
              [(ClusterNameLabel, ''test-cluster'')] = Inr [example_cluster]"
    and l2: "List_AWSCluster (Inr [example_cluster, other_cluster, example_cluster])
              [(ClusterNameLabel, ''test-cluster'')] = Inr [example_cluster, example_cluster]
             \<and> length [example_cluster, example_cluster] \<noteq> 1"
    and l0: "List_AWSCluster (Inr [other_cluster]) [(ClusterNameLabel, ''test-cluster'')] = Inr []
             \<and> length ([] :: AWSCluster list) \<noteq> 1"
    and le: "List_AWSCluster (Inl (Single (StatusError StatusReasonForbidden)))
              [(ClusterNameLabel, ''test-cluster'')] = Inl (Single (StatusError StatusReasonForbidden))"
    by (simp_all add: List_AWSCluster_def MatchingLabels_def example_cluster_def other_cluster_def
        ClusterNameLabel_def)
  have s: "show_nat (length [example_cluster, example_cluster]) = ''2''"
          "show_nat (length ([] :: AWSCluster list)) = ''0''"
    by (simp_all add: show_nat.simps)
  note T1 = GetAWSClusterByName_exactly_one
              [of "Inr [other_cluster, example_cluster]" "''test-cluster''" example_cluster]
  note T2 = GetAWSClusterByName_exactly_one
              [of "Inr [example_cluster, other_cluster, example_cluster]" "''test-cluster''" _
                  "[example_cluster, example_cluster]"]
  note T0 = GetAWSClusterByName_exactly_one
              [of "Inr [other_cluster]" "''test-cluster''" _ "[]"]
  note Te = GetAWSClusterByName_exactly_one
              [of "Inl (Single (StatusError StatusReasonForbidden))" "''test-cluster''" _ _
                  "Single (StatusError StatusReasonForbidden)"]
  have a: "GetAWSClusterByName (Inr [other_cluster, example_cluster]) ''test-cluster'' = Inr example_cluster"
    using T1 l1 by blast
  then have b: "map_of (objLabels (clMeta example_cluster)) ClusterNameLabel = Some ''test-cluster''"
    using T1 by blast
  have c: "GetAWSClusterByName (Inr [example_cluster, other_cluster, example_cluster]) ''test-cluster''
        = Inl (Errorf (''expected 1 AWSCluster but found '' @ show_nat (length [example_cluster, example_cluster])))"
    using T2 l2 by blast
  have d: "GetAWSClusterByName (Inr [other_cluster]) ''test-cluster''
        = Inl (Errorf (''expected 1 AWSCluster but found '' @ show_nat (length ([] :: AWSCluster list))))"
    using T0 l0 by blast
  have e: "GetAWSClusterByName (Inl (Single (StatusError StatusReasonForbidden))) ''test-cluster''
        = Inl (Raw (Single (StatusError StatusReasonForbidden)))"
    using Te le by blast
  show ?thesis using a b c d e l2 l0 unfolding s by simp
qed

text \<open>
  C9. For every role specification the tag set is the union of the ownership marker
  \<open>capi-iam-controller/owned\<close> with the empty value, the cluster-ownership marker keyed by
  the cluster name with the value \<open>owned\<close>, and the custom tags whose key is not one of
  the two reserved keys. Looked up by key, a reserved key always has its reserved value
  and every other key has the value of the custom tags.
\<close>

theorem tagPolicy_reserved_win:
  "set (tagPolicy spec)
     = {(ownedTagKey, []), (clusterTagKey (rsClusterName spec), ''owned'')}
       \<union> {(key, v). (key, v) \<in> set (rsCustomTags spec)
             \<and> key \<noteq> ownedTagKey \<and> key \<noteq> clusterTagKey (rsClusterName spec)}
   \<and> map_of (tagPolicy spec) ownedTagKey = Some []
   \<and> map_of (tagPolicy spec) (clusterTagKey (rsClusterName spec)) = Some ''owned''
   \<and> (key \<noteq> ownedTagKey \<and> key \<noteq> clusterTagKey (rsClusterName spec)
        \<longrightarrow> map_of (tagPolicy spec) key = map_of (rsCustomTags spec) key)
   \<and> (distinct (map fst (rsCustomTags spec)) \<longrightarrow> distinct (map fst (tagPolicy spec)))"
proof (intro conjI impI)
  show "set (tagPolicy spec)
     = {(ownedTagKey, []), (clusterTagKey (rsClusterName spec), ''owned'')}
       \<union> {(key, v). (key, v) \<in> set (rsCustomTags spec)
             \<and> key \<noteq> ownedTagKey \<and> key \<noteq> clusterTagKey (rsClusterName spec)}"
    by (auto simp: tagPolicy_def)
next
  show "map_of (tagPolicy spec) ownedTagKey = Some []"
    by (simp add: tagPolicy_def)
next
  show "map_of (tagPolicy spec) (clusterTagKey (rsClusterName spec)) = Some ''owned''"
    by (simp add: tagPolicy_def ownedTagKey_def clusterTagKey_def)
next
  assume k: "key \<noteq> ownedTagKey \<and> key \<noteq> clusterTagKey (rsClusterName spec)"
  have "map_of (filter (\<lambda>(key, v). key \<noteq> ownedTagKey \<and> key \<noteq> clusterTagKey (rsClusterName spec)) xs) key
        = map_of xs key" for xs
    using k by (induction xs) auto
  then show "map_of (tagPolicy spec) key = map_of (rsCustomTags spec) key"
    using k by (simp add: tagPolicy_def)
next
  assume d: "distinct (map fst (rsCustomTags spec))"
  have o: "ownedTagKey \<noteq> clusterTagKey (rsClusterName spec)"
    by (simp add: ownedTagKey_def clusterTagKey_def)
  have "distinct (map fst (filter P xs))" if "distinct (map fst xs)" for xs :: "(string \<times> string) list" and P
    using that by (induction xs) auto
  with d o show "distinct (map fst (tagPolicy spec))"
    by (auto simp: tagPolicy_def)
qed

theorem tagPolicy_reserved_win_witness:
  "''team'' \<noteq> ownedTagKey \<and> ''team'' \<noteq> clusterTagKey (rsClusterName example_spec)
   \<and> distinct (map fst (rsCustomTags example_spec))
   \<and> tagPolicy example_spec = expectedIAMTags @ [(''team'', ''phoenix'')]
   \<and> tagPolicy (example_spec\<lparr>rsCustomTags := []\<rparr>) = expectedIAMTags
   \<and> map_of (tagPolicy example_spec) ''capi-iam-controller/owned'' = Some []
   \<and> map_of (tagPolicy example_spec) ''team'' = Some ''phoenix''
   \<and> distinct (map fst (tagPolicy example_spec))"
proof -
  have h: "''team'' \<noteq> ownedTagKey \<and> ''team'' \<noteq> clusterTagKey (rsClusterName example_spec)"
    and d: "distinct (map fst (rsCustomTags example_spec))"
    and e: "tagPolicy example_spec = expectedIAMTags @ [(''team'', ''phoenix'')]"
    and e0: "tagPolicy (example_spec\<lparr>rsCustomTags := []\<rparr>) = expectedIAMTags"
    and c: "map_of (rsCustomTags example_spec) ''team'' = Some ''phoenix''"
    and o: "ownedTagKey = ''capi-iam-controller/owned''"
    by (simp_all add: example_spec_def ownedTagKey_def clusterTagKey_def tagPolicy_def
        expectedIAMTags_def)
  note T = tagPolicy_reserved_win [of example_spec "''team''"]
  have "map_of (tagPolicy example_spec) ownedTagKey = Some []"
    and "map_of (tagPolicy example_spec) ''team'' = map_of (rsCustomTags example_spec) ''team''"
    and "distinct (map fst (tagPolicy example_spec))"
    using T h d by blast+
  then show ?thesis using h d e e0 c o by simp
qed

lemma converge_update_needs_difference:
  "UpdateAssumeRolePolicy d n \<in> set (snd (ensureRole_converge env spec trust role)) \<Longrightarrow>
   d = trust \<and> n = rsRoleName spec \<and> mrTrustPolicy role \<noteq> trust"
  by (auto simp: ensureRole_converge_def trustUpdateCalls_def tagUpdateCalls_def
      split: option.splits if_splits)

lemma converge_desired:
  "mrTrustPolicy role = trust \<Longrightarrow> set (mrTags role) = set (tagPolicy spec) \<Longrightarrow>
   ensureRole_converge env spec trust role = (Inr (mrARN role), [])"
  by (simp add: ensureRole_converge_def trustUpdateCalls_def tagUpdateCalls_def)

lemma converge_tags_only:
  "mrTrustPolicy role = trust \<Longrightarrow> set (mrTags role) \<noteq> set (tagPolicy spec) \<Longrightarrow>
   ensTagRole env (rsRoleName spec) = None \<Longrightarrow>
   ensureRole_converge env spec trust role
     = (Inr (mrARN role), [TagRole (rsRoleName spec) (tagPolicy spec)])"
  by (simp add: ensureRole_converge_def trustUpdateCalls_def tagUpdateCalls_def)

lemma EnsureRole_update_needs_difference:
  assumes "UpdateAssumeRolePolicy d n \<in> set (snd (EnsureRole_spec env spec trust))"
  shows "d = trust \<and> n = rsRoleName spec
         \<and> (\<exists>role. (ensGetRole env (rsRoleName spec) = Inr role
                      \<or> (\<exists>e. ensGetRole env (rsRoleName spec) = Inl e \<and> IsNotFoundAws e
                              \<and> ensReadExisting env (rsRoleName spec) = Inr role))
                    \<and> mrTrustPolicy role \<noteq> trust)"
proof (cases "ensGetRole env (rsRoleName spec)")
  case (Inr role)
  then have "UpdateAssumeRolePolicy d n \<in> set (snd (ensureRole_converge env spec trust role))"
    using assms by (auto simp: EnsureRole_spec_def split: prod.splits)
  then show ?thesis using converge_update_needs_difference Inr by blast
next
  case (Inl e)
  show ?thesis
  proof (cases "IsNotFoundAws e \<and> (\<exists>ce. ensCreateRole env (rsRoleName spec) = Inl ce
                  \<and> IsAlreadyExistsAws ce)
                \<and> (\<exists>role. ensReadExisting env (rsRoleName spec) = Inr role)")
    case True
    then obtain role where r: "ensReadExisting env (rsRoleName spec) = Inr role" by blast
    then have "UpdateAssumeRolePolicy d n \<in> set (snd (ensureRole_converge env spec trust role))"
      using assms Inl True by (auto simp: EnsureRole_spec_def split: prod.splits)
    then show ?thesis using converge_update_needs_difference Inl True r by blast
  next
    case False
    then have "UpdateAssumeRolePolicy d n \<notin> set (snd (EnsureRole_spec env spec trust))"
      using Inl by (auto simp: EnsureRole_spec_def split: sum.splits)
    then show ?thesis using assms by simp
  qed
qed

text \<open>
  C6. If the lookup finds the role with the desired trust policy and the desired tags,
  ensure-role returns its ARN after that one read, with no other call; the same holds,
  with no update call, when the role turns up as existing only at its creation. An
  \<open>UpdateAssumeRolePolicy\<close> is issued only with the desired document, for the role's name,
  and only when the observed trust policy differs from the desired one. If only the tags
  differ, the tag update is the only update.
\<close>

theorem EnsureRole_updates_only_what_differs:
  "(ensGetRole env (rsRoleName spec) = Inr role \<and> mrTrustPolicy role = trust
      \<and> set (mrTags role) = set (tagPolicy spec) \<longrightarrow>
     EnsureRole_spec env spec trust = (Inr (mrARN role), [GetRole (rsRoleName spec)]))
   \<and> (ensGetRole env (rsRoleName spec) = Inl e \<and> IsNotFoundAws e
        \<and> ensCreateRole env (rsRoleName spec) = Inl ce \<and> IsAlreadyExistsAws ce
        \<and> ensReadExisting env (rsRoleName spec) = Inr role \<and> mrTrustPolicy role = trust
        \<and> set (mrTags role) = set (tagPolicy spec) \<longrightarrow>
       fst (EnsureRole_spec env spec trust) = Inr (mrARN role)
       \<and> \<not> (\<exists>c \<in> set (snd (EnsureRole_spec env spec trust)). is_update_call c))
   \<and> (UpdateAssumeRolePolicy d n \<in> set (snd (EnsureRole_spec env spec trust)) \<longrightarrow>
       d = trust \<and> n = rsRoleName spec
       \<and> (\<exists>observed. (ensGetRole env (rsRoleName spec) = Inr observed
                        \<or> (\<exists>e. ensGetRole env (rsRoleName spec) = Inl e \<and> IsNotFoundAws e
                                \<and> ensReadExisting env (rsRoleName spec) = Inr observed))
                      \<and> mrTrustPolicy observed \<noteq> trust))
   \<and> (ensGetRole env (rsRoleName spec) = Inr role \<and> mrTrustPolicy role = trust
        \<and> set (mrTags role) \<noteq> set (tagPolicy spec)
        \<and> ensTagRole env (rsRoleName spec) = None \<longrightarrow>
       EnsureRole_spec env spec trust
         = (Inr (mrARN role),
            [GetRole (rsRoleName spec), TagRole (rsRoleName spec) (tagPolicy spec)]))"
proof (intro conjI impI)
  assume "ensGetRole env (rsRoleName spec) = Inr role \<and> mrTrustPolicy role = trust
      \<and> set (mrTags role) = set (tagPolicy spec)"
  then show "EnsureRole_spec env spec trust = (Inr (mrARN role), [GetRole (rsRoleName spec)])"
    by (simp add: EnsureRole_spec_def converge_desired)
next
  assume a: "ensGetRole env (rsRoleName spec) = Inl e \<and> IsNotFoundAws e
        \<and> ensCreateRole env (rsRoleName spec) = Inl ce \<and> IsAlreadyExistsAws ce
        \<and> ensReadExisting env (rsRoleName spec) = Inr role \<and> mrTrustPolicy role = trust
        \<and> set (mrTags role) = set (tagPolicy spec)"
  then have eq: "EnsureRole_spec env spec trust
      = (Inr (mrARN role),
         [GetRole (rsRoleName spec), CreateRole trust (rsRoleName spec) (tagPolicy spec),
          GetRole (rsRoleName spec)])"
    by (simp add: EnsureRole_spec_def converge_desired)
  show "fst (EnsureRole_spec env spec trust) = Inr (mrARN role)" by (simp add: eq)
  show "\<not> (\<exists>c \<in> set (snd (EnsureRole_spec env spec trust)). is_update_call c)" by (simp add: eq)
next
  assume a: "UpdateAssumeRolePolicy d n \<in> set (snd (EnsureRole_spec env spec trust))"
  from EnsureRole_update_needs_difference[OF a]
  show "d = trust" and "n = rsRoleName spec"
    and "\<exists>observed. (ensGetRole env (rsRoleName spec) = Inr observed
                        \<or> (\<exists>e. ensGetRole env (rsRoleName spec) = Inl e \<and> IsNotFoundAws e
                                \<and> ensReadExisting env (rsRoleName spec) = Inr observed))
                      \<and> mrTrustPolicy observed \<noteq> trust"
    by simp_all
next
  assume "ensGetRole env (rsRoleName spec) = Inr role \<and> mrTrustPolicy role = trust
        \<and> set (mrTags role) \<noteq> set (tagPolicy spec)
        \<and> ensTagRole env (rsRoleName spec) = None"
  then show "EnsureRole_spec env spec trust
         = (Inr (mrARN role),
            [GetRole (rsRoleName spec), TagRole (rsRoleName spec) (tagPolicy spec)])"
    by (simp add: EnsureRole_spec_def converge_tags_only)
qed



lemma ex_tp: "tagPolicy example_spec = expectedIAMTags @ [(''team'', ''phoenix'')]"
  by (simp add: example_spec_def ownedTagKey_def clusterTagKey_def tagPolicy_def expectedIAMTags_def)

lemma ex_nm: "rsRoleName example_spec = ''test-cluster-control-plane''"
  by (simp add: example_spec_def)

lemma ex_set_eq: "set ((''team'', ''phoenix'') # expectedIAMTags) = set (tagPolicy example_spec)"
  unfolding ex_tp by auto

lemma ex_team_fresh: "(''team'', ''phoenix'') \<notin> set expectedIAMTags"
  by (simp add: expectedIAMTags_def)

lemma ex_set_neq: "set expectedIAMTags \<noteq> set (tagPolicy example_spec)"
  unfolding ex_tp using ex_team_fresh by auto

theorem EnsureRole_updates_only_what_differs_witness:
  "EnsureRole_spec
      (example_ensure_env
         (Inr (example_role ''trust-v2'' ((''team'', ''phoenix'') # expectedIAMTags)))
         (example_role ''trust-v2'' ((''team'', ''phoenix'') # expectedIAMTags)))
      example_spec ''trust-v2''
     = (Inr ''arn:aws:iam::123456789999:role/test-cluster-control-plane'',
        [GetRole ''test-cluster-control-plane''])
   \<and> fst (EnsureRole_spec
        (example_ensure_env (Inl (AwsError ''NoSuchEntity''))
           (example_role ''trust-v2'' ((''team'', ''phoenix'') # expectedIAMTags)))
        example_spec ''trust-v2'')
      = Inr ''arn:aws:iam::123456789999:role/test-cluster-control-plane''
   \<and> \<not> (\<exists>c \<in> set (snd (EnsureRole_spec
        (example_ensure_env (Inl (AwsError ''NoSuchEntity''))
           (example_role ''trust-v2'' ((''team'', ''phoenix'') # expectedIAMTags)))
        example_spec ''trust-v2'')). is_update_call c)
   \<and> UpdateAssumeRolePolicy ''trust-v2'' ''test-cluster-control-plane''
       \<in> set (snd (EnsureRole_spec
            (example_ensure_env
               (Inr (example_role ''trust-v1'' ((''team'', ''phoenix'') # expectedIAMTags)))
               (example_role ''trust-v1'' ((''team'', ''phoenix'') # expectedIAMTags)))
            example_spec ''trust-v2''))
   \<and> mrTrustPolicy (example_role ''trust-v1'' ((''team'', ''phoenix'') # expectedIAMTags))
       \<noteq> ''trust-v2''
   \<and> EnsureRole_spec
        (example_ensure_env (Inr (example_role ''trust-v2'' expectedIAMTags))
           (example_role ''trust-v2'' expectedIAMTags))
        example_spec ''trust-v2''
     = (Inr ''arn:aws:iam::123456789999:role/test-cluster-control-plane'',
        [GetRole ''test-cluster-control-plane'',
         TagRole ''test-cluster-control-plane'' (expectedIAMTags @ [(''team'', ''phoenix'')])])"
proof -
  let ?good = "example_role ''trust-v2'' ((''team'', ''phoenix'') # expectedIAMTags)"
  let ?old = "example_role ''trust-v1'' ((''team'', ''phoenix'') # expectedIAMTags)"
  let ?bare = "example_role ''trust-v2'' expectedIAMTags"
  let ?nf = "AwsError ''NoSuchEntity''" and ?ae = "AwsError ''EntityAlreadyExists''"
  have tg: "set (mrTags ?good) = set (tagPolicy example_spec)"
    and to: "set (mrTags ?old) = set (tagPolicy example_spec)"
    and tb: "set (mrTags ?bare) \<noteq> set (tagPolicy example_spec)"
    using ex_set_eq ex_set_neq by (simp_all add: example_role_def)
  have tr: "mrTrustPolicy ?good = ''trust-v2''" "mrTrustPolicy ?bare = ''trust-v2''"
    "mrTrustPolicy ?old = ''trust-v1''"
    by (simp_all add: example_role_def)
  have h1: "ensGetRole (example_ensure_env (Inr ?good) ?good) (rsRoleName example_spec) = Inr ?good
            \<and> mrTrustPolicy ?good = ''trust-v2''
            \<and> set (mrTags ?good) = set (tagPolicy example_spec)"
    using tg tr by (simp add: example_ensure_env_def)
  have h2: "ensGetRole (example_ensure_env (Inl ?nf) ?good) (rsRoleName example_spec) = Inl ?nf
            \<and> IsNotFoundAws ?nf
            \<and> ensCreateRole (example_ensure_env (Inl ?nf) ?good) (rsRoleName example_spec) = Inl ?ae
            \<and> IsAlreadyExistsAws ?ae
            \<and> ensReadExisting (example_ensure_env (Inl ?nf) ?good) (rsRoleName example_spec)
                = Inr ?good
            \<and> mrTrustPolicy ?good = ''trust-v2''
            \<and> set (mrTags ?good) = set (tagPolicy example_spec)"
    using tg tr
    by (simp add: example_ensure_env_def IsNotFoundAws_def IsAlreadyExistsAws_def
        ErrCodeNoSuchEntityException_def ErrCodeEntityAlreadyExistsException_def)
  have cv: "ensureRole_converge (example_ensure_env (Inr ?old) ?old) example_spec ''trust-v2'' ?old
      = (Inr (mrARN ?old), [UpdateAssumeRolePolicy ''trust-v2'' (rsRoleName example_spec)])"
    using to tr
    by (simp add: ensureRole_converge_def trustUpdateCalls_def tagUpdateCalls_def
        example_ensure_env_def)
  have h3: "UpdateAssumeRolePolicy ''trust-v2'' ''test-cluster-control-plane''
       \<in> set (snd (EnsureRole_spec (example_ensure_env (Inr ?old) ?old) example_spec ''trust-v2''))"
  proof -
    have "EnsureRole_spec (example_ensure_env (Inr ?old) ?old) example_spec ''trust-v2''
      = (Inr (mrARN ?old),
         [GetRole (rsRoleName example_spec),
          UpdateAssumeRolePolicy ''trust-v2'' (rsRoleName example_spec)])"
      unfolding EnsureRole_spec_def using cv by (simp add: example_ensure_env_def)
    then show ?thesis by (simp add: ex_nm)
  qed
  have h4: "ensGetRole (example_ensure_env (Inr ?bare) ?bare) (rsRoleName example_spec) = Inr ?bare
            \<and> mrTrustPolicy ?bare = ''trust-v2''
            \<and> set (mrTags ?bare) \<noteq> set (tagPolicy example_spec)
            \<and> ensTagRole (example_ensure_env (Inr ?bare) ?bare) (rsRoleName example_spec) = None"
    using tb tr by (simp add: example_ensure_env_def)
  note A = EnsureRole_updates_only_what_differs
      [of "example_ensure_env (Inr ?good) ?good" example_spec ?good "''trust-v2''"]
  note B = EnsureRole_updates_only_what_differs
      [of "example_ensure_env (Inl ?nf) ?good" example_spec ?good "''trust-v2''" ?nf ?ae]
  note C = EnsureRole_updates_only_what_differs
      [of "example_ensure_env (Inr ?old) ?old" example_spec _ "''trust-v2''" _ _
          "''trust-v2''" "''test-cluster-control-plane''"]
  note D = EnsureRole_updates_only_what_differs
      [of "example_ensure_env (Inr ?bare) ?bare" example_spec ?bare "''trust-v2''"]
  have a: "EnsureRole_spec (example_ensure_env (Inr ?good) ?good) example_spec ''trust-v2''
             = (Inr (mrARN ?good), [GetRole (rsRoleName example_spec)])"
    by (rule mp[OF A[THEN conjunct1] h1])
  have b: "fst (EnsureRole_spec (example_ensure_env (Inl ?nf) ?good) example_spec ''trust-v2'')
             = Inr (mrARN ?good)
           \<and> \<not> (\<exists>c \<in> set (snd (EnsureRole_spec (example_ensure_env (Inl ?nf) ?good)
                    example_spec ''trust-v2'')). is_update_call c)"
    by (rule mp[OF B[THEN conjunct2, THEN conjunct1] h2])
  have c: "\<exists>observed. (ensGetRole (example_ensure_env (Inr ?old) ?old) (rsRoleName example_spec)
                          = Inr observed
                        \<or> (\<exists>e. ensGetRole (example_ensure_env (Inr ?old) ?old)
                                   (rsRoleName example_spec) = Inl e \<and> IsNotFoundAws e
                                \<and> ensReadExisting (example_ensure_env (Inr ?old) ?old)
                                     (rsRoleName example_spec) = Inr observed))
                      \<and> mrTrustPolicy observed \<noteq> ''trust-v2''"
    using mp[OF C[THEN conjunct2, THEN conjunct2, THEN conjunct1] h3] by simp
  then have c': "mrTrustPolicy ?old \<noteq> ''trust-v2''"
    by (auto simp: example_ensure_env_def)
  have d: "EnsureRole_spec (example_ensure_env (Inr ?bare) ?bare) example_spec ''trust-v2''
         = (Inr (mrARN ?bare),
            [GetRole (rsRoleName example_spec),
             TagRole (rsRoleName example_spec) (tagPolicy example_spec)])"
    by (rule mp[OF D[THEN conjunct2, THEN conjunct2, THEN conjunct2] h4])
  have arn: "mrARN ?good = ''arn:aws:iam::123456789999:role/test-cluster-control-plane''"
            "mrARN ?bare = ''arn:aws:iam::123456789999:role/test-cluster-control-plane''"
    by (simp_all add: example_role_def)
  show ?thesis
    apply (intro conjI)
    using a apply (simp only: arn ex_nm)
    using b apply (simp only: arn)
    using b apply blast
    using h3 apply assumption
    using c' apply assumption
    using d apply (simp only: arn ex_nm ex_tp)
    done
qed

section \<open>The managed control plane without a role name\<close>

text \<open>
  C7, as amended. When the \<open>AWSManagedControlPlane\<close> has no \<open>.spec.RoleName\<close>, \<open>Reconcile\<close>
  makes no call but the \<open>Get\<close> of the object: no AWS session, no IAM call, no patch. If in
  addition the cluster id can be read from the labels and the object carries the
  watch-filter label, it returns no error and asks for a requeue after one minute. An
  object without the watch-filter label is ignored, with success and no requeue, and a
  failure to read the cluster id is returned as an error.
\<close>

theorem Reconcile_mcp_without_role_name:
  "mcpGet env req = Inr eksCluster \<and> mcpRoleName eksCluster = None \<longrightarrow>
     res_trace (Reconcile_mcp k env req) = [EvGet req]
     \<and> (mcpGetClusterIDFromLabels env (mcpMeta eksCluster) = Inr clusterName
          \<and> mcpHasCapiWatchLabel env (objLabels (mcpMeta eksCluster)) \<longrightarrow>
         Reconcile_mcp k env req = (\<lparr>Requeue = True, RequeueAfter = Minute\<rparr>, None, [EvGet req])
         \<and> Minute = 60000000000)
     \<and> (mcpGetClusterIDFromLabels env (mcpMeta eksCluster) = Inr clusterName
          \<and> \<not> mcpHasCapiWatchLabel env (objLabels (mcpMeta eksCluster)) \<longrightarrow>
         Reconcile_mcp k env req = (\<lparr>Requeue = False, RequeueAfter = 0\<rparr>, None, [EvGet req]))
     \<and> (mcpGetClusterIDFromLabels env (mcpMeta eksCluster) = Inl err \<longrightarrow>
         Reconcile_mcp k env req
           = (\<lparr>Requeue = False, RequeueAfter = 0\<rparr>, Some (Mask err), [EvGet req]))"
  by (auto simp: Reconcile_mcp_def res_trace_def Minute_def Result_empty_def split: sum.splits)

theorem Reconcile_mcp_without_role_name_witness:
  "mcpGet (example_mcp_env (example_mcp None False) (Inr ''eks-1'') True None) example_req
     = Inr (example_mcp None False)
   \<and> mcpRoleName (example_mcp None False) = None
   \<and> mcpGetClusterIDFromLabels (example_mcp_env (example_mcp None False) (Inr ''eks-1'') True None)
        (mcpMeta (example_mcp None False)) = Inr ''eks-1''
   \<and> mcpHasCapiWatchLabel (example_mcp_env (example_mcp None False) (Inr ''eks-1'') True None)
        (objLabels (mcpMeta (example_mcp None False)))
   \<and> Reconcile_mcp example_consts
        (example_mcp_env (example_mcp None False) (Inr ''eks-1'') True None) example_req
      = (\<lparr>Requeue = True, RequeueAfter = 60000000000\<rparr>, None, [EvGet example_req])
   \<and> \<not> mcpHasCapiWatchLabel (example_mcp_env (example_mcp None False) (Inr ''eks-1'') False None)
        (objLabels (mcpMeta (example_mcp None False)))
   \<and> Reconcile_mcp example_consts
        (example_mcp_env (example_mcp None False) (Inr ''eks-1'') False None) example_req
      = (\<lparr>Requeue = False, RequeueAfter = 0\<rparr>, None, [EvGet example_req])
   \<and> mcpGetClusterIDFromLabels
        (example_mcp_env (example_mcp None False) (Inl (Errorf ''no cluster id'')) True None)
        (mcpMeta (example_mcp None False)) = Inl (Errorf ''no cluster id'')
   \<and> Reconcile_mcp example_consts
        (example_mcp_env (example_mcp None False) (Inl (Errorf ''no cluster id'')) True None)
        example_req
      = (\<lparr>Requeue = False, RequeueAfter = 0\<rparr>, Some (Mask (Errorf ''no cluster id'')),
         [EvGet example_req])"
proof -
  let ?env = "example_mcp_env (example_mcp None False) (Inr ''eks-1'') True None"
  let ?envU = "example_mcp_env (example_mcp None False) (Inr ''eks-1'') False None"
  let ?envE = "example_mcp_env (example_mcp None False) (Inl (Errorf ''no cluster id'')) True None"
  have h: "mcpGet ?env example_req = Inr (example_mcp None False)
           \<and> mcpRoleName (example_mcp None False) = None"
    and hU: "mcpGet ?envU example_req = Inr (example_mcp None False)
           \<and> mcpRoleName (example_mcp None False) = None"
    and hE: "mcpGet ?envE example_req = Inr (example_mcp None False)
           \<and> mcpRoleName (example_mcp None False) = None"
    and g: "mcpGetClusterIDFromLabels ?env (mcpMeta (example_mcp None False)) = Inr ''eks-1''
           \<and> mcpHasCapiWatchLabel ?env (objLabels (mcpMeta (example_mcp None False)))"
    and gU: "mcpGetClusterIDFromLabels ?envU (mcpMeta (example_mcp None False)) = Inr ''eks-1''
           \<and> \<not> mcpHasCapiWatchLabel ?envU (objLabels (mcpMeta (example_mcp None False)))"
    and gE: "mcpGetClusterIDFromLabels ?envE (mcpMeta (example_mcp None False))
              = Inl (Errorf ''no cluster id'')"
    by (simp_all add: example_mcp_env_def example_mcp_def)
  note A = mp[OF Reconcile_mcp_without_role_name
            [of ?env example_req "example_mcp None False" example_consts "''eks-1''"] h]
  note B = mp[OF Reconcile_mcp_without_role_name
            [of ?envU example_req "example_mcp None False" example_consts "''eks-1''"] hU]
  note C = mp[OF Reconcile_mcp_without_role_name
            [of ?envE example_req "example_mcp None False" example_consts _
                "Errorf ''no cluster id''"] hE]
  have a: "Reconcile_mcp example_consts ?env example_req
          = (\<lparr>Requeue = True, RequeueAfter = Minute\<rparr>, None, [EvGet example_req])
        \<and> Minute = 60000000000"
    by (rule mp[OF A[THEN conjunct2, THEN conjunct1] g])
  have b: "Reconcile_mcp example_consts ?envU example_req
          = (\<lparr>Requeue = False, RequeueAfter = 0\<rparr>, None, [EvGet example_req])"
    by (rule mp[OF B[THEN conjunct2, THEN conjunct2, THEN conjunct1] gU])
  have c: "Reconcile_mcp example_consts ?envE example_req
          = (\<lparr>Requeue = False, RequeueAfter = 0\<rparr>, Some (Mask (Errorf ''no cluster id'')),
             [EvGet example_req])"
    by (rule mp[OF C[THEN conjunct2, THEN conjunct2, THEN conjunct2] gE])
  show ?thesis using h g gU gE a b c by simp
qed

text \<open>
  C7 as stated fails: an object without \<open>.spec.RoleName\<close> that lacks the watch-filter label
  is ignored, with success and no requeue at all, and one whose cluster id cannot be
  read from the labels makes \<open>Reconcile\<close> return that error.
\<close>

theorem Reconcile_mcp_without_role_name_no_requeue:
  "mcpRoleName (example_mcp None False) = None
   \<and> Reconcile_mcp example_consts
        (example_mcp_env (example_mcp None False) (Inr ''eks-1'') False None) example_req
      = (\<lparr>Requeue = False, RequeueAfter = 0\<rparr>, None, [EvGet example_req])
   \<and> Reconcile_mcp example_consts
        (example_mcp_env (example_mcp None False) (Inl (Errorf ''no cluster id'')) True None)
        example_req
      = (\<lparr>Requeue = False, RequeueAfter = 0\<rparr>, Some (Mask (Errorf ''no cluster id'')),
         [EvGet example_req])"
  by (simp add: Reconcile_mcp_def example_mcp_env_def example_mcp_def Result_empty_def)

section \<open>Deletion: teardown before the finalizer goes\<close>

lemma reconcileDelete_roles_cases:
  "reconcileDelete_roles k r env roleUsed role =
     (if roleUsed then (None, [])
      else if envDeleteRole env \<noteq> None then (envDeleteRole env, [EvDeleteRole])
      else if role = ControlPlaneRole k \<and> r
           then (envDeleteRolesForIRSA env, [EvDeleteRole, EvDeleteRolesForIRSA])
           else (None, [EvDeleteRole]))"
  by (auto simp: reconcileDelete_roles_def split: option.splits)

text \<open>
  What \<open>reconcileDelete\<close> does before it touches a finalizer: the guard and the teardown.
  Either it stops there with the error met, or it goes on with calls that start with the
  lookup of the \<open>AWSCluster\<close>.
\<close>

lemma reconcileDelete_front:
  "(\<exists>err. envIsRoleUsedElsewhere env (mtIAMInstanceProfile mt) = Inl err
       \<and> reconcileDelete k r env mt cn ns role
           = (Result_empty, Some err, [EvIsRoleUsedElsewhere (mtIAMInstanceProfile mt)]))
   \<or> (\<exists>roleUsed err tr1. envIsRoleUsedElsewhere env (mtIAMInstanceProfile mt) = Inr roleUsed
       \<and> reconcileDelete_roles k r env roleUsed role = (Some err, tr1)
       \<and> reconcileDelete k r env mt cn ns role
           = (Result_empty, Some err, EvIsRoleUsedElsewhere (mtIAMInstanceProfile mt) # tr1))
   \<or> (\<exists>roleUsed tr1 rest. envIsRoleUsedElsewhere env (mtIAMInstanceProfile mt) = Inr roleUsed
       \<and> reconcileDelete_roles k r env roleUsed role = (None, tr1)
       \<and> res_trace (reconcileDelete k r env mt cn ns role)
           = EvIsRoleUsedElsewhere (mtIAMInstanceProfile mt) # tr1 @ [EvList cn] @ rest)"
proof (cases "envIsRoleUsedElsewhere env (mtIAMInstanceProfile mt)")
  case (Inl err)
  then show ?thesis by (simp add: reconcileDelete_def)
next
  case (Inr roleUsed)
  obtain e tr1 where rr: "reconcileDelete_roles k r env roleUsed role = (e, tr1)"
    by (cases "reconcileDelete_roles k r env roleUsed role") auto
  show ?thesis
  proof (cases e)
    case (Some err)
    then show ?thesis using Inr rr by (simp add: reconcileDelete_def)
  next
    case None
    have "\<exists>rest. res_trace (reconcileDelete k r env mt cn ns role)
           = EvIsRoleUsedElsewhere (mtIAMInstanceProfile mt) # tr1 @ [EvList cn] @ rest"
      using Inr rr None
      by (auto simp: reconcileDelete_def res_trace_def split: sum.splits option.splits prod.splits)
    then show ?thesis using Inr rr None by auto
  qed
qed


lemma reconcileDelete_patch_needs_teardown:
  assumes "\<exists>ev \<in> set (res_trace (reconcileDelete k r env mt cn ns role)). is_patch ev"
  shows "envIsRoleUsedElsewhere env (mtIAMInstanceProfile mt) = Inr True
     \<or> (envIsRoleUsedElsewhere env (mtIAMInstanceProfile mt) = Inr False
        \<and> envDeleteRole env = None
        \<and> EvDeleteRole \<in> set (before_first_patch (res_trace (reconcileDelete k r env mt cn ns role)))
        \<and> (role = ControlPlaneRole k \<and> r \<longrightarrow>
             envDeleteRolesForIRSA env = None
             \<and> EvDeleteRolesForIRSA
                 \<in> set (before_first_patch (res_trace (reconcileDelete k r env mt cn ns role)))))"
  using reconcileDelete_front[of env mt k r cn ns role]
proof (elim disjE exE conjE)
  fix err
  assume "reconcileDelete k r env mt cn ns role
           = (Result_empty, Some err, [EvIsRoleUsedElsewhere (mtIAMInstanceProfile mt)])"
  then show ?thesis using assms by (simp add: res_trace_def)
next
  fix roleUsed err tr1
  assume "reconcileDelete_roles k r env roleUsed role = (Some err, tr1)"
    and "reconcileDelete k r env mt cn ns role
           = (Result_empty, Some err, EvIsRoleUsedElsewhere (mtIAMInstanceProfile mt) # tr1)"
  then show ?thesis using assms
    by (auto simp: res_trace_def reconcileDelete_roles_cases split: if_splits)
next
  fix roleUsed tr1 rest
  assume g: "envIsRoleUsedElsewhere env (mtIAMInstanceProfile mt) = Inr roleUsed"
    and rr: "reconcileDelete_roles k r env roleUsed role = (None, tr1)"
    and tr: "res_trace (reconcileDelete k r env mt cn ns role)
           = EvIsRoleUsedElsewhere (mtIAMInstanceProfile mt) # tr1 @ [EvList cn] @ rest"
  show ?thesis
  proof (cases roleUsed)
    case True
    then show ?thesis using g by simp
  next
    case False
    then show ?thesis using g rr
      unfolding tr before_first_patch_def
      by (auto simp: reconcileDelete_roles_cases split: if_splits)
  qed
qed

lemma reconcileDelete_teardown_error:
  assumes "envIsRoleUsedElsewhere env (mtIAMInstanceProfile mt) = Inr False"
    and "envDeleteRole env = Some e
         \<or> (envDeleteRole env = None \<and> role = ControlPlaneRole k \<and> r
             \<and> envDeleteRolesForIRSA env = Some e)"
  shows "rec_error (reconcileDelete k r env mt cn ns role) = Some e
         \<and> patch_attempts (res_trace (reconcileDelete k r env mt cn ns role)) = 0"
  using assms
  by (auto simp: reconcileDelete_def reconcileDelete_roles_cases rec_error_def res_trace_def
      patch_attempts_def)

lemma AddFinalizer_contains: "f \<in> set (objFinalizers (AddFinalizer ob f))"
  by (simp add: AddFinalizer_def)

lemma addFinalizer_no_removal:
  "ev \<in> set (res_trace (reconcileNormal_addFinalizer k c ob f)) \<Longrightarrow> \<not> removes_finalizer f ev"
  by (auto simp: reconcileNormal_addFinalizer_def res_trace_def AddFinalizer_contains
      split: if_splits option.splits)

lemma Reconcile_mcp_normal_no_removal:
  "ev \<in> set (res_trace (Reconcile_mcp_normal k env eksCluster identity roleName)) \<Longrightarrow>
   \<not> removes_finalizer (FinalizerName (IRSARole k)) ev \<and> ev \<noteq> EvDeleteRolesForIRSA"
proof -
  obtain e ob1 tr1 where a: "reconcileNormal_addFinalizer k (mcpClient env) (mcpMeta eksCluster)
             (FinalizerName (IRSARole k)) = (e, ob1, tr1)"
    by (cases "reconcileNormal_addFinalizer k (mcpClient env) (mcpMeta eksCluster)
             (FinalizerName (IRSARole k))") auto
  have tr1: "\<And>ev. ev \<in> set tr1 \<Longrightarrow> \<not> removes_finalizer (FinalizerName (IRSARole k)) ev
                 \<and> ev \<noteq> EvDeleteRolesForIRSA"
    using addFinalizer_no_removal[of _ k "mcpClient env" "mcpMeta eksCluster" "FinalizerName (IRSARole k)"] a
    by (auto simp: res_trace_def reconcileNormal_addFinalizer_def split: if_splits option.splits)
  assume "ev \<in> set (res_trace (Reconcile_mcp_normal k env eksCluster identity roleName))"
  then show ?thesis using a tr1
    by (auto simp: Reconcile_mcp_normal_def res_trace_def split: option.splits sum.splits)
qed

lemma Reconcile_mcp_delete_cases:
  "(\<exists>err. mcpDeleteRolesForIRSA env = Some err
      \<and> Reconcile_mcp_delete k env eksCluster = (Result_empty, Some (Mask err), [EvDeleteRolesForIRSA]))
   \<or> (\<exists>res e rest. mcpDeleteRolesForIRSA env = None
      \<and> Reconcile_mcp_delete k env eksCluster = (res, e, EvDeleteRolesForIRSA # rest))"
  by (auto simp: Reconcile_mcp_delete_def split: option.splits)

text \<open>The calls of \<open>Reconcile\<close> up to the branch on the deletion timestamp are no patches.\<close>

lemma Reconcile_mcp_shape:
  "(\<exists>res e pre. Reconcile_mcp k env req = (res, e, pre)
       \<and> (\<forall>ev \<in> set pre. \<not> is_patch ev \<and> ev \<noteq> EvDeleteRolesForIRSA))
   \<or> (\<exists>eksCluster identity roleName res e tr pre.
        Reconcile_mcp k env req = (res, e, pre @ tr)
        \<and> (\<forall>ev \<in> set pre. \<not> is_patch ev \<and> ev \<noteq> EvDeleteRolesForIRSA)
        \<and> (res, e, tr) = (if objDeleting (mcpMeta eksCluster)
                          then Reconcile_mcp_delete k env eksCluster
                          else Reconcile_mcp_normal k env eksCluster identity roleName))"
proof -
  have svc: "(\<exists>res e pre. Reconcile_mcp_service k env eksCluster roleName = (res, e, pre)
       \<and> (\<forall>ev \<in> set pre. \<not> is_patch ev \<and> ev \<noteq> EvDeleteRolesForIRSA))
   \<or> (\<exists>identity res e tr pre.
        Reconcile_mcp_service k env eksCluster roleName = (res, e, pre @ tr)
        \<and> (\<forall>ev \<in> set pre. \<not> is_patch ev \<and> ev \<noteq> EvDeleteRolesForIRSA)
        \<and> (res, e, tr) = (if objDeleting (mcpMeta eksCluster)
                          then Reconcile_mcp_delete k env eksCluster
                          else Reconcile_mcp_normal k env eksCluster identity roleName))"
    for eksCluster roleName
  proof (cases "mcpGetAWSClusterRoleIdentity env (mcpIdentityRefName eksCluster)")
    case (Inl err)
    then show ?thesis by (simp add: Reconcile_mcp_service_def)
  next
    case (Inr identity)
    let ?b = "if objDeleting (mcpMeta eksCluster)
                          then Reconcile_mcp_delete k env eksCluster
                          else Reconcile_mcp_normal k env eksCluster identity roleName"
    obtain res e tr where b: "?b = (res, e, tr)" by (cases ?b) auto
    show ?thesis
    proof (cases "mcpGetAWSClientSession env identity (mcpRegion eksCluster) = None
                  \<and> mcpGetCallerIdentity env = None \<and> mcpIamNew env = None")
      case True
      then have "Reconcile_mcp_service k env eksCluster roleName
          = (res, e, [EvOther ''GetAWSClusterRoleIdentity'', EvAWS ''GetAWSClientSession'',
                      EvAWS ''GetCallerIdentity''] @ tr)"
        using Inr b by (simp add: Reconcile_mcp_service_def)
      then show ?thesis using b
        by (intro disjI2 exI[of _ identity] exI[of _ res] exI[of _ e] exI[of _ tr]
              exI[of _ "[EvOther ''GetAWSClusterRoleIdentity'', EvAWS ''GetAWSClientSession'',
                      EvAWS ''GetCallerIdentity'']"]) simp
    next
      case False
      then show ?thesis using Inr
        by (auto simp: Reconcile_mcp_service_def split: option.splits)
    qed
  qed
  show ?thesis
  proof (cases "mcpGet env req")
    case (Inl err)
    then show ?thesis by (simp add: Reconcile_mcp_def)
  next
    case (Inr eksCluster)
    show ?thesis
    proof (cases "mcpGetClusterIDFromLabels env (mcpMeta eksCluster)")
      case (Inl err)
      then show ?thesis using Inr by (simp add: Reconcile_mcp_def)
    next
      case cid: (Inr clusterName)
      show ?thesis
      proof (cases "mcpHasCapiWatchLabel env (objLabels (mcpMeta eksCluster))")
        case False
        then show ?thesis using Inr cid by (simp add: Reconcile_mcp_def)
      next
        case True
        show ?thesis
        proof (cases "mcpRoleName eksCluster")
          case None
          then show ?thesis using Inr cid True by (simp add: Reconcile_mcp_def)
        next
          case (Some roleName)
          from svc[of eksCluster roleName] show ?thesis
          proof (elim disjE exE conjE)
            fix res e pre
            assume "Reconcile_mcp_service k env eksCluster roleName = (res, e, pre)"
              and "\<forall>ev \<in> set pre. \<not> is_patch ev \<and> ev \<noteq> EvDeleteRolesForIRSA"
            then show ?thesis using Inr cid True Some
              by (intro disjI1 exI[of _ res] exI[of _ e] exI[of _ "EvGet req # pre"])
                 (simp add: Reconcile_mcp_def)
          next
            fix identity res e tr pre
            assume "Reconcile_mcp_service k env eksCluster roleName = (res, e, pre @ tr)"
              and "\<forall>ev \<in> set pre. \<not> is_patch ev \<and> ev \<noteq> EvDeleteRolesForIRSA"
              and "(res, e, tr) = (if objDeleting (mcpMeta eksCluster)
                          then Reconcile_mcp_delete k env eksCluster
                          else Reconcile_mcp_normal k env eksCluster identity roleName)"
            then show ?thesis using Inr cid True Some
              by (intro disjI2 exI[of _ eksCluster] exI[of _ identity] exI[of _ roleName]
                    exI[of _ res] exI[of _ e] exI[of _ tr] exI[of _ "EvGet req # pre"])
                 (simp add: Reconcile_mcp_def)
          qed
        qed
      qed
    qed
  qed
qed

lemma removes_is_patch: "removes_finalizer f ev \<Longrightarrow> is_patch ev"
  by (cases ev) auto

lemma takeWhile_pre:
  "\<forall>ev \<in> set pre. P ev \<Longrightarrow> takeWhile P (pre @ x # rest) = pre @ takeWhile P (x # rest)"
  by (induction pre) auto

lemma Reconcile_mcp_removal_needs_teardown:
  assumes "\<exists>ev \<in> set (res_trace (Reconcile_mcp k env req)).
             removes_finalizer (FinalizerName (IRSARole k)) ev"
  shows "mcpDeleteRolesForIRSA env = None
         \<and> EvDeleteRolesForIRSA \<in> set (before_first_patch (res_trace (Reconcile_mcp k env req)))"
  using Reconcile_mcp_shape[of k env req]
proof (elim disjE exE conjE)
  fix res e pre
  assume "Reconcile_mcp k env req = (res, e, pre)"
    and "\<forall>ev \<in> set pre. \<not> is_patch ev \<and> ev \<noteq> EvDeleteRolesForIRSA"
  then show ?thesis using assms removes_is_patch by (auto simp: res_trace_def)
next
  fix eksCluster identity roleName res e tr pre
  assume eq: "Reconcile_mcp k env req = (res, e, pre @ tr)"
    and pre: "\<forall>ev \<in> set pre. \<not> is_patch ev \<and> ev \<noteq> EvDeleteRolesForIRSA"
    and br: "(res, e, tr) = (if objDeleting (mcpMeta eksCluster)
                          then Reconcile_mcp_delete k env eksCluster
                          else Reconcile_mcp_normal k env eksCluster identity roleName)"
  from assms eq pre removes_is_patch
  have intr: "\<exists>ev \<in> set tr. removes_finalizer (FinalizerName (IRSARole k)) ev"
    by (auto simp: res_trace_def)
  show ?thesis
  proof (cases "objDeleting (mcpMeta eksCluster)")
    case False
    then have "tr = res_trace (Reconcile_mcp_normal k env eksCluster identity roleName)"
      using br by (simp add: res_trace_def split: prod.splits) (metis snd_conv)
    then show ?thesis using intr Reconcile_mcp_normal_no_removal by blast
  next
    case True
    then have d: "Reconcile_mcp_delete k env eksCluster = (res, e, tr)" using br by simp
    from Reconcile_mcp_delete_cases[of env k eksCluster] show ?thesis
    proof (elim disjE exE conjE)
      fix err
      assume "Reconcile_mcp_delete k env eksCluster
                = (Result_empty, Some (Mask err), [EvDeleteRolesForIRSA])"
      then show ?thesis using d intr by auto
    next
      fix res' e' rest
      assume n: "mcpDeleteRolesForIRSA env = None"
        and "Reconcile_mcp_delete k env eksCluster = (res', e', EvDeleteRolesForIRSA # rest)"
      then have "tr = EvDeleteRolesForIRSA # rest" using d by simp
      then have "res_trace (Reconcile_mcp k env req) = pre @ EvDeleteRolesForIRSA # rest"
        using eq by (simp add: res_trace_def)
      then show ?thesis using n pre
        by (simp add: before_first_patch_def takeWhile_pre)
    qed
  qed
qed

lemma Reconcile_mcp_teardown_error:
  assumes "EvDeleteRolesForIRSA \<in> set (res_trace (Reconcile_mcp k env req))"
    and "mcpDeleteRolesForIRSA env = Some err"
  shows "rec_error (Reconcile_mcp k env req) = Some (Mask err)
         \<and> patch_attempts (res_trace (Reconcile_mcp k env req)) = 0"
  using Reconcile_mcp_shape[of k env req]
proof (elim disjE exE conjE)
  fix res e pre
  assume "Reconcile_mcp k env req = (res, e, pre)"
    and "\<forall>ev \<in> set pre. \<not> is_patch ev \<and> ev \<noteq> EvDeleteRolesForIRSA"
  then show ?thesis using assms by (auto simp: res_trace_def)
next
  fix eksCluster identity roleName res e tr pre
  assume eq: "Reconcile_mcp k env req = (res, e, pre @ tr)"
    and pre: "\<forall>ev \<in> set pre. \<not> is_patch ev \<and> ev \<noteq> EvDeleteRolesForIRSA"
    and br: "(res, e, tr) = (if objDeleting (mcpMeta eksCluster)
                          then Reconcile_mcp_delete k env eksCluster
                          else Reconcile_mcp_normal k env eksCluster identity roleName)"
  from assms eq pre have intr: "EvDeleteRolesForIRSA \<in> set tr"
    by (auto simp: res_trace_def)
  show ?thesis
  proof (cases "objDeleting (mcpMeta eksCluster)")
    case False
    then have "tr = res_trace (Reconcile_mcp_normal k env eksCluster identity roleName)"
      using br by (simp add: res_trace_def split: prod.splits) (metis snd_conv)
    then show ?thesis using intr Reconcile_mcp_normal_no_removal by blast
  next
    case True
    then have d: "Reconcile_mcp_delete k env eksCluster = (res, e, tr)" using br by simp
    then have "e = Some (Mask err) \<and> tr = [EvDeleteRolesForIRSA]"
      using assms(2) by (simp add: Reconcile_mcp_delete_def)
    then show ?thesis using eq pre
      by (simp add: rec_error_def res_trace_def patch_attempts_def filter_empty_conv)
  qed
qed

text \<open>
  C3. In \<open>reconcileDelete\<close> a finalizer patch is made only if the guard found the role
  still used elsewhere, or if \<open>DeleteRole\<close> (and, for a control-plane role with the
  Route53 role enabled, \<open>DeleteRolesForIRSA\<close>) was called before the first patch and
  returned success; if \<open>DeleteRole\<close> or \<open>DeleteRolesForIRSA\<close> fails, that error is returned
  and no patch is made. In \<open>AWSManagedControlPlaneReconciler.Reconcile\<close> a patch that
  removes the finalizer is made only after \<open>DeleteRolesForIRSA\<close> was called and returned
  success; if it fails, the masked error is returned and no patch is made.
\<close>

theorem finalizer_removed_only_after_teardown:
  "((\<exists>ev \<in> set (res_trace (reconcileDelete k r env mt cn ns role)). is_patch ev) \<longrightarrow>
      envIsRoleUsedElsewhere env (mtIAMInstanceProfile mt) = Inr True
      \<or> (envIsRoleUsedElsewhere env (mtIAMInstanceProfile mt) = Inr False
         \<and> envDeleteRole env = None
         \<and> EvDeleteRole \<in> set (before_first_patch (res_trace (reconcileDelete k r env mt cn ns role)))
         \<and> (role = ControlPlaneRole k \<and> r \<longrightarrow>
              envDeleteRolesForIRSA env = None
              \<and> EvDeleteRolesForIRSA
                  \<in> set (before_first_patch (res_trace (reconcileDelete k r env mt cn ns role))))))
   \<and> (envIsRoleUsedElsewhere env (mtIAMInstanceProfile mt) = Inr False
        \<and> (envDeleteRole env = Some e
            \<or> (envDeleteRole env = None \<and> role = ControlPlaneRole k \<and> r
                \<and> envDeleteRolesForIRSA env = Some e)) \<longrightarrow>
       rec_error (reconcileDelete k r env mt cn ns role) = Some e
       \<and> patch_attempts (res_trace (reconcileDelete k r env mt cn ns role)) = 0)
   \<and> ((\<exists>ev \<in> set (res_trace (Reconcile_mcp k menv req)).
          removes_finalizer (FinalizerName (IRSARole k)) ev) \<longrightarrow>
       mcpDeleteRolesForIRSA menv = None
       \<and> EvDeleteRolesForIRSA \<in> set (before_first_patch (res_trace (Reconcile_mcp k menv req))))
   \<and> (EvDeleteRolesForIRSA \<in> set (res_trace (Reconcile_mcp k menv req))
        \<and> mcpDeleteRolesForIRSA menv = Some e' \<longrightarrow>
       rec_error (Reconcile_mcp k menv req) = Some (Mask e')
       \<and> patch_attempts (res_trace (Reconcile_mcp k menv req)) = 0)"
proof (intro conjI impI)
  assume "\<exists>ev \<in> set (res_trace (reconcileDelete k r env mt cn ns role)). is_patch ev"
  then show "envIsRoleUsedElsewhere env (mtIAMInstanceProfile mt) = Inr True
      \<or> (envIsRoleUsedElsewhere env (mtIAMInstanceProfile mt) = Inr False
         \<and> envDeleteRole env = None
         \<and> EvDeleteRole \<in> set (before_first_patch (res_trace (reconcileDelete k r env mt cn ns role)))
         \<and> (role = ControlPlaneRole k \<and> r \<longrightarrow>
              envDeleteRolesForIRSA env = None
              \<and> EvDeleteRolesForIRSA
                  \<in> set (before_first_patch (res_trace (reconcileDelete k r env mt cn ns role)))))"
    by (rule reconcileDelete_patch_needs_teardown)
next
  assume a: "envIsRoleUsedElsewhere env (mtIAMInstanceProfile mt) = Inr False
        \<and> (envDeleteRole env = Some e
            \<or> (envDeleteRole env = None \<and> role = ControlPlaneRole k \<and> r
                \<and> envDeleteRolesForIRSA env = Some e))"
  then show "rec_error (reconcileDelete k r env mt cn ns role) = Some e"
    using reconcileDelete_teardown_error[of env mt e role k r cn ns] by simp
  from a show "patch_attempts (res_trace (reconcileDelete k r env mt cn ns role)) = 0"
    using reconcileDelete_teardown_error[of env mt e role k r cn ns] by simp
next
  assume a: "\<exists>ev \<in> set (res_trace (Reconcile_mcp k menv req)).
          removes_finalizer (FinalizerName (IRSARole k)) ev"
  then show "mcpDeleteRolesForIRSA menv = None"
    using Reconcile_mcp_removal_needs_teardown[of k menv req] by simp
  from a show "EvDeleteRolesForIRSA \<in> set (before_first_patch (res_trace (Reconcile_mcp k menv req)))"
    using Reconcile_mcp_removal_needs_teardown[of k menv req] by simp
next
  assume a: "EvDeleteRolesForIRSA \<in> set (res_trace (Reconcile_mcp k menv req))
        \<and> mcpDeleteRolesForIRSA menv = Some e'"
  then show "rec_error (Reconcile_mcp k menv req) = Some (Mask e')"
    using Reconcile_mcp_teardown_error[of k menv req e'] by simp
  from a show "patch_attempts (res_trace (Reconcile_mcp k menv req)) = 0"
    using Reconcile_mcp_teardown_error[of k menv req e'] by simp
qed


lemmas example_defs =
  example_consts_def example_template_def example_template_meta_def example_cluster_def
  other_cluster_def example_configmap_def example_env_def client_ok_def client_failing_def
  example_mcp_def example_mcp_env_def example_req_def

lemmas reconcile_defs =
  reconcileDelete_def reconcileDelete_roles_def GetAWSClusterByName_def List_AWSCluster_def
  MatchingLabels_def ClusterNameLabel_def configMapKey_def removeFinalizer_def
  removeFinalizer_loop.simps ContainsFinalizer_def RemoveFinalizer_def AddFinalizer_def
  FinalizerName_def objKey_def maxPatchRetries_def NewAggregate_def Result_empty_def
  Result_requeue_def IgnoreNotFound_def
  Reconcile_mcp_def Reconcile_mcp_service_def Reconcile_mcp_delete_def Reconcile_mcp_normal_def
  reconcileNormal_addFinalizer_def
  res_trace_def res_error_def rec_error_def rec_result_def patch_attempts_def refetches_def
  before_first_patch_def

theorem finalizer_removed_only_after_teardown_witness:
  "(\<exists>ev \<in> set (res_trace (reconcileDelete example_consts True
        (example_env (Inr False) None None client_ok (Inr example_configmap))
        example_template ''test-cluster'' ''org-acme'' ''control-plane'')). is_patch ev)
   \<and> EvDeleteRole \<in> set (before_first_patch (res_trace (reconcileDelete example_consts True
        (example_env (Inr False) None None client_ok (Inr example_configmap))
        example_template ''test-cluster'' ''org-acme'' ''control-plane'')))
   \<and> EvDeleteRolesForIRSA \<in> set (before_first_patch (res_trace (reconcileDelete example_consts True
        (example_env (Inr False) None None client_ok (Inr example_configmap))
        example_template ''test-cluster'' ''org-acme'' ''control-plane'')))
   \<and> rec_error (reconcileDelete example_consts True
        (example_env (Inr False) None (Some (Aws (AwsError ''AccessDenied''))) client_ok
           (Inr example_configmap))
        example_template ''test-cluster'' ''org-acme'' ''control-plane'')
       = Some (Aws (AwsError ''AccessDenied''))
   \<and> patch_attempts (res_trace (reconcileDelete example_consts True
        (example_env (Inr False) None (Some (Aws (AwsError ''AccessDenied''))) client_ok
           (Inr example_configmap))
        example_template ''test-cluster'' ''org-acme'' ''control-plane'')) = 0
   \<and> (\<exists>ev \<in> set (res_trace (Reconcile_mcp example_consts
        (example_mcp_env (example_mcp (Some ''eks-1-role'') True) (Inr ''eks-1'') True None)
        example_req)). removes_finalizer (FinalizerName (IRSARole example_consts)) ev)
   \<and> EvDeleteRolesForIRSA \<in> set (before_first_patch (res_trace (Reconcile_mcp example_consts
        (example_mcp_env (example_mcp (Some ''eks-1-role'') True) (Inr ''eks-1'') True None)
        example_req)))
   \<and> EvDeleteRolesForIRSA \<in> set (res_trace (Reconcile_mcp example_consts
        (example_mcp_env (example_mcp (Some ''eks-1-role'') True) (Inr ''eks-1'') True
           (Some (Aws (AwsError ''AccessDenied''))))
        example_req))
   \<and> rec_error (Reconcile_mcp example_consts
        (example_mcp_env (example_mcp (Some ''eks-1-role'') True) (Inr ''eks-1'') True
           (Some (Aws (AwsError ''AccessDenied''))))
        example_req) = Some (Mask (Aws (AwsError ''AccessDenied'')))
   \<and> patch_attempts (res_trace (Reconcile_mcp example_consts
        (example_mcp_env (example_mcp (Some ''eks-1-role'') True) (Inr ''eks-1'') True
           (Some (Aws (AwsError ''AccessDenied''))))
        example_req)) = 0"
proof -
  let ?env = "example_env (Inr False) None None client_ok (Inr example_configmap)"
  let ?envE = "example_env (Inr False) None (Some (Aws (AwsError ''AccessDenied''))) client_ok
                 (Inr example_configmap)"
  let ?menv = "example_mcp_env (example_mcp (Some ''eks-1-role'') True) (Inr ''eks-1'') True None"
  let ?menvE = "example_mcp_env (example_mcp (Some ''eks-1-role'') True) (Inr ''eks-1'') True
                  (Some (Aws (AwsError ''AccessDenied'')))"
  have h1: "\<exists>ev \<in> set (res_trace (reconcileDelete example_consts True ?env
              example_template ''test-cluster'' ''org-acme'' ''control-plane'')). is_patch ev"
    by (simp add: example_defs reconcile_defs)
  have h1': "envIsRoleUsedElsewhere ?env (mtIAMInstanceProfile example_template) \<noteq> Inr True"
    and cp: "''control-plane'' = ControlPlaneRole example_consts \<and> True"
    by (simp_all add: example_defs)
  have h2: "envIsRoleUsedElsewhere ?envE (mtIAMInstanceProfile example_template) = Inr False
        \<and> (envDeleteRole ?envE = Some (Aws (AwsError ''AccessDenied''))
            \<or> (envDeleteRole ?envE = None \<and> ''control-plane'' = ControlPlaneRole example_consts
                \<and> True \<and> envDeleteRolesForIRSA ?envE = Some (Aws (AwsError ''AccessDenied''))))"
    by (simp add: example_defs)
  have h3: "\<exists>ev \<in> set (res_trace (Reconcile_mcp example_consts ?menv example_req)).
              removes_finalizer (FinalizerName (IRSARole example_consts)) ev"
    by (simp add: example_defs reconcile_defs)
  have h4: "EvDeleteRolesForIRSA \<in> set (res_trace (Reconcile_mcp example_consts ?menvE example_req))
            \<and> mcpDeleteRolesForIRSA ?menvE = Some (Aws (AwsError ''AccessDenied''))"
    by (simp add: example_defs reconcile_defs)
  note A = finalizer_removed_only_after_teardown
      [of example_consts True ?env example_template "''test-cluster''" "''org-acme''"
          "''control-plane''" _ ?menv example_req]
  note B = finalizer_removed_only_after_teardown
      [of example_consts True ?envE example_template "''test-cluster''" "''org-acme''"
          "''control-plane''" "Aws (AwsError ''AccessDenied'')" ?menvE example_req
          "Aws (AwsError ''AccessDenied'')"]
  have a: "EvDeleteRole \<in> set (before_first_patch (res_trace (reconcileDelete example_consts True
             ?env example_template ''test-cluster'' ''org-acme'' ''control-plane'')))
         \<and> EvDeleteRolesForIRSA \<in> set (before_first_patch (res_trace (reconcileDelete
             example_consts True ?env example_template ''test-cluster'' ''org-acme''
             ''control-plane'')))"
    using A h1 h1' cp by blast
  have c: "EvDeleteRolesForIRSA \<in> set (before_first_patch (res_trace (Reconcile_mcp example_consts
             ?menv example_req)))"
    using A h3 by blast
  have b: "rec_error (reconcileDelete example_consts True ?envE example_template ''test-cluster''
             ''org-acme'' ''control-plane'') = Some (Aws (AwsError ''AccessDenied''))
         \<and> patch_attempts (res_trace (reconcileDelete example_consts True ?envE example_template
             ''test-cluster'' ''org-acme'' ''control-plane'')) = 0"
    using B h2 by blast
  have d: "rec_error (Reconcile_mcp example_consts ?menvE example_req)
             = Some (Mask (Aws (AwsError ''AccessDenied'')))
         \<and> patch_attempts (res_trace (Reconcile_mcp example_consts ?menvE example_req)) = 0"
    using B h4 by blast
  show ?thesis using h1 h3 h4 a b c d by blast
qed

section \<open>Deletion: the shared-role guard\<close>

lemma loop_no_iam_calls:
  "ev \<in> set (res_trace (removeFinalizer_loop k c i ob)) \<Longrightarrow>
   ev \<noteq> EvDeleteRole \<and> ev \<noteq> EvDeleteRolesForIRSA"
proof (induction k c i ob rule: removeFinalizer_loop.induct)
  case (1 k c i object)
  from "1.prems" show ?case
    apply (subst (asm) removeFinalizer_loop.simps)
    using "1.IH"
    apply (auto simp: res_trace_def split: if_splits option.splits sum.splits prod.splits)
    done
qed

lemma removeFinalizer_no_iam_calls:
  "removeFinalizer k c ob = (e, ob', tr) \<Longrightarrow>
   EvDeleteRole \<notin> set tr \<and> EvDeleteRolesForIRSA \<notin> set tr"
  using loop_no_iam_calls[of _ k c 1 ob]
  by (auto simp: removeFinalizer_def res_trace_def split: if_splits)

lemma loop_store_ok:
  assumes nh: "\<And>j. newHelper c K j = None" and pt: "\<And>j. patch c K j = None"
  shows "objKey ob = K \<Longrightarrow> n = maxPatchRetries + 1 - i \<Longrightarrow>
     res_error (removeFinalizer_loop k c i ob) = None
     \<and> (i \<le> maxPatchRetries \<longrightarrow>
          EvPatch K (objFinalizers (RemoveFinalizer ob (FinalizerName (ControlPlaneRole k)))) None
            \<in> set (res_trace (removeFinalizer_loop k c i ob)))"
proof (induction n arbitrary: i ob)
  case 0
  then have "\<not> i \<le> maxPatchRetries" by simp
  then show ?case
    by (subst removeFinalizer_loop.simps, subst (2) removeFinalizer_loop.simps)
       (simp add: res_error_def)
next
  case (Suc n)
  then have le: "i \<le> maxPatchRetries" by simp
  let ?ob = "RemoveFinalizer ob (FinalizerName (ControlPlaneRole k))"
  have IH: "res_error (removeFinalizer_loop k c (i + 1) ?ob) = None"
    using Suc.IH[of ?ob "i + 1"] Suc.prems by simp
  have unf: "removeFinalizer_loop k c i ob =
     (case removeFinalizer_loop k c (i + 1) ?ob of
        (r, ob', tr) \<Rightarrow>
          (r, ob', [EvNewHelper (objKey ob), EvPatch (objKey ob) (objFinalizers ?ob) None] @ tr))"
    apply (subst removeFinalizer_loop.simps)
    using le nh pt Suc.prems by simp
  show ?case unfolding unf using IH Suc.prems
    by (auto simp: res_error_def res_trace_def split: prod.splits)
qed

lemma removeFinalizer_store_ok:
  assumes "\<And>j. newHelper c (objKey ob) j = None" and "\<And>j. patch c (objKey ob) j = None"
  shows "res_error (removeFinalizer k c ob) = None
     \<and> (ContainsFinalizer ob (FinalizerName (ControlPlaneRole k)) \<longrightarrow>
          EvPatch (objKey ob)
            (filter (\<lambda>x. x \<noteq> FinalizerName (ControlPlaneRole k)) (objFinalizers ob)) None
            \<in> set (res_trace (removeFinalizer k c ob)))"
proof (cases "ContainsFinalizer ob (FinalizerName (ControlPlaneRole k))")
  case False
  then show ?thesis by (simp add: removeFinalizer_def res_error_def)
next
  case True
  have "res_error (removeFinalizer_loop k c 1 ob) = None
     \<and> (1 \<le> maxPatchRetries \<longrightarrow>
          EvPatch (objKey ob)
            (objFinalizers (RemoveFinalizer ob (FinalizerName (ControlPlaneRole k)))) None
            \<in> set (res_trace (removeFinalizer_loop k c 1 ob)))"
    using assms by (intro loop_store_ok[where K = "objKey ob"]) auto
  then show ?thesis using True
    by (simp add: removeFinalizer_def maxPatchRetries_def RemoveFinalizer_def)
qed

lemma reconcileDelete_guarded_no_delete:
  assumes "envIsRoleUsedElsewhere env (mtIAMInstanceProfile mt) = Inr True"
  shows "EvDeleteRole \<notin> set (res_trace (reconcileDelete k r env mt cn ns role))
       \<and> EvDeleteRolesForIRSA \<notin> set (res_trace (reconcileDelete k r env mt cn ns role))"
  using assms
  by (auto simp: reconcileDelete_def reconcileDelete_roles_def res_trace_def
      split: sum.splits option.splits prod.splits
      dest: removeFinalizer_no_iam_calls)

lemma reconcileDelete_unguarded_deletes_once:
  assumes "envIsRoleUsedElsewhere env (mtIAMInstanceProfile mt) = Inr False"
  shows "count_list (res_trace (reconcileDelete k r env mt cn ns role)) EvDeleteRole = 1
       \<and> EvDeleteRole \<in> set (before_first_patch (res_trace (reconcileDelete k r env mt cn ns role)))"
  using reconcileDelete_front[of env mt k r cn ns role]
proof (elim disjE exE conjE)
  fix err
  assume "envIsRoleUsedElsewhere env (mtIAMInstanceProfile mt) = Inl err"
  then show ?thesis using assms by simp
next
  fix roleUsed err tr1
  assume "envIsRoleUsedElsewhere env (mtIAMInstanceProfile mt) = Inr roleUsed"
    and "reconcileDelete_roles k r env roleUsed role = (Some err, tr1)"
    and "reconcileDelete k r env mt cn ns role
           = (Result_empty, Some err, EvIsRoleUsedElsewhere (mtIAMInstanceProfile mt) # tr1)"
  then show ?thesis using assms
    by (auto simp: res_trace_def reconcileDelete_roles_cases before_first_patch_def split: if_splits)
next
  fix roleUsed tr1 rest
  assume g: "envIsRoleUsedElsewhere env (mtIAMInstanceProfile mt) = Inr roleUsed"
    and rr: "reconcileDelete_roles k r env roleUsed role = (None, tr1)"
    and tr: "res_trace (reconcileDelete k r env mt cn ns role)
           = EvIsRoleUsedElsewhere (mtIAMInstanceProfile mt) # tr1 @ [EvList cn] @ rest"
  have rest: "EvDeleteRole \<notin> set rest"
    using tr g rr assms
    by (auto simp: reconcileDelete_def res_trace_def
        split: sum.splits option.splits prod.splits dest: removeFinalizer_no_iam_calls)
  then have "count_list rest EvDeleteRole = 0" by (simp add: count_list_0_iff)
  then show ?thesis using g rr assms unfolding tr before_first_patch_def
    by (auto simp: reconcileDelete_roles_cases split: if_splits)
qed

lemma reconcileDelete_guarded_success:
  assumes g: "envIsRoleUsedElsewhere env (mtIAMInstanceProfile mt) = Inr True"
    and cl: "GetAWSClusterByName (envAWSClusters env) cn = Inr awsCluster"
    and st: "\<And>key i. newHelper (envClient env) key i = None \<and> patch (envClient env) key i = None"
    and cm: "envGetObject env (configMapKey ns cn) = Inr cm
             \<or> (\<exists>e. envGetObject env (configMapKey ns cn) = Inl e \<and> IsNotFound e)"
  shows "rec_error (reconcileDelete k r env mt cn ns role) = None
     \<and> rec_result (reconcileDelete k r env mt cn ns role) = Result_empty
     \<and> (\<forall>ob. (ob = clMeta awsCluster \<or> ob = mtMeta mt
               \<or> envGetObject env (configMapKey ns cn) = Inr ob)
              \<and> ContainsFinalizer ob (FinalizerName (ControlPlaneRole k)) \<longrightarrow>
           EvPatch (objKey ob)
             (filter (\<lambda>x. x \<noteq> FinalizerName (ControlPlaneRole k)) (objFinalizers ob)) None
             \<in> set (res_trace (reconcileDelete k r env mt cn ns role)))"
proof -
  let ?f = "FinalizerName (ControlPlaneRole k)"
  have rf: "res_error (removeFinalizer k (envClient env) ob) = None
     \<and> (ContainsFinalizer ob ?f \<longrightarrow>
          EvPatch (objKey ob) (filter (\<lambda>x. x \<noteq> ?f) (objFinalizers ob)) None
            \<in> set (res_trace (removeFinalizer k (envClient env) ob)))" for ob
    using st by (intro removeFinalizer_store_ok) auto
  obtain o2 t2 where r2: "removeFinalizer k (envClient env) (clMeta awsCluster) = (None, o2, t2)"
    using rf[of "clMeta awsCluster"]
    by (cases "removeFinalizer k (envClient env) (clMeta awsCluster)") (auto simp: res_error_def)
  obtain o3 t3 where r3: "removeFinalizer k (envClient env) (mtMeta mt) = (None, o3, t3)"
    using rf[of "mtMeta mt"]
    by (cases "removeFinalizer k (envClient env) (mtMeta mt)") (auto simp: res_error_def)
  have p2: "ContainsFinalizer (clMeta awsCluster) ?f \<longrightarrow>
      EvPatch (objKey (clMeta awsCluster)) (filter (\<lambda>x. x \<noteq> ?f) (objFinalizers (clMeta awsCluster))) None
        \<in> set t2"
    using rf[of "clMeta awsCluster"] r2 by (simp add: res_trace_def)
  have p3: "ContainsFinalizer (mtMeta mt) ?f \<longrightarrow>
      EvPatch (objKey (mtMeta mt)) (filter (\<lambda>x. x \<noteq> ?f) (objFinalizers (mtMeta mt))) None \<in> set t3"
    using rf[of "mtMeta mt"] r3 by (simp add: res_trace_def)
  have rr: "reconcileDelete_roles k r env True role = (None, [])"
    by (simp add: reconcileDelete_roles_def)
  from cm show ?thesis
  proof
    assume c: "envGetObject env (configMapKey ns cn) = Inr cm"
    obtain o4 t4 where r4: "removeFinalizer k (envClient env) cm = (None, o4, t4)"
      using rf[of cm]
      by (cases "removeFinalizer k (envClient env) cm") (auto simp: res_error_def)
    have p4: "ContainsFinalizer cm ?f \<longrightarrow>
        EvPatch (objKey cm) (filter (\<lambda>x. x \<noteq> ?f) (objFinalizers cm)) None \<in> set t4"
      using rf[of cm] r4 by (simp add: res_trace_def)
    have "reconcileDelete k r env mt cn ns role
        = (Result_empty, None,
           EvIsRoleUsedElsewhere (mtIAMInstanceProfile mt) # [] @ [EvList cn] @ t2 @ t3
             @ [EvGet (configMapKey ns cn)] @ t4)"
      using g cl rr r2 r3 c r4 by (simp add: reconcileDelete_def)
    then show ?thesis using p2 p3 p4 c
      by (auto simp: rec_error_def rec_result_def res_trace_def)
  next
    assume "\<exists>e. envGetObject env (configMapKey ns cn) = Inl e \<and> IsNotFound e"
    then obtain e where c: "envGetObject env (configMapKey ns cn) = Inl e" and nf: "IsNotFound e"
      by blast
    have "reconcileDelete k r env mt cn ns role
        = (Result_empty, None,
           EvIsRoleUsedElsewhere (mtIAMInstanceProfile mt) # [] @ [EvList cn] @ t2 @ t3
             @ [EvGet (configMapKey ns cn)])"
      using g cl rr r2 r3 c nf by (simp add: reconcileDelete_def IgnoreNotFound_def)
    then show ?thesis using p2 p3 c
      by (auto simp: rec_error_def rec_result_def res_trace_def)
  qed
qed


text \<open>
  C1. If the guard finds the role name still used by another object, \<open>reconcileDelete\<close>
  calls neither \<open>DeleteRole\<close> nor \<open>DeleteRolesForIRSA\<close>; if moreover the object store
  answers (the \<open>AWSCluster\<close> is found, the patch helper and the patches succeed, the
  cluster-values \<open>ConfigMap\<close> is read or is not found), it returns success and has patched
  the finalizer away from the \<open>AWSCluster\<close>, the machine template and the \<open>ConfigMap\<close>. If
  the guard finds no other user, \<open>DeleteRole\<close> is called exactly once, before the first
  finalizer patch. So deleting a template while another one uses the role and then
  deleting that other one calls \<open>DeleteRole\<close> exactly once in all.
\<close>

theorem reconcileDelete_shared_role_kept:
  "(envIsRoleUsedElsewhere env (mtIAMInstanceProfile mt) = Inr True \<longrightarrow>
      EvDeleteRole \<notin> set (res_trace (reconcileDelete k r env mt cn ns role))
      \<and> EvDeleteRolesForIRSA \<notin> set (res_trace (reconcileDelete k r env mt cn ns role)))
   \<and> (envIsRoleUsedElsewhere env (mtIAMInstanceProfile mt) = Inr True
        \<and> GetAWSClusterByName (envAWSClusters env) cn = Inr awsCluster
        \<and> (\<forall>key i. newHelper (envClient env) key i = None \<and> patch (envClient env) key i = None)
        \<and> (envGetObject env (configMapKey ns cn) = Inr cm
            \<or> (\<exists>e. envGetObject env (configMapKey ns cn) = Inl e \<and> IsNotFound e)) \<longrightarrow>
       rec_error (reconcileDelete k r env mt cn ns role) = None
       \<and> rec_result (reconcileDelete k r env mt cn ns role) = Result_empty
       \<and> (\<forall>ob. (ob = clMeta awsCluster \<or> ob = mtMeta mt
                 \<or> envGetObject env (configMapKey ns cn) = Inr ob)
                \<and> ContainsFinalizer ob (FinalizerName (ControlPlaneRole k)) \<longrightarrow>
             EvPatch (objKey ob)
               (filter (\<lambda>x. x \<noteq> FinalizerName (ControlPlaneRole k)) (objFinalizers ob)) None
               \<in> set (res_trace (reconcileDelete k r env mt cn ns role))))
   \<and> (envIsRoleUsedElsewhere env (mtIAMInstanceProfile mt) = Inr False \<longrightarrow>
       count_list (res_trace (reconcileDelete k r env mt cn ns role)) EvDeleteRole = 1
       \<and> EvDeleteRole \<in> set (before_first_patch (res_trace (reconcileDelete k r env mt cn ns role))))
   \<and> (envIsRoleUsedElsewhere env (mtIAMInstanceProfile mt) = Inr True
        \<and> envIsRoleUsedElsewhere env' (mtIAMInstanceProfile mt') = Inr False \<longrightarrow>
       count_list (res_trace (reconcileDelete k r env mt cn ns role)
                   @ res_trace (reconcileDelete k r env' mt' cn' ns' role')) EvDeleteRole = 1)"
proof (intro conjI impI)
  assume "envIsRoleUsedElsewhere env (mtIAMInstanceProfile mt) = Inr True"
  then show "EvDeleteRole \<notin> set (res_trace (reconcileDelete k r env mt cn ns role))"
    and "EvDeleteRolesForIRSA \<notin> set (res_trace (reconcileDelete k r env mt cn ns role))"
    using reconcileDelete_guarded_no_delete[of env mt k r cn ns role] by simp_all
next
  assume a: "envIsRoleUsedElsewhere env (mtIAMInstanceProfile mt) = Inr True
        \<and> GetAWSClusterByName (envAWSClusters env) cn = Inr awsCluster
        \<and> (\<forall>key i. newHelper (envClient env) key i = None \<and> patch (envClient env) key i = None)
        \<and> (envGetObject env (configMapKey ns cn) = Inr cm
            \<or> (\<exists>e. envGetObject env (configMapKey ns cn) = Inl e \<and> IsNotFound e))"
  have s: "rec_error (reconcileDelete k r env mt cn ns role) = None
     \<and> rec_result (reconcileDelete k r env mt cn ns role) = Result_empty
     \<and> (\<forall>ob. (ob = clMeta awsCluster \<or> ob = mtMeta mt
               \<or> envGetObject env (configMapKey ns cn) = Inr ob)
              \<and> ContainsFinalizer ob (FinalizerName (ControlPlaneRole k)) \<longrightarrow>
           EvPatch (objKey ob)
             (filter (\<lambda>x. x \<noteq> FinalizerName (ControlPlaneRole k)) (objFinalizers ob)) None
             \<in> set (res_trace (reconcileDelete k r env mt cn ns role)))"
    using a by (intro reconcileDelete_guarded_success[where cm = cm]) auto
  from s show "rec_error (reconcileDelete k r env mt cn ns role) = None" by simp
  from s show "rec_result (reconcileDelete k r env mt cn ns role) = Result_empty" by simp
  from s show "\<forall>ob. (ob = clMeta awsCluster \<or> ob = mtMeta mt
               \<or> envGetObject env (configMapKey ns cn) = Inr ob)
              \<and> ContainsFinalizer ob (FinalizerName (ControlPlaneRole k)) \<longrightarrow>
           EvPatch (objKey ob)
             (filter (\<lambda>x. x \<noteq> FinalizerName (ControlPlaneRole k)) (objFinalizers ob)) None
             \<in> set (res_trace (reconcileDelete k r env mt cn ns role))" by simp
next
  assume "envIsRoleUsedElsewhere env (mtIAMInstanceProfile mt) = Inr False"
  then show "count_list (res_trace (reconcileDelete k r env mt cn ns role)) EvDeleteRole = 1"
    and "EvDeleteRole \<in> set (before_first_patch (res_trace (reconcileDelete k r env mt cn ns role)))"
    using reconcileDelete_unguarded_deletes_once[of env mt k r cn ns role] by simp_all
next
  assume a: "envIsRoleUsedElsewhere env (mtIAMInstanceProfile mt) = Inr True
        \<and> envIsRoleUsedElsewhere env' (mtIAMInstanceProfile mt') = Inr False"
  then have "count_list (res_trace (reconcileDelete k r env mt cn ns role)) EvDeleteRole = 0"
    using reconcileDelete_guarded_no_delete[of env mt k r cn ns role]
    by (simp add: count_list_0_iff)
  moreover have "count_list (res_trace (reconcileDelete k r env' mt' cn' ns' role')) EvDeleteRole = 1"
    using a reconcileDelete_unguarded_deletes_once[of env' mt' k r cn' ns' role'] by simp
  ultimately show "count_list (res_trace (reconcileDelete k r env mt cn ns role)
                   @ res_trace (reconcileDelete k r env' mt' cn' ns' role')) EvDeleteRole = 1"
    by simp
qed

theorem reconcileDelete_shared_role_kept_witness:
  "envIsRoleUsedElsewhere (example_env (Inr True) None None client_ok (Inr example_configmap))
       (mtIAMInstanceProfile example_template) = Inr True
   \<and> GetAWSClusterByName
        (envAWSClusters (example_env (Inr True) None None client_ok (Inr example_configmap)))
        ''test-cluster'' = Inr example_cluster
   \<and> envIsRoleUsedElsewhere (example_env (Inr False) None None client_ok (Inr example_configmap))
       (mtIAMInstanceProfile example_template) = Inr False
   \<and> EvDeleteRole \<notin> set (res_trace (reconcileDelete example_consts True
        (example_env (Inr True) None None client_ok (Inr example_configmap))
        example_template ''test-cluster'' ''org-acme'' ''control-plane''))
   \<and> rec_error (reconcileDelete example_consts True
        (example_env (Inr True) None None client_ok (Inr example_configmap))
        example_template ''test-cluster'' ''org-acme'' ''control-plane'') = None
   \<and> EvPatch (''AWSMachineTemplate'', ''org-acme'', ''test-cluster-control-plane'') [] None
       \<in> set (res_trace (reconcileDelete example_consts True
        (example_env (Inr True) None None client_ok (Inr example_configmap))
        example_template ''test-cluster'' ''org-acme'' ''control-plane''))
   \<and> count_list (res_trace (reconcileDelete example_consts True
        (example_env (Inr False) None None client_ok (Inr example_configmap))
        example_template ''test-cluster'' ''org-acme'' ''control-plane'')) EvDeleteRole = 1
   \<and> count_list (res_trace (reconcileDelete example_consts True
        (example_env (Inr True) None None client_ok (Inr example_configmap))
        example_template ''test-cluster'' ''org-acme'' ''control-plane'')
      @ res_trace (reconcileDelete example_consts True
        (example_env (Inr False) None None client_ok (Inr example_configmap))
        example_template ''test-cluster'' ''org-acme'' ''control-plane'')) EvDeleteRole = 1"
proof -
  let ?A = "example_env (Inr True) None None client_ok (Inr example_configmap)"
  let ?B = "example_env (Inr False) None None client_ok (Inr example_configmap)"
  let ?f = "FinalizerName (ControlPlaneRole example_consts)"
  have gA: "envIsRoleUsedElsewhere ?A (mtIAMInstanceProfile example_template) = Inr True"
    and gB: "envIsRoleUsedElsewhere ?B (mtIAMInstanceProfile example_template) = Inr False"
    and cl: "GetAWSClusterByName (envAWSClusters ?A) ''test-cluster'' = Inr example_cluster"
    and st: "\<forall>key i. newHelper (envClient ?A) key i = None \<and> patch (envClient ?A) key i = None"
    and cm: "envGetObject ?A (configMapKey ''org-acme'' ''test-cluster'') = Inr example_configmap"
    and cf: "ContainsFinalizer (mtMeta example_template) ?f"
    and ky: "objKey (mtMeta example_template)
              = (''AWSMachineTemplate'', ''org-acme'', ''test-cluster-control-plane'')"
    and fs: "filter (\<lambda>x. x \<noteq> ?f) (objFinalizers (mtMeta example_template)) = []"
    by (simp_all add: example_defs GetAWSClusterByName_def List_AWSCluster_def
        MatchingLabels_def ClusterNameLabel_def ContainsFinalizer_def objKey_def FinalizerName_def)
  note T = reconcileDelete_shared_role_kept
      [of ?A example_template example_consts True "''test-cluster''" "''org-acme''"
          "''control-plane''" example_cluster example_configmap
          ?B example_template "''test-cluster''" "''org-acme''" "''control-plane''"]
  note U = reconcileDelete_shared_role_kept
      [of ?B example_template example_consts True "''test-cluster''" "''org-acme''"
          "''control-plane''"]
  have a: "EvDeleteRole \<notin> set (res_trace (reconcileDelete example_consts True ?A
             example_template ''test-cluster'' ''org-acme'' ''control-plane''))"
    using T gA by blast
  have b: "rec_error (reconcileDelete example_consts True ?A
             example_template ''test-cluster'' ''org-acme'' ''control-plane'') = None
     \<and> (\<forall>ob. (ob = clMeta example_cluster \<or> ob = mtMeta example_template
                 \<or> envGetObject ?A (configMapKey ''org-acme'' ''test-cluster'') = Inr ob)
                \<and> ContainsFinalizer ob ?f \<longrightarrow>
             EvPatch (objKey ob) (filter (\<lambda>x. x \<noteq> ?f) (objFinalizers ob)) None
               \<in> set (res_trace (reconcileDelete example_consts True ?A
             example_template ''test-cluster'' ''org-acme'' ''control-plane'')))"
    using T gA cl st cm by blast
  then have b2: "EvPatch (objKey (mtMeta example_template))
                   (filter (\<lambda>x. x \<noteq> ?f) (objFinalizers (mtMeta example_template))) None
               \<in> set (res_trace (reconcileDelete example_consts True ?A
             example_template ''test-cluster'' ''org-acme'' ''control-plane''))"
    using cf by blast
  have c: "count_list (res_trace (reconcileDelete example_consts True ?B
             example_template ''test-cluster'' ''org-acme'' ''control-plane'')) EvDeleteRole = 1"
    using U gB by blast
  have d: "count_list (res_trace (reconcileDelete example_consts True ?A
             example_template ''test-cluster'' ''org-acme'' ''control-plane'')
      @ res_trace (reconcileDelete example_consts True ?B
             example_template ''test-cluster'' ''org-acme'' ''control-plane'')) EvDeleteRole = 1"
    using T gA gB by blast
  show ?thesis using gA gB cl a b b2 c d unfolding ky fs by blast
qed

section \<open>Deletion: resources that are not found\<close>

lemma deleteInlinePolicies_ok:
  "list_all (\<lambda>p. ignoreNotFoundAws (iamDeleteRolePolicy env roleName p) = None) ps \<Longrightarrow>
   deleteInlinePolicies env roleName ps = (None, map (DeleteRolePolicy roleName) ps)"
  by (induction ps) auto

lemma DeleteRole_spec_ok:
  assumes "teardown_ok_or_absent env roleName"
  shows "fst (DeleteRole_spec env roleName) = None
         \<and> DeleteRoleCall roleName \<in> set (snd (DeleteRole_spec env roleName))"
proof (cases "iamListRolePolicies env roleName")
  case (Inl err)
  then show ?thesis using assms
    by (simp add: teardown_ok_or_absent_def DeleteRole_spec_def)
next
  case (Inr ps)
  then have "deleteInlinePolicies env roleName ps = (None, map (DeleteRolePolicy roleName) ps)"
    using assms by (intro deleteInlinePolicies_ok) (simp add: teardown_ok_or_absent_def)
  then show ?thesis using assms Inr
    by (simp add: teardown_ok_or_absent_def DeleteRole_spec_def)
qed

lemma reconcileDelete_configmap_absent:
  assumes "envIsRoleUsedElsewhere env (mtIAMInstanceProfile mt) = Inr roleUsed"
    and "fst (reconcileDelete_roles k r env roleUsed role) = None"
    and "GetAWSClusterByName (envAWSClusters env) cn = Inr awsCluster"
    and "res_error (removeFinalizer k (envClient env) (clMeta awsCluster)) = None"
    and "res_error (removeFinalizer k (envClient env) (mtMeta mt)) = None"
    and "envGetObject env (configMapKey ns cn) = Inl e" and "IsNotFound e"
  shows "rec_error (reconcileDelete k r env mt cn ns role) = None
         \<and> rec_result (reconcileDelete k r env mt cn ns role) = Result_empty"
  using assms
  by (auto simp: reconcileDelete_def rec_error_def rec_result_def res_error_def IgnoreNotFound_def
      split: prod.splits option.splits)

text \<open>
  C8, as amended. During deletion "not found" is success at these places: when the
  cluster-values \<open>ConfigMap\<close> is not found, \<open>reconcileDelete\<close>, having come that far, returns
  no error; \<open>DeleteRole\<close>, as the specification describes it, succeeds and goes through to
  the deletion of the role when every step of the teardown answers success or "not
  found"; and \<open>Reconcile\<close> returns success when the object it is called for is not found.
\<close>

theorem not_found_is_success_on_deletion:
  "(envIsRoleUsedElsewhere env (mtIAMInstanceProfile mt) = Inr roleUsed
      \<and> fst (reconcileDelete_roles k r env roleUsed role) = None
      \<and> GetAWSClusterByName (envAWSClusters env) cn = Inr awsCluster
      \<and> res_error (removeFinalizer k (envClient env) (clMeta awsCluster)) = None
      \<and> res_error (removeFinalizer k (envClient env) (mtMeta mt)) = None
      \<and> envGetObject env (configMapKey ns cn) = Inl e \<and> IsNotFound e \<longrightarrow>
     rec_error (reconcileDelete k r env mt cn ns role) = None
     \<and> rec_result (reconcileDelete k r env mt cn ns role) = Result_empty)
   \<and> (teardown_ok_or_absent ienv roleName \<longrightarrow>
       fst (DeleteRole_spec ienv roleName) = None
       \<and> DeleteRoleCall roleName \<in> set (snd (DeleteRole_spec ienv roleName)))
   \<and> (mcpGet menv req = Inl e' \<and> IsNotFound e' \<longrightarrow>
       Reconcile_mcp k menv req = (Result_empty, None, [EvGet req]))"
proof (intro conjI impI)
  assume a: "envIsRoleUsedElsewhere env (mtIAMInstanceProfile mt) = Inr roleUsed
      \<and> fst (reconcileDelete_roles k r env roleUsed role) = None
      \<and> GetAWSClusterByName (envAWSClusters env) cn = Inr awsCluster
      \<and> res_error (removeFinalizer k (envClient env) (clMeta awsCluster)) = None
      \<and> res_error (removeFinalizer k (envClient env) (mtMeta mt)) = None
      \<and> envGetObject env (configMapKey ns cn) = Inl e \<and> IsNotFound e"
  have "rec_error (reconcileDelete k r env mt cn ns role) = None
         \<and> rec_result (reconcileDelete k r env mt cn ns role) = Result_empty"
    using a by (intro reconcileDelete_configmap_absent[where e = e and awsCluster = awsCluster
                  and roleUsed = roleUsed]) auto
  then show "rec_error (reconcileDelete k r env mt cn ns role) = None"
    and "rec_result (reconcileDelete k r env mt cn ns role) = Result_empty" by simp_all
next
  assume "teardown_ok_or_absent ienv roleName"
  then show "fst (DeleteRole_spec ienv roleName) = None"
    and "DeleteRoleCall roleName \<in> set (snd (DeleteRole_spec ienv roleName))"
    using DeleteRole_spec_ok by simp_all
next
  assume "mcpGet menv req = Inl e' \<and> IsNotFound e'"
  then show "Reconcile_mcp k menv req = (Result_empty, None, [EvGet req])"
    by (simp add: Reconcile_mcp_def)
qed

theorem not_found_is_success_on_deletion_witness:
  "IsNotFound (Single (StatusError StatusReasonNotFound))
   \<and> rec_error (reconcileDelete example_consts True
        (example_env (Inr False) None None client_ok
           (Inl (Single (StatusError StatusReasonNotFound))))
        example_template ''test-cluster'' ''org-acme'' ''control-plane'') = None
   \<and> teardown_ok_or_absent example_iam_resumed ''control-plane-test-cluster''
   \<and> DeleteRole_spec example_iam_resumed ''control-plane-test-cluster''
      = (None,
         [ListRolePolicies ''control-plane-test-cluster'',
          DeleteRolePolicy ''control-plane-test-cluster'' ''control-plane-test-cluster-policy'',
          RemoveRoleFromInstanceProfile ''control-plane-test-cluster'' ''control-plane-test-cluster'',
          DeleteInstanceProfile ''control-plane-test-cluster'',
          DeleteRoleCall ''control-plane-test-cluster''])
   \<and> Reconcile_mcp example_consts
        ((example_mcp_env (example_mcp None True) (Inr ''eks-1'') True None)
           \<lparr>mcpGet := (\<lambda>req. Inl (Single (StatusError StatusReasonNotFound)))\<rparr>) example_req
      = (Result_empty, None, [EvGet example_req])"
proof -
  let ?nf = "Single (StatusError StatusReasonNotFound)"
  let ?env = "example_env (Inr False) None None client_ok (Inl ?nf)"
  let ?menv = "(example_mcp_env (example_mcp None True) (Inr ''eks-1'') True None)
                 \<lparr>mcpGet := (\<lambda>req. Inl ?nf)\<rparr>"
  have h: "envIsRoleUsedElsewhere ?env (mtIAMInstanceProfile example_template) = Inr False
      \<and> fst (reconcileDelete_roles example_consts True ?env False ''control-plane'') = None
      \<and> GetAWSClusterByName (envAWSClusters ?env) ''test-cluster'' = Inr example_cluster
      \<and> res_error (removeFinalizer example_consts (envClient ?env) (clMeta example_cluster)) = None
      \<and> res_error (removeFinalizer example_consts (envClient ?env) (mtMeta example_template)) = None
      \<and> envGetObject ?env (configMapKey ''org-acme'' ''test-cluster'') = Inl ?nf \<and> IsNotFound ?nf"
    by (simp add: example_defs reconcile_defs)
  have t: "teardown_ok_or_absent example_iam_resumed ''control-plane-test-cluster''"
    by (simp add: teardown_ok_or_absent_def example_iam_resumed_def ignoreNotFoundAws_def
        IsNotFoundAws_def ErrCodeNoSuchEntityException_def)
  have g: "mcpGet ?menv example_req = Inl ?nf \<and> IsNotFound ?nf"
    by simp
  have d: "DeleteRole_spec example_iam_resumed ''control-plane-test-cluster''
      = (None,
         [ListRolePolicies ''control-plane-test-cluster'',
          DeleteRolePolicy ''control-plane-test-cluster'' ''control-plane-test-cluster-policy'',
          RemoveRoleFromInstanceProfile ''control-plane-test-cluster'' ''control-plane-test-cluster'',
          DeleteInstanceProfile ''control-plane-test-cluster'',
          DeleteRoleCall ''control-plane-test-cluster''])"
    by (simp add: DeleteRole_spec_def example_iam_resumed_def ignoreNotFoundAws_def
        IsNotFoundAws_def ErrCodeNoSuchEntityException_def)
  note T = not_found_is_success_on_deletion
      [of ?env example_template False example_consts True "''control-plane''" "''test-cluster''"
          example_cluster "''org-acme''" ?nf example_iam_resumed "''control-plane-test-cluster''"
          ?menv example_req ?nf]
  have a: "rec_error (reconcileDelete example_consts True ?env example_template ''test-cluster''
             ''org-acme'' ''control-plane'') = None"
    using T h by blast
  have b: "fst (DeleteRole_spec example_iam_resumed ''control-plane-test-cluster'') = None"
    using T t by blast
  have c: "Reconcile_mcp example_consts ?menv example_req = (Result_empty, None, [EvGet example_req])"
    using T g by blast
  show ?thesis using a b c d t g by simp
qed

text \<open>
  C8 as stated fails: "not found" is surfaced as a failure when it is the answer to a
  finalizer patch. Here the role is still used elsewhere, the \<open>AWSCluster\<close> is gone by the
  time its finalizer is patched, and \<open>reconcileDelete\<close> returns that error.
\<close>

theorem not_found_on_patch_is_failure:
  "IsNotFound (Single (StatusError StatusReasonNotFound))
   \<and> rec_error (reconcileDelete example_consts True
        (example_env (Inr True) None None
           (client_failing (Single (StatusError StatusReasonNotFound))) (Inr example_configmap))
        example_template ''test-cluster'' ''org-acme'' ''control-plane'')
      = Some (Mask (Raw (Single (StatusError StatusReasonNotFound))))"
  by (simp add: example_defs reconcile_defs)

section \<open>Rotation of the issuer domain\<close>

lemma andThen_cases:
  "(\<exists>err. run_error run = Some err \<and> andThen run next = run)
   \<or> (run_error run = None
       \<and> andThen run next
           = (run_error (next (run_final run)), run_final (next (run_final run)),
              run_steps run @ run_steps (next (run_final run))))"
  by (cases run; cases "fst run")
     (auto simp: andThen_def run_error_def run_final_def run_steps_def split: prod.splits)

lemma andThen_keeps_trust:
  assumes "run_keeps_trust cur old r run"
    and "\<And>s. trusts_old_or_new cur old s r \<Longrightarrow> run_keeps_trust cur old r (next s)"
  shows "run_keeps_trust cur old r (andThen run next)"
  using andThen_cases[of run "next"] assms
  by (auto simp: run_keeps_trust_def run_final_def run_steps_def)

lemma ensuredTrust_has_current: "cur \<in> set (ensuredTrust cur old observed)"
  by (auto simp: ensuredTrust_def split: option.splits)

lemma irsaEnsureRole_keeps_trust:
  "trusts_old_or_new cur old s r \<Longrightarrow> run_keeps_trust cur old r (irsaEnsureRole f cur old r' s)"
  by (auto simp: irsaEnsureRole_def run_keeps_trust_def run_final_def run_steps_def
      trusts_old_or_new_def ensuredTrust_has_current split: option.splits)

lemma irsaEnsureInlinePolicy_keeps_trust:
  "trusts_old_or_new cur old s r \<Longrightarrow> run_keeps_trust cur old r (irsaEnsureInlinePolicy f b s)"
  by (auto simp: irsaEnsureInlinePolicy_def run_keeps_trust_def run_final_def run_steps_def
      split: option.splits)

lemma irsaRotate_keeps_trust:
  "trusts_old_or_new cur old s r \<Longrightarrow> run_keeps_trust cur old r (irsaRotate f cur old r' s)"
  by (auto simp: irsaRotate_def run_keeps_trust_def run_final_def run_steps_def
      trusts_old_or_new_def rotation_def split: option.splits)

lemma reconcileBinding_keeps_trust:
  "trusts_old_or_new cur old s r \<Longrightarrow> run_keeps_trust cur old r (reconcileBinding f cur old s b)"
  unfolding reconcileBinding_def
  by (intro andThen_keeps_trust irsaEnsureRole_keeps_trust irsaEnsureInlinePolicy_keeps_trust
      irsaRotate_keeps_trust)

lemma reconcileBindings_keeps_trust:
  "trusts_old_or_new cur old s r \<Longrightarrow> run_keeps_trust cur old r (reconcileBindings f cur old s bs)"
proof (induction bs arbitrary: s)
  case Nil
  then show ?case by (simp add: run_keeps_trust_def run_final_def run_steps_def)
next
  case (Cons b bs)
  show ?case
    unfolding reconcileBindings.simps
    by (intro andThen_keeps_trust reconcileBinding_keeps_trust Cons.prems Cons.IH)
qed

lemma rac_mono:
  "removal_after_confirm C evs \<Longrightarrow> set C \<subseteq> set C' \<Longrightarrow> removal_after_confirm C' evs"
proof (induction evs arbitrary: C C')
  case Nil
  then show ?case by simp
next
  case (Cons ev evs)
  show ?case
  proof (cases ev)
    case (TrustConfirmed r d)
    then show ?thesis using Cons.prems Cons.IH[of "r # C" "r # C'"] by auto
  next
    case (OldRemoved r d)
    then show ?thesis using Cons.prems Cons.IH[of C C'] by auto
  next
    case (TrustWritten r t)
    then show ?thesis using Cons.prems Cons.IH[of C C'] by auto
  next
    case (PolicyWritten r p)
    then show ?thesis using Cons.prems Cons.IH[of C C'] by auto
  qed
qed

lemma rac_append:
  "removal_after_confirm C xs \<Longrightarrow> removal_after_confirm C ys \<Longrightarrow>
   removal_after_confirm C (xs @ ys)"
proof (induction xs arbitrary: C)
  case Nil
  then show ?case by simp
next
  case (Cons ev xs)
  show ?case
  proof (cases ev)
    case (TrustConfirmed r d)
    have "removal_after_confirm (r # C) ys"
      using Cons.prems(2) by (rule rac_mono) auto
    then show ?thesis using TrustConfirmed Cons.prems Cons.IH[of "r # C"] by simp
  next
    case (OldRemoved r d)
    then show ?thesis using Cons.prems Cons.IH[of C] by simp
  next
    case (TrustWritten r t)
    then show ?thesis using Cons.prems Cons.IH[of C] by simp
  next
    case (PolicyWritten r p)
    then show ?thesis using Cons.prems Cons.IH[of C] by simp
  qed
qed

lemma andThen_ordered:
  assumes "steps_ordered cur run" and "\<And>s. steps_ordered cur (next s)"
  shows "steps_ordered cur (andThen run next)"
  using andThen_cases[of run "next"] assms
  by (auto simp: steps_ordered_def run_steps_def rac_append)

lemma irsaEnsureRole_ordered: "steps_ordered cur (irsaEnsureRole f cur old r s)"
  by (auto simp: irsaEnsureRole_def steps_ordered_def run_steps_def split: option.splits)

lemma irsaEnsureInlinePolicy_ordered: "steps_ordered cur (irsaEnsureInlinePolicy f b s)"
  by (auto simp: irsaEnsureInlinePolicy_def steps_ordered_def run_steps_def split: option.splits)

lemma irsaRotate_ordered: "steps_ordered cur (irsaRotate f cur old r s)"
  by (auto simp: irsaRotate_def steps_ordered_def run_steps_def rotation_def split: option.splits)

lemma reconcileBindings_ordered: "steps_ordered cur (reconcileBindings f cur old s bs)"
proof (induction bs arbitrary: s)
  case Nil
  then show ?case by (simp add: steps_ordered_def run_steps_def)
next
  case (Cons b bs)
  show ?case
    unfolding reconcileBindings.simps reconcileBinding_def
    by (intro andThen_ordered irsaEnsureRole_ordered irsaEnsureInlinePolicy_ordered
        irsaRotate_ordered Cons.IH)
qed


lemma AddFinalizer_idem: "f \<in> set (objFinalizers ob) \<Longrightarrow> AddFinalizer ob f = ob"
  by (simp add: AddFinalizer_def)

lemma reconcileNormal_irsa_call:
  assumes "EvReconcileRolesForIRSA a d od \<in> set (res_trace (reconcileNormal_irsa env mt cl cn ns))"
  shows "od = envGetAdditionalIrsaDomain env mt
         \<and> (\<exists>base. envGetBaseDomain env cn ns = Inr base
                    \<and> d = envIRSADomain env base (clRegion cl) a cn)"
  using assms
  by (auto simp: reconcileNormal_irsa_def res_trace_def split: sum.splits option.splits)

lemma reconcileNormal_hands_over_both_domains:
  assumes "EvReconcileRolesForIRSA a d od \<in> set (res_trace (reconcileNormal k e env mt cn ns role))"
  shows "od = envGetAdditionalIrsaDomain env
               (mt\<lparr>mtMeta := AddFinalizer (mtMeta mt) (FinalizerName (ControlPlaneRole k))\<rparr>)
         \<and> (\<exists>base cl. GetAWSClusterByName (envAWSClusters env) cn = Inr cl
                       \<and> envGetBaseDomain env cn ns = Inr base
                       \<and> d = envIRSADomain env base (clRegion cl) a cn)"
proof -
  let ?f = "FinalizerName (ControlPlaneRole k)"
  obtain er ob1 tr1 where af:
    "reconcileNormal_addFinalizer k (envClient env) (mtMeta mt) ?f = (er, ob1, tr1)"
    by (cases "reconcileNormal_addFinalizer k (envClient env) (mtMeta mt) ?f") auto
  have tr1: "EvReconcileRolesForIRSA a d od \<notin> set tr1"
    using af by (auto simp: reconcileNormal_addFinalizer_def split: if_splits option.splits)
  have ob1: "er = None \<Longrightarrow> ob1 = AddFinalizer (mtMeta mt) ?f"
    using af
    by (auto simp: reconcileNormal_addFinalizer_def ContainsFinalizer_def AddFinalizer_idem
        split: if_splits option.splits)
  show ?thesis
  proof (cases er)
    case (Some err)
    then show ?thesis using assms af tr1 by (simp add: reconcileNormal_def res_trace_def)
  next
    case None
    show ?thesis
    proof (cases "GetAWSClusterByName (envAWSClusters env) cn")
      case (Inl err)
      then show ?thesis using assms af tr1 None by (simp add: reconcileNormal_def res_trace_def)
    next
      case (Inr cl)
      have "EvReconcileRolesForIRSA a d od
              \<in> set (res_trace (reconcileNormal_irsa env (mt\<lparr>mtMeta := ob1\<rparr>) cl cn ns))"
        using assms af tr1 None Inr
        by (auto simp: reconcileNormal_def res_trace_def split: option.splits if_splits prod.splits)
      from reconcileNormal_irsa_call[OF this] obtain base where
        "od = envGetAdditionalIrsaDomain env (mt\<lparr>mtMeta := ob1\<rparr>)"
        "envGetBaseDomain env cn ns = Inr base"
        "d = envIRSADomain env base (clRegion cl) a cn"
        by blast
      then show ?thesis using ob1[OF None] Inr by blast
    qed
  qed
qed

text \<open>
  C2. \<open>reconcileNormal\<close> hands the current and the previous issuer domain to the manager in
  one call. In a run of the manager, as the specification describes it and whatever
  remote calls fail, a role that trusted the old or the current issuer before (or did
  not exist) trusts the old or the current issuer in every remote state observed during
  the run and in the state the run leaves; the old issuer's statement is removed from a
  role only after the trust of that role for the current issuer was confirmed, and the
  state right after the removal trusts the current issuer.
\<close>

theorem rotation_keeps_a_trusted_issuer:
  "(trusts_old_or_new cur old s0 r \<longrightarrow>
      run_keeps_trust cur old r (ReconcileRolesForIRSA_spec f catalog s0 accountID cur old))
   \<and> steps_ordered cur (ReconcileRolesForIRSA_spec f catalog s0 accountID cur old)
   \<and> removal_after_confirm []
        (map fst (run_steps (ReconcileRolesForIRSA_spec f catalog s0 accountID cur old)))
   \<and> (EvReconcileRolesForIRSA a d od \<in> set (res_trace (reconcileNormal k e env mt cn ns role)) \<longrightarrow>
       od = envGetAdditionalIrsaDomain env
              (mt\<lparr>mtMeta := AddFinalizer (mtMeta mt) (FinalizerName (ControlPlaneRole k))\<rparr>)
       \<and> (\<exists>base cl. GetAWSClusterByName (envAWSClusters env) cn = Inr cl
                       \<and> envGetBaseDomain env cn ns = Inr base
                       \<and> d = envIRSADomain env base (clRegion cl) a cn))"
proof (intro conjI impI)
  assume "trusts_old_or_new cur old s0 r"
  then show "run_keeps_trust cur old r (ReconcileRolesForIRSA_spec f catalog s0 accountID cur old)"
    using reconcileBindings_keeps_trust[of cur old s0 r f catalog]
    by (cases "cur = []")
       (auto simp: ReconcileRolesForIRSA_spec_def run_keeps_trust_def run_final_def run_steps_def)
next
  show o: "steps_ordered cur (ReconcileRolesForIRSA_spec f catalog s0 accountID cur old)"
    using reconcileBindings_ordered[of cur f old s0 catalog]
    by (simp add: ReconcileRolesForIRSA_spec_def steps_ordered_def run_steps_def)
  then show "removal_after_confirm []
        (map fst (run_steps (ReconcileRolesForIRSA_spec f catalog s0 accountID cur old)))"
    by (simp add: steps_ordered_def)
next
  assume "EvReconcileRolesForIRSA a d od \<in> set (res_trace (reconcileNormal k e env mt cn ns role))"
  then show "od = envGetAdditionalIrsaDomain env
              (mt\<lparr>mtMeta := AddFinalizer (mtMeta mt) (FinalizerName (ControlPlaneRole k))\<rparr>)"
    and "\<exists>base cl. GetAWSClusterByName (envAWSClusters env) cn = Inr cl
                       \<and> envGetBaseDomain env cn ns = Inr base
                       \<and> d = envIRSADomain env base (clRegion cl) a cn"
    using reconcileNormal_hands_over_both_domains by blast+
qed


lemmas irsa_defs =
  ReconcileRolesForIRSA_spec_def reconcileBinding_def andThen_def irsaEnsureRole_def
  irsaEnsureInlinePolicy_def irsaRotate_def ensuredTrust_def rotation_def
  example_catalog_def example_remote_def no_faults_def run_steps_def run_final_def run_error_def

theorem rotation_keeps_a_trusted_issuer_witness:
  "rotation ''irsa.test-cluster.example.com'' ''old.example.com''
   \<and> trusts_old_or_new ''irsa.test-cluster.example.com'' ''old.example.com'' example_remote
        ''test-cluster-Route53Manager-Role''
   \<and> run_keeps_trust ''irsa.test-cluster.example.com'' ''old.example.com''
        ''test-cluster-Route53Manager-Role''
        (ReconcileRolesForIRSA_spec no_faults example_catalog example_remote ''123456789999''
           ''irsa.test-cluster.example.com'' ''old.example.com'')
   \<and> map (\<lambda>(ev, s). (ev, s ''test-cluster-Route53Manager-Role''))
        (run_steps (ReconcileRolesForIRSA_spec no_faults example_catalog example_remote
           ''123456789999'' ''irsa.test-cluster.example.com'' ''old.example.com''))
      = [(TrustWritten ''test-cluster-Route53Manager-Role''
            [''irsa.test-cluster.example.com'', ''old.example.com''],
          Some [''irsa.test-cluster.example.com'', ''old.example.com'']),
         (PolicyWritten ''test-cluster-Route53Manager-Role'' ''control-plane-test-cluster-policy'',
          Some [''irsa.test-cluster.example.com'', ''old.example.com'']),
         (TrustConfirmed ''test-cluster-Route53Manager-Role'' ''irsa.test-cluster.example.com'',
          Some [''irsa.test-cluster.example.com'', ''old.example.com'']),
         (OldRemoved ''test-cluster-Route53Manager-Role'' ''old.example.com'',
          Some [''irsa.test-cluster.example.com'']),
         (TrustWritten ''test-cluster-CertManager-Role''
            [''irsa.test-cluster.example.com'', ''old.example.com''],
          Some [''irsa.test-cluster.example.com'']),
         (PolicyWritten ''test-cluster-CertManager-Role'' ''control-plane-test-cluster-policy'',
          Some [''irsa.test-cluster.example.com'']),
         (TrustConfirmed ''test-cluster-CertManager-Role'' ''irsa.test-cluster.example.com'',
          Some [''irsa.test-cluster.example.com'']),
         (OldRemoved ''test-cluster-CertManager-Role'' ''old.example.com'',
          Some [''irsa.test-cluster.example.com''])]
   \<and> EvReconcileRolesForIRSA ''123456789999'' ''irsa.test-cluster.example.com'' ''old.example.com''
       \<in> set (res_trace (reconcileNormal example_consts True
            ((example_env (Inr False) None None client_ok (Inr example_configmap))
               \<lparr>envGetAdditionalIrsaDomain := (\<lambda>t. ''old.example.com'')\<rparr>)
            example_template ''test-cluster'' ''org-acme'' ''control-plane''))
   \<and> envGetAdditionalIrsaDomain
        ((example_env (Inr False) None None client_ok (Inr example_configmap))
           \<lparr>envGetAdditionalIrsaDomain := (\<lambda>t. ''old.example.com'')\<rparr>)
        (example_template\<lparr>mtMeta := AddFinalizer (mtMeta example_template)
           (FinalizerName (ControlPlaneRole example_consts))\<rparr>) = ''old.example.com''"
proof -
  let ?cur = "''irsa.test-cluster.example.com''" and ?old = "''old.example.com''"
  let ?r = "''test-cluster-Route53Manager-Role''"
  let ?env = "(example_env (Inr False) None None client_ok (Inr example_configmap))
               \<lparr>envGetAdditionalIrsaDomain := (\<lambda>t. ''old.example.com'')\<rparr>"
  have rot: "rotation ?cur ?old" by (simp add: rotation_def)
  have h: "trusts_old_or_new ?cur ?old example_remote ?r"
    by (simp add: trusts_old_or_new_def example_remote_def)
  have ev: "EvReconcileRolesForIRSA ''123456789999'' ?cur ?old
       \<in> set (res_trace (reconcileNormal example_consts True ?env
            example_template ''test-cluster'' ''org-acme'' ''control-plane''))"
    by (simp add: reconcileNormal_def reconcileNormal_irsa_def example_defs reconcile_defs)
  have steps: "map (\<lambda>(ev, s). (ev, s ?r))
        (run_steps (ReconcileRolesForIRSA_spec no_faults example_catalog example_remote
           ''123456789999'' ?cur ?old))
      = [(TrustWritten ?r [?cur, ?old], Some [?cur, ?old]),
         (PolicyWritten ?r ''control-plane-test-cluster-policy'', Some [?cur, ?old]),
         (TrustConfirmed ?r ?cur, Some [?cur, ?old]),
         (OldRemoved ?r ?old, Some [?cur]),
         (TrustWritten ''test-cluster-CertManager-Role'' [?cur, ?old], Some [?cur]),
         (PolicyWritten ''test-cluster-CertManager-Role'' ''control-plane-test-cluster-policy'',
          Some [?cur]),
         (TrustConfirmed ''test-cluster-CertManager-Role'' ?cur, Some [?cur]),
         (OldRemoved ''test-cluster-CertManager-Role'' ?old, Some [?cur])]"
    by (simp add: irsa_defs)
  note T = rotation_keeps_a_trusted_issuer
      [of ?cur ?old example_remote ?r no_faults example_catalog "''123456789999''"
          "''123456789999''" ?cur ?old example_consts True ?env example_template
          "''test-cluster''" "''org-acme''" "''control-plane''"]
  have a: "run_keeps_trust ?cur ?old ?r
        (ReconcileRolesForIRSA_spec no_faults example_catalog example_remote ''123456789999''
           ?cur ?old)"
    using T h by blast
  have b: "?old = envGetAdditionalIrsaDomain ?env
              (example_template\<lparr>mtMeta := AddFinalizer (mtMeta example_template)
                 (FinalizerName (ControlPlaneRole example_consts))\<rparr>)"
    using T ev by blast
  show ?thesis using rot h a b ev steps by simp
qed

end
